theory Spec2Isabelle
  imports Main "HOL-Library.Multiset"
begin


section \<open>Pointers\<close>

text \<open>
  A C pointer is an address; \<open>NULL\<close> is address 0. Pointer arithmetic is addition on
  addresses.
\<close>

type_synonym ptr = nat

definition NULL :: ptr where
  "NULL = 0"

section \<open>dbus-memory.c: the allocation wrappers\<close>

text \<open>
  The C library below the wrappers is a parameter: \<open>getenv\<close>, \<open>atoi\<close>, the four heap
  calls over an abstract heap \<open>'h\<close>, and the width of \<open>size_t\<close>. The guard words that
  \<open>set_guards\<close> stores around a block and \<open>check_guards\<close> reads back are memory
  contents; \<open>c_put_guards\<close> stands for the stores (header and padding of the block
  starting at the given real address) and \<open>c_guards_ok\<close> for the outcome of the two
  comparison loops on the block whose user address is given.
\<close>

datatype BlockSource =
  SOURCE_UNKNOWN | SOURCE_MALLOC | SOURCE_REALLOC | SOURCE_MALLOC_ZERO | SOURCE_REALLOC_NULL

record 'h libc =
  c_getenv :: "string \<Rightarrow> string option"
  c_atoi :: "string \<Rightarrow> int"
  c_size_bits :: nat
  c_malloc :: "nat \<Rightarrow> 'h \<Rightarrow> ptr \<times> 'h"
  c_calloc :: "nat \<Rightarrow> nat \<Rightarrow> 'h \<Rightarrow> ptr \<times> 'h"
  c_realloc :: "ptr \<Rightarrow> nat \<Rightarrow> 'h \<Rightarrow> ptr \<times> 'h"
  c_free :: "ptr \<Rightarrow> 'h \<Rightarrow> 'h"
  c_put_guards :: "ptr \<Rightarrow> nat \<Rightarrow> BlockSource \<Rightarrow> 'h \<Rightarrow> 'h"
  c_guards_ok :: "ptr \<Rightarrow> 'h \<Rightarrow> bool"

text \<open>The file's static variables (present in test builds), and the heap.\<close>

record 'h memory =
  debug_initialized :: bool
  fail_counts :: int
  fail_size :: nat
  fail_alloc_counter :: int
  guards :: bool
  disable_mem_pools :: bool
  heap :: 'h

definition DBUS_INT_MAX :: int where
  "DBUS_INT_MAX = 2147483647"

definition GUARD_INFO_SIZE :: nat where "GUARD_INFO_SIZE = 8"
definition GUARD_START_PAD :: nat where "GUARD_START_PAD = 16"
definition GUARD_END_PAD :: nat where "GUARD_END_PAD = 16"
definition GUARD_START_OFFSET :: nat where
  "GUARD_START_OFFSET = GUARD_START_PAD + GUARD_INFO_SIZE"
definition GUARD_EXTRA_SIZE :: nat where
  "GUARD_EXTRA_SIZE = GUARD_START_OFFSET + GUARD_END_PAD"

text \<open>The initial values of the static variables.\<close>

definition initial_memory :: "'h \<Rightarrow> 'h memory" where
  "initial_memory h =
     \<lparr> debug_initialized = False, fail_counts = -1, fail_size = 0,
       fail_alloc_counter = DBUS_INT_MAX, guards = False, disable_mem_pools = False,
       heap = h \<rparr>"

text \<open>Conversion of an \<open>int\<close> to \<open>size_t\<close>, and \<open>size_t\<close> addition, both modulo the width.\<close>

definition size_t_of_int :: "'h libc \<Rightarrow> int \<Rightarrow> nat" where
  "size_t_of_int lc i = nat (i mod 2 ^ c_size_bits lc)"

definition size_t_add :: "'h libc \<Rightarrow> nat \<Rightarrow> nat \<Rightarrow> nat" where
  "size_t_add lc a b = (a + b) mod 2 ^ c_size_bits lc"

definition dbus_initialize_malloc_debug :: "'h libc \<Rightarrow> 'h memory \<Rightarrow> 'h memory" where
  "dbus_initialize_malloc_debug lc m =
     (if \<not> debug_initialized m then
        let m1 = m\<lparr>debug_initialized := True\<rparr>;
            m2 = (case c_getenv lc ''DBUS_MALLOC_FAIL_NTH'' of
                    None \<Rightarrow> m1
                  | Some v \<Rightarrow> m1\<lparr>fail_counts := c_atoi lc v, fail_alloc_counter := c_atoi lc v\<rparr>);
            m3 = (case c_getenv lc ''DBUS_MALLOC_FAIL_GREATER_THAN'' of
                    None \<Rightarrow> m2
                  | Some v \<Rightarrow> m2\<lparr>fail_size := size_t_of_int lc (c_atoi lc v)\<rparr>);
            m4 = (case c_getenv lc ''DBUS_MALLOC_GUARDS'' of
                    None \<Rightarrow> m3
                  | Some v \<Rightarrow> m3\<lparr>guards := True\<rparr>);
            m5 = (case c_getenv lc ''DBUS_DISABLE_MEM_POOLS'' of
                    None \<Rightarrow> m4
                  | Some v \<Rightarrow> m4\<lparr>disable_mem_pools := True\<rparr>)
        in m5
      else m)"

definition dbus_disable_mem_pools :: "'h libc \<Rightarrow> 'h memory \<Rightarrow> bool \<times> 'h memory" where
  "dbus_disable_mem_pools lc m =
     (let m1 = dbus_initialize_malloc_debug lc m in (disable_mem_pools m1, m1))"

definition dbus_set_fail_alloc_counter :: "'h libc \<Rightarrow> int \<Rightarrow> 'h memory \<Rightarrow> 'h memory" where
  "dbus_set_fail_alloc_counter lc until_next_fail m =
     (dbus_initialize_malloc_debug lc m)\<lparr>fail_alloc_counter := until_next_fail\<rparr>"

definition dbus_get_fail_alloc_counter :: "'h libc \<Rightarrow> 'h memory \<Rightarrow> int \<times> 'h memory" where
  "dbus_get_fail_alloc_counter lc m =
     (let m1 = dbus_initialize_malloc_debug lc m in (fail_alloc_counter m1, m1))"

text \<open>Returns \<open>True\<close> when the allocation about to run should fail.\<close>

definition dbus_decrement_fail_alloc_counter :: "'h libc \<Rightarrow> 'h memory \<Rightarrow> bool \<times> 'h memory" where
  "dbus_decrement_fail_alloc_counter lc m =
     (let m1 = dbus_initialize_malloc_debug lc m in
      if fail_alloc_counter m1 \<le> 0 then
        (True, m1\<lparr>fail_alloc_counter :=
                    (if fail_counts m1 \<ge> 0 then fail_counts m1 else DBUS_INT_MAX)\<rparr>)
      else
        (False, m1\<lparr>fail_alloc_counter := fail_alloc_counter m1 - 1\<rparr>))"

text \<open>
  \<open>check_guards\<close> ends in \<open>_dbus_assert_not_reached\<close> when a guard word is wrong: the
  process aborts. The model returns \<open>False\<close> for the abort; callers turn it into \<open>None\<close>.
\<close>

definition check_guards :: "'h libc \<Rightarrow> ptr \<Rightarrow> 'h memory \<Rightarrow> bool" where
  "check_guards lc free_block m =
     (if free_block \<noteq> NULL then c_guards_ok lc free_block (heap m) else True)"

definition set_guards ::
  "'h libc \<Rightarrow> ptr \<Rightarrow> nat \<Rightarrow> BlockSource \<Rightarrow> 'h memory \<Rightarrow> (ptr \<times> 'h memory) option" where
  "set_guards lc real_block requested_bytes source m =
     (if real_block = NULL then Some (NULL, m)
      else
        let m1 = m\<lparr>heap := c_put_guards lc real_block requested_bytes source (heap m)\<rparr> in
        if check_guards lc (real_block + GUARD_START_OFFSET) m1
        then Some (real_block + GUARD_START_OFFSET, m1)
        else None)"

text \<open>
  With guards on, a block's user address is its real address plus
  \<open>GUARD_START_OFFSET\<close>, and \<open>dbus_free\<close> and \<open>dbus_realloc\<close> go back to the real
  address by subtracting it (on addresses below the offset, which \<open>set_guards\<close> never
  returns, the subtraction here stops at 0 where C wraps around).
\<close>

text \<open>
  Each wrapper is the fault-injection gate, compiled only under \<open>DBUS_BUILD_TESTS\<close>
  (the first argument), followed by the rest of the body. A result \<open>None\<close> is an abort
  in \<open>check_guards\<close>.
\<close>

definition dbus_malloc_rest ::
  "bool \<Rightarrow> 'h libc \<Rightarrow> nat \<Rightarrow> 'h memory \<Rightarrow> (ptr \<times> 'h memory) option" where
  "dbus_malloc_rest tests lc bytes m =
     (if bytes = 0 then Some (NULL, m)
      else if tests \<and> fail_size m \<noteq> 0 \<and> bytes > fail_size m then Some (NULL, m)
      else if tests \<and> guards m then
        (case c_malloc lc (size_t_add lc bytes GUARD_EXTRA_SIZE) (heap m) of
           (block, h) \<Rightarrow> set_guards lc block bytes SOURCE_MALLOC (m\<lparr>heap := h\<rparr>))
      else
        (case c_malloc lc bytes (heap m) of (p, h) \<Rightarrow> Some (p, m\<lparr>heap := h\<rparr>)))"

definition dbus_malloc ::
  "bool \<Rightarrow> 'h libc \<Rightarrow> nat \<Rightarrow> 'h memory \<Rightarrow> (ptr \<times> 'h memory) option" where
  "dbus_malloc tests lc bytes m =
     (if tests then
        (case dbus_decrement_fail_alloc_counter lc (dbus_initialize_malloc_debug lc m) of
           (True, m1) \<Rightarrow> Some (NULL, m1)
         | (False, m1) \<Rightarrow> dbus_malloc_rest tests lc bytes m1)
      else dbus_malloc_rest tests lc bytes m)"

definition dbus_malloc0_rest ::
  "bool \<Rightarrow> 'h libc \<Rightarrow> nat \<Rightarrow> 'h memory \<Rightarrow> (ptr \<times> 'h memory) option" where
  "dbus_malloc0_rest tests lc bytes m =
     (if bytes = 0 then Some (NULL, m)
      else if tests \<and> fail_size m \<noteq> 0 \<and> bytes > fail_size m then Some (NULL, m)
      else if tests \<and> guards m then
        (case c_calloc lc (size_t_add lc bytes GUARD_EXTRA_SIZE) 1 (heap m) of
           (block, h) \<Rightarrow> set_guards lc block bytes SOURCE_MALLOC_ZERO (m\<lparr>heap := h\<rparr>))
      else
        (case c_calloc lc bytes 1 (heap m) of (p, h) \<Rightarrow> Some (p, m\<lparr>heap := h\<rparr>)))"

definition dbus_malloc0 ::
  "bool \<Rightarrow> 'h libc \<Rightarrow> nat \<Rightarrow> 'h memory \<Rightarrow> (ptr \<times> 'h memory) option" where
  "dbus_malloc0 tests lc bytes m =
     (if tests then
        (case dbus_decrement_fail_alloc_counter lc (dbus_initialize_malloc_debug lc m) of
           (True, m1) \<Rightarrow> Some (NULL, m1)
         | (False, m1) \<Rightarrow> dbus_malloc0_rest tests lc bytes m1)
      else dbus_malloc0_rest tests lc bytes m)"

definition dbus_free :: "bool \<Rightarrow> 'h libc \<Rightarrow> ptr \<Rightarrow> 'h memory \<Rightarrow> 'h memory option" where
  "dbus_free tests lc mem m =
     (if tests \<and> guards m then
        (if check_guards lc mem m then
           Some (if mem \<noteq> NULL
                 then m\<lparr>heap := c_free lc (mem - GUARD_START_OFFSET) (heap m)\<rparr>
                 else m)
         else None)
      else Some (if mem \<noteq> NULL then m\<lparr>heap := c_free lc mem (heap m)\<rparr> else m))"

definition dbus_realloc_rest ::
  "bool \<Rightarrow> 'h libc \<Rightarrow> ptr \<Rightarrow> nat \<Rightarrow> 'h memory \<Rightarrow> (ptr \<times> 'h memory) option" where
  "dbus_realloc_rest tests lc mem bytes m =
     (if bytes = 0 then
        (case dbus_free tests lc mem m of None \<Rightarrow> None | Some m1 \<Rightarrow> Some (NULL, m1))
      else if tests \<and> fail_size m \<noteq> 0 \<and> bytes > fail_size m then Some (NULL, m)
      else if tests \<and> guards m then
        (if mem \<noteq> NULL then
           (if \<not> check_guards lc mem m then None
            else
              (case c_realloc lc (mem - GUARD_START_OFFSET)
                      (size_t_add lc bytes GUARD_EXTRA_SIZE) (heap m) of
                 (block, h) \<Rightarrow>
                   let m1 = m\<lparr>heap := h\<rparr> in
                   if \<not> check_guards lc (block + GUARD_START_OFFSET) m1 then None
                   else set_guards lc block bytes SOURCE_REALLOC m1))
         else
           (case c_malloc lc (size_t_add lc bytes GUARD_EXTRA_SIZE) (heap m) of
              (block, h) \<Rightarrow> set_guards lc block bytes SOURCE_REALLOC_NULL (m\<lparr>heap := h\<rparr>)))
      else
        (case c_realloc lc mem bytes (heap m) of (p, h) \<Rightarrow> Some (p, m\<lparr>heap := h\<rparr>)))"

definition dbus_realloc ::
  "bool \<Rightarrow> 'h libc \<Rightarrow> ptr \<Rightarrow> nat \<Rightarrow> 'h memory \<Rightarrow> (ptr \<times> 'h memory) option" where
  "dbus_realloc tests lc mem bytes m =
     (if tests then
        (case dbus_decrement_fail_alloc_counter lc (dbus_initialize_malloc_debug lc m) of
           (True, m1) \<Rightarrow> Some (NULL, m1)
         | (False, m1) \<Rightarrow> dbus_realloc_rest tests lc mem bytes m1)
      else dbus_realloc_rest tests lc mem bytes m)"

text \<open>A call of one of the three allocating entry points, and a run of such calls.\<close>

datatype alloc_call = Malloc nat | Malloc0 nat | Realloc ptr nat

fun alloc_call_rest ::
  "bool \<Rightarrow> 'h libc \<Rightarrow> alloc_call \<Rightarrow> 'h memory \<Rightarrow> (ptr \<times> 'h memory) option" where
  "alloc_call_rest tests lc (Malloc n) m = dbus_malloc_rest tests lc n m"
| "alloc_call_rest tests lc (Malloc0 n) m = dbus_malloc0_rest tests lc n m"
| "alloc_call_rest tests lc (Realloc p n) m = dbus_realloc_rest tests lc p n m"

fun do_alloc_call ::
  "bool \<Rightarrow> 'h libc \<Rightarrow> alloc_call \<Rightarrow> 'h memory \<Rightarrow> (ptr \<times> 'h memory) option" where
  "do_alloc_call tests lc (Malloc n) m = dbus_malloc tests lc n m"
| "do_alloc_call tests lc (Malloc0 n) m = dbus_malloc0 tests lc n m"
| "do_alloc_call tests lc (Realloc p n) m = dbus_realloc tests lc p n m"

fun run_alloc_calls ::
  "bool \<Rightarrow> 'h libc \<Rightarrow> alloc_call list \<Rightarrow> 'h memory \<Rightarrow> (ptr list \<times> 'h memory) option" where
  "run_alloc_calls tests lc [] m = Some ([], m)"
| "run_alloc_calls tests lc (c # cs) m =
     (case do_alloc_call tests lc c m of
        None \<Rightarrow> None
      | Some (p, m1) \<Rightarrow>
          (case run_alloc_calls tests lc cs m1 of
             None \<Rightarrow> None
           | Some (ps, m2) \<Rightarrow> Some (p # ps, m2)))"

text \<open>
  A small C library for concrete runs: the heap is the next fresh address and the list
  of live blocks; the environment is an association list; \<open>atoi\<close> reads decimal digits.
\<close>

definition list_atoi :: "string \<Rightarrow> int" where
  "list_atoi s = foldl (\<lambda>a c. 10 * a + (int (of_char c) - 48)) 0 s"

definition list_libc :: "(string \<times> string) list \<Rightarrow> (nat \<times> ptr list) libc" where
  "list_libc env =
     \<lparr> c_getenv = map_of env,
       c_atoi = list_atoi,
       c_size_bits = 32,
       c_malloc = (\<lambda>n (next, live). (next, (next + n, next # live))),
       c_calloc = (\<lambda>n k (next, live). (next, (next + n * k, next # live))),
       c_realloc = (\<lambda>p n (next, live). (next, (next + n, next # removeAll p live))),
       c_free = (\<lambda>p (next, live). (next, removeAll p live)),
       c_put_guards = (\<lambda>p n src h. h),
       c_guards_ok = (\<lambda>p h. True) \<rparr>"

text \<open>
  The state of the fault-injection counter before call number \<open>j + 1\<close> of a run, when
  \<open>DBUS_MALLOC_FAIL_NTH\<close> is \<open>N\<close>: the counter has been reloaded with \<open>N\<close> at every
  failure and has counted down once per call since.
\<close>

definition nth_counter_inv :: "'h libc \<Rightarrow> int \<Rightarrow> nat \<Rightarrow> 'h memory \<Rightarrow> bool" where
  "nth_counter_inv lc N j m =
     (fail_counts (dbus_initialize_malloc_debug lc m) = N \<and>
      fail_alloc_counter (dbus_initialize_malloc_debug lc m) = N - int (j mod (nat N + 1)))"

section \<open>dbus-transport.c: types\<close>

text \<open>
  \<open>DBusAuthState\<close> is declared in dbus-auth.h. The transport tests two of its values
  by name and sends every other one to a \<open>default:\<close> branch or an \<open>else\<close>; the values
  it does not name are numbered.
\<close>

datatype DBusAuthState =
    DBUS_AUTH_STATE_WAITING_FOR_MEMORY
  | DBUS_AUTH_STATE_AUTHENTICATED
  | DBUS_AUTH_STATE_OTHER nat

datatype DBusDispatchStatus =
    DBUS_DISPATCH_DATA_REMAINS
  | DBUS_DISPATCH_COMPLETE
  | DBUS_DISPATCH_NEED_MEMORY

datatype DBusTransportOpenResult =
    DBUS_TRANSPORT_OPEN_NOT_HANDLED
  | DBUS_TRANSPORT_OPEN_OK
  | DBUS_TRANSPORT_OPEN_BAD_ADDRESS
  | DBUS_TRANSPORT_OPEN_DID_NOT_CONNECT

text \<open>
  A \<open>DBusError\<close> that is set: out of memory (\<open>_DBUS_SET_OOM\<close>), a bad address with the
  message given to \<open>_dbus_set_bad_address\<close>, or whatever name and message a backend
  stored. An error variable is an \<open>option\<close>; \<open>None\<close> is a clear error.
\<close>

datatype DBusError =
    Error_no_memory
  | Error_bad_address string
  | Error_other string string

record DBusCredentials =
  pid :: int
  uid :: int
  gid :: int

text \<open>
  Modelled from the spec: the constants \<open>DBUS_UID_UNSET\<close> and \<open>DBUS_PID_UNSET\<close> of
  dbus-sysdeps.h and \<open>_DBUS_ONE_MEGABYTE\<close> of dbus-internals.h are not in the sources;
  the spec gives \<open>-1\<close> as the unset credential and 63 MiB as the value of
  \<open>_DBUS_ONE_MEGABYTE * 63\<close>.
\<close>

definition DBUS_UID_UNSET :: int where "DBUS_UID_UNSET = -1"
definition DBUS_PID_UNSET :: int where "DBUS_PID_UNSET = -1"
definition DBUS_ONE_MEGABYTE :: int where "DBUS_ONE_MEGABYTE = 1024 * 1024"
definition DBUS_INT32_MAX :: int where "DBUS_INT32_MAX = 2147483647"

text \<open>
  Modelled from the spec: an address entry (\<open>DBusAddressEntry\<close>, dbus-address.c) has a
  method name and key/value parameters with unique keys.
\<close>

record DBusAddressEntry =
  entry_method :: string
  entry_values :: "(string \<times> string) list"

definition dbus_address_entry_get_method :: "DBusAddressEntry \<Rightarrow> string" where
  "dbus_address_entry_get_method entry = entry_method entry"

definition dbus_address_entry_get_value :: "DBusAddressEntry \<Rightarrow> string \<Rightarrow> string option" where
  "dbus_address_entry_get_value entry key = map_of (entry_values entry) key"

text \<open>
  The fields of \<open>struct DBusTransport\<close>. Objects the transport points to (loader,
  auth, counter, connection) live outside the struct, in the world \<open>'w\<close>; the struct
  holds their addresses. A \<open>char *\<close> is a string or \<open>NULL\<close> (\<open>None\<close>). The \<open>vtable\<close>
  field is constant after \<open>_dbus_transport_init_base\<close>; every function below takes the
  vtable as an argument instead. The application's callback may change the world.
\<close>

record 'w DBusTransport =
  refcount :: int
  loader :: ptr
  auth :: ptr
  live_messages_size :: ptr
  max_live_messages_size :: int
  connection :: ptr
  authenticated :: bool
  disconnected :: bool
  is_server :: bool
  send_credentials_pending :: bool
  receive_credentials_pending :: bool
  address :: "string option"
  expected_guid :: "string option"
  unix_user_function :: "(ptr \<Rightarrow> int \<Rightarrow> ptr \<Rightarrow> 'w \<Rightarrow> bool \<times> 'w) option"
  unix_user_data :: ptr
  free_unix_user_data :: "(ptr \<Rightarrow> 'w \<Rightarrow> 'w) option"
  credentials :: DBusCredentials
  unused_bytes_recovered :: bool

text \<open>
  Calls the transport makes on its collaborators that take, give back or hand over
  something: the log of these calls is how a run is observed.
\<close>

datatype resource = Loader ptr | Auth ptr | Counter ptr | Chars string

datatype event =
    Acquire resource
  | Release resource
  | ConnectionRef ptr
  | ConnectionUnref ptr
  | ConnectionUnlock ptr
  | ConnectionLock ptr
  | PopLink ptr
  | PutbackLink ptr
  | QueueReceived ptr ptr

text \<open>
  The state a transport function runs in: the struct, the world outside it, and the
  call log.
\<close>

record 'w transport_state = "'w DBusTransport" +
  world :: 'w
  calls :: "event list"

text \<open>
  The backend's operations (\<open>struct DBusTransportVTable\<close>). \<open>live_messages_changed\<close>
  and \<open>get_socket_fd\<close> may be \<open>NULL\<close>; the source asserts that the others are not.
  \<open>get_socket_fd\<close> returns its result and the descriptor it stored.
\<close>

record 'w DBusTransportVTable =
  finalize :: "'w transport_state \<Rightarrow> 'w transport_state"
  handle_watch :: "ptr \<Rightarrow> nat \<Rightarrow> 'w transport_state \<Rightarrow> bool \<times> 'w transport_state"
  disconnect :: "'w transport_state \<Rightarrow> 'w transport_state"
  connection_set :: "'w transport_state \<Rightarrow> bool \<times> 'w transport_state"
  do_iteration :: "nat \<Rightarrow> int \<Rightarrow> 'w transport_state \<Rightarrow> 'w transport_state"
  live_messages_changed :: "('w transport_state \<Rightarrow> 'w transport_state) option"
  get_socket_fd :: "('w transport_state \<Rightarrow> (bool \<times> int) \<times> 'w transport_state) option"

text \<open>
  What the file is compiled and linked against: the \<open>DBUS_WIN\<close> switch and the
  functions of the other modules it calls, each acting on the world. A constructor
  returns \<open>NULL\<close>, a copy returns \<open>None\<close> and a \<open>dbus_bool_t\<close> function returns
  \<open>False\<close> when memory runs out. \<open>string_lengthen n\<close> is the allocation inside
  \<open>_dbus_string_move\<close> and \<open>_dbus_string_copy\<close> that makes room for \<open>n\<close> more bytes.
  \<open>auth_decode_data\<close> gives the bytes it appended to the plaintext string.
  \<open>message_loader_return_buffer\<close> receives the buffer as the caller left it.
  \<open>message_add_size_counter\<close> returns its result and whether the counter crossed its
  threshold and so called the notify function.
\<close>

record 'w environment =
  DBUS_WIN :: bool
  message_loader_new :: "'w \<Rightarrow> ptr \<times> 'w"
  message_loader_unref :: "ptr \<Rightarrow> 'w \<Rightarrow> 'w"
  message_loader_get_buffer :: "ptr \<Rightarrow> 'w \<Rightarrow> string"
  message_loader_return_buffer :: "ptr \<Rightarrow> string \<Rightarrow> nat \<Rightarrow> 'w \<Rightarrow> 'w"
  message_loader_queue_messages :: "ptr \<Rightarrow> 'w \<Rightarrow> bool \<times> 'w"
  message_loader_peek_message :: "ptr \<Rightarrow> 'w \<Rightarrow> ptr"
  message_loader_pop_message_link :: "ptr \<Rightarrow> 'w \<Rightarrow> ptr \<times> 'w"
  message_loader_putback_message_link :: "ptr \<Rightarrow> ptr \<Rightarrow> 'w \<Rightarrow> 'w"
  message_loader_get_is_corrupted :: "ptr \<Rightarrow> 'w \<Rightarrow> bool"
  message_loader_set_max_message_size :: "ptr \<Rightarrow> int \<Rightarrow> 'w \<Rightarrow> 'w"
  message_loader_get_max_message_size :: "ptr \<Rightarrow> 'w \<Rightarrow> int"
  link_data :: "ptr \<Rightarrow> 'w \<Rightarrow> ptr"
  message_add_size_counter :: "ptr \<Rightarrow> ptr \<Rightarrow> 'w \<Rightarrow> (bool \<times> bool) \<times> 'w"
  auth_server_new :: "string \<Rightarrow> 'w \<Rightarrow> ptr \<times> 'w"
  auth_client_new :: "'w \<Rightarrow> ptr \<times> 'w"
  auth_unref :: "ptr \<Rightarrow> 'w \<Rightarrow> 'w"
  auth_do_work :: "ptr \<Rightarrow> 'w \<Rightarrow> DBusAuthState \<times> 'w"
  auth_get_guid_from_server :: "ptr \<Rightarrow> 'w \<Rightarrow> string"
  auth_get_identity :: "ptr \<Rightarrow> 'w \<Rightarrow> DBusCredentials"
  auth_needs_decoding :: "ptr \<Rightarrow> 'w \<Rightarrow> bool"
  auth_get_unused_bytes :: "ptr \<Rightarrow> 'w \<Rightarrow> string"
  auth_decode_data :: "ptr \<Rightarrow> string \<Rightarrow> 'w \<Rightarrow> string option \<times> 'w"
  auth_delete_unused_bytes :: "ptr \<Rightarrow> 'w \<Rightarrow> 'w"
  auth_set_mechanisms :: "ptr \<Rightarrow> string list \<Rightarrow> 'w \<Rightarrow> bool \<times> 'w"
  counter_new :: "'w \<Rightarrow> ptr \<times> 'w"
  counter_unref :: "ptr \<Rightarrow> 'w \<Rightarrow> 'w"
  counter_set_notify :: "ptr \<Rightarrow> int \<Rightarrow> bool \<Rightarrow> 'w \<Rightarrow> 'w"
  counter_get_value :: "ptr \<Rightarrow> 'w \<Rightarrow> int"
  string_init :: "'w \<Rightarrow> bool \<times> 'w"
  string_free :: "'w \<Rightarrow> 'w"
  string_lengthen :: "nat \<Rightarrow> 'w \<Rightarrow> bool \<times> 'w"
  string_copy_data :: "string \<Rightarrow> 'w \<Rightarrow> string option \<times> 'w"
  strdup :: "string \<Rightarrow> 'w \<Rightarrow> string option \<times> 'w"
  free_chars :: "string \<Rightarrow> 'w \<Rightarrow> 'w"
  connection_ref_unlocked :: "ptr \<Rightarrow> 'w \<Rightarrow> 'w"
  connection_unref_unlocked :: "ptr \<Rightarrow> 'w \<Rightarrow> 'w"
  connection_unlock :: "ptr \<Rightarrow> 'w \<Rightarrow> 'w"
  connection_lock :: "ptr \<Rightarrow> 'w \<Rightarrow> 'w"
  connection_queue_received_message_link :: "ptr \<Rightarrow> ptr \<Rightarrow> 'w \<Rightarrow> 'w"
  credentials_from_current_process :: "'w \<Rightarrow> DBusCredentials"
  credentials_match :: "DBusCredentials \<Rightarrow> DBusCredentials \<Rightarrow> bool"
  watch_get_fd :: "ptr \<Rightarrow> 'w \<Rightarrow> int"
  watch_sanitize_condition :: "ptr \<Rightarrow> nat \<Rightarrow> 'w \<Rightarrow> nat"
  watch_ref :: "ptr \<Rightarrow> 'w \<Rightarrow> 'w"
  watch_unref :: "ptr \<Rightarrow> 'w \<Rightarrow> 'w"
  get_autolaunch_address :: "'w \<Rightarrow> (DBusError + string) \<times> 'w"
  parse_address :: "string \<Rightarrow> 'w \<Rightarrow> (DBusError + DBusAddressEntry list) \<times> 'w"

section \<open>dbus-transport.c: the base class\<close>

text \<open>
  Assertions (\<open>_dbus_assert\<close>) are obligations of the caller and are compiled out of
  the model; where the source would go on to dereference \<open>NULL\<close> the model returns
  \<open>None\<close>. A hook of the vtable runs on the struct and the world; the call log is
  the model's own and a hook leaves it as it was.
\<close>

definition log_call :: "event \<Rightarrow> 'w transport_state \<Rightarrow> 'w transport_state" where
  "log_call e s = s\<lparr>calls := calls s @ [e]\<rparr>"

definition in_world :: "('w \<Rightarrow> 'w) \<Rightarrow> 'w transport_state \<Rightarrow> 'w transport_state" where
  "in_world f s = s\<lparr>world := f (world s)\<rparr>"

definition run_hook ::
  "('w transport_state \<Rightarrow> 'w transport_state) \<Rightarrow> 'w transport_state \<Rightarrow> 'w transport_state" where
  "run_hook h s = (h s)\<lparr>calls := calls s\<rparr>"

definition run_hook_result ::
  "('w transport_state \<Rightarrow> 'r \<times> 'w transport_state) \<Rightarrow> 'w transport_state
     \<Rightarrow> 'r \<times> 'w transport_state" where
  "run_hook_result h s = (case h s of (r, s1) \<Rightarrow> (r, s1\<lparr>calls := calls s\<rparr>))"

definition dbus_message_loader_unref ::
  "'w environment \<Rightarrow> ptr \<Rightarrow> 'w transport_state \<Rightarrow> 'w transport_state" where
  "dbus_message_loader_unref env p s =
     log_call (Release (Loader p)) (in_world (message_loader_unref env p) s)"

definition dbus_auth_unref ::
  "'w environment \<Rightarrow> ptr \<Rightarrow> 'w transport_state \<Rightarrow> 'w transport_state" where
  "dbus_auth_unref env p s = log_call (Release (Auth p)) (in_world (auth_unref env p) s)"

definition dbus_counter_unref ::
  "'w environment \<Rightarrow> ptr \<Rightarrow> 'w transport_state \<Rightarrow> 'w transport_state" where
  "dbus_counter_unref env p s =
     log_call (Release (Counter p)) (in_world (counter_unref env p) s)"

definition dbus_connection_ref_unlocked ::
  "'w environment \<Rightarrow> ptr \<Rightarrow> 'w transport_state \<Rightarrow> 'w transport_state" where
  "dbus_connection_ref_unlocked env c s =
     log_call (ConnectionRef c) (in_world (connection_ref_unlocked env c) s)"

definition dbus_connection_unref_unlocked ::
  "'w environment \<Rightarrow> ptr \<Rightarrow> 'w transport_state \<Rightarrow> 'w transport_state" where
  "dbus_connection_unref_unlocked env c s =
     log_call (ConnectionUnref c) (in_world (connection_unref_unlocked env c) s)"

definition dbus_connection_unlock ::
  "'w environment \<Rightarrow> ptr \<Rightarrow> 'w transport_state \<Rightarrow> 'w transport_state" where
  "dbus_connection_unlock env c s =
     log_call (ConnectionUnlock c) (in_world (connection_unlock env c) s)"

definition dbus_connection_lock ::
  "'w environment \<Rightarrow> ptr \<Rightarrow> 'w transport_state \<Rightarrow> 'w transport_state" where
  "dbus_connection_lock env c s =
     log_call (ConnectionLock c) (in_world (connection_lock env c) s)"

definition dbus_transport_ref :: "'w transport_state \<Rightarrow> 'w transport_state" where
  "dbus_transport_ref s = s\<lparr>refcount := refcount s + 1\<rparr>"

definition dbus_transport_unref ::
  "'w DBusTransportVTable \<Rightarrow> 'w transport_state \<Rightarrow> 'w transport_state" where
  "dbus_transport_unref vt s =
     (let s1 = s\<lparr>refcount := refcount s - 1\<rparr> in
      if refcount s1 = 0 then run_hook (finalize vt) s1 else s1)"

definition live_messages_size_notify ::
  "'w DBusTransportVTable \<Rightarrow> 'w transport_state \<Rightarrow> 'w transport_state" where
  "live_messages_size_notify vt s =
     (let s1 = dbus_transport_ref s;
          s2 = (case live_messages_changed vt of
                  None \<Rightarrow> s1
                | Some h \<Rightarrow> run_hook h s1)
      in dbus_transport_unref vt s2)"

text \<open>
  \<open>_dbus_transport_init_base\<close>: the arguments are the server GUID and the address,
  each possibly \<open>NULL\<close>. On the client side a \<open>NULL\<close> address is dereferenced by
  \<open>_dbus_string_copy_data\<close>: the result is \<open>None\<close>.
\<close>

definition init_base_fields ::
  "ptr \<Rightarrow> ptr \<Rightarrow> ptr \<Rightarrow> bool \<Rightarrow> string option \<Rightarrow> 'w transport_state \<Rightarrow> 'w transport_state" where
  "init_base_fields ld au cn server address_copy s =
     s\<lparr> refcount := 1,
        loader := ld,
        auth := au,
        live_messages_size := cn,
        authenticated := False,
        disconnected := False,
        is_server := server,
        send_credentials_pending := \<not> server,
        receive_credentials_pending := server,
        address := address_copy,
        unix_user_function := None,
        unix_user_data := NULL,
        free_unix_user_data := None,
        expected_guid := None,
        max_live_messages_size := DBUS_ONE_MEGABYTE * 63,
        credentials := \<lparr> pid = -1, uid = -1, gid = -1 \<rparr> \<rparr>"

definition dbus_transport_init_base ::
  "'w environment \<Rightarrow> string option \<Rightarrow> string option \<Rightarrow> 'w transport_state
     \<Rightarrow> (bool \<times> 'w transport_state) option" where
  "dbus_transport_init_base env server_guid addr s =
     (case message_loader_new env (world s) of (ld, w1) \<Rightarrow>
      if ld = NULL then Some (False, s\<lparr>world := w1\<rparr>)
      else
        let s1 = log_call (Acquire (Loader ld)) (s\<lparr>world := w1\<rparr>) in
        let (au, w2) = (case server_guid of
                          Some g \<Rightarrow> auth_server_new env g (world s1)
                        | None \<Rightarrow> auth_client_new env (world s1))
        in
        if au = NULL then Some (False, dbus_message_loader_unref env ld (s1\<lparr>world := w2\<rparr>))
        else
          let s2 = log_call (Acquire (Auth au)) (s1\<lparr>world := w2\<rparr>);
              (cn, w3) = counter_new env (world s2)
          in
          if cn = NULL then
            Some (False, dbus_message_loader_unref env ld
                           (dbus_auth_unref env au (s2\<lparr>world := w3\<rparr>)))
          else
            let s3 = log_call (Acquire (Counter cn)) (s2\<lparr>world := w3\<rparr>);
                finish = (\<lambda>address_copy s4.
                   let s5 = init_base_fields ld au cn (server_guid \<noteq> None) address_copy s4 in
                   Some (True,
                         in_world (counter_set_notify env (live_messages_size s5)
                                     (max_live_messages_size s5) True) s5))
            in
            (case server_guid of
               Some g \<Rightarrow> finish None s3
             | None \<Rightarrow>
                 (case addr of
                    None \<Rightarrow> None
                  | Some a \<Rightarrow>
                      (case string_copy_data env a (world s3) of
                         (None, w4) \<Rightarrow>
                           Some (False, dbus_message_loader_unref env ld
                                          (dbus_auth_unref env au
                                             (dbus_counter_unref env cn (s3\<lparr>world := w4\<rparr>))))
                       | (Some address_copy, w4) \<Rightarrow>
                           finish (Some address_copy) (s3\<lparr>world := w4\<rparr>)))))"

definition dbus_transport_disconnect ::
  "'w DBusTransportVTable \<Rightarrow> 'w transport_state \<Rightarrow> 'w transport_state" where
  "dbus_transport_disconnect vt s =
     (if disconnected s then s
      else (run_hook (disconnect vt) s)\<lparr>disconnected := True\<rparr>)"

definition dbus_transport_finalize_base ::
  "'w environment \<Rightarrow> 'w DBusTransportVTable \<Rightarrow> 'w transport_state \<Rightarrow> 'w transport_state" where
  "dbus_transport_finalize_base env vt s =
     (let s1 = (if \<not> disconnected s then dbus_transport_disconnect vt s else s);
          s2 = (case free_unix_user_data s1 of
                  None \<Rightarrow> s1
                | Some f \<Rightarrow> in_world (f (unix_user_data s1)) s1);
          s3 = dbus_message_loader_unref env (loader s2) s2;
          s4 = dbus_auth_unref env (auth s3) s3;
          s5 = in_world (counter_set_notify env (live_messages_size s4) 0 False) s4;
          s6 = dbus_counter_unref env (live_messages_size s5) s5;
          s7 = (case address s6 of None \<Rightarrow> s6 | Some a \<Rightarrow> in_world (free_chars env a) s6);
          s8 = (case expected_guid s7 of None \<Rightarrow> s7 | Some g \<Rightarrow> in_world (free_chars env g) s7)
      in s8)"

definition dbus_transport_get_is_connected :: "'w transport_state \<Rightarrow> bool" where
  "dbus_transport_get_is_connected s = (\<not> disconnected s)"

text \<open>
  \<open>_dbus_transport_get_is_authenticated\<close>. The two blocks that may return early are
  functions of their own: \<open>Inl\<close> is the value the procedure returns at once,
  \<open>Inr\<close> the state it goes on with.
\<close>

definition check_server_guid ::
  "'w environment \<Rightarrow> 'w DBusTransportVTable \<Rightarrow> 'w transport_state
     \<Rightarrow> (bool \<times> 'w transport_state) + 'w transport_state" where
  "check_server_guid env vt s =
     (let server_guid = auth_get_guid_from_server env (auth s) (world s) in
      if expected_guid s \<noteq> None \<and> the (expected_guid s) \<noteq> server_guid then
        (let s1 = dbus_transport_disconnect vt s;
             s2 = dbus_connection_unref_unlocked env (connection s1) s1
         in Inl (False, s2))
      else if expected_guid s = None then
        (case strdup env server_guid (world s) of
           (None, w) \<Rightarrow> Inl (False, s\<lparr>expected_guid := None, world := w\<rparr>)
         | (Some g, w) \<Rightarrow> Inr (s\<lparr>expected_guid := Some g, world := w\<rparr>))
      else Inr s)"

definition check_auth_identity ::
  "'w environment \<Rightarrow> 'w DBusTransportVTable \<Rightarrow> 'w transport_state
     \<Rightarrow> (bool \<times> 'w transport_state) + 'w transport_state" where
  "check_auth_identity env vt s =
     (let auth_identity = auth_get_identity env (auth s) (world s) in
      if unix_user_function s \<noteq> None \<and> \<not> DBUS_WIN env then
        (let conn = connection s;
             user_function = the (unix_user_function s);
             user_data = unix_user_data s;
             s1 = dbus_connection_unlock env conn s
         in case user_function conn (uid auth_identity) user_data (world s1) of
              (allow, w) \<Rightarrow>
                let s2 = dbus_connection_lock env conn (s1\<lparr>world := w\<rparr>) in
                if allow then Inr s2
                else
                  (let s3 = dbus_transport_disconnect vt s2;
                       s4 = dbus_connection_unref_unlocked env conn s3
                   in Inl (False, s4)))
      else
        (let our_identity = credentials_from_current_process env (world s) in
         if \<not> credentials_match env our_identity auth_identity then
           (let s1 = dbus_transport_disconnect vt s;
                s2 = dbus_connection_unref_unlocked env (connection s1) s1
            in Inl (False, s2))
         else Inr s))"

definition dbus_transport_get_is_authenticated ::
  "'w environment \<Rightarrow> 'w DBusTransportVTable \<Rightarrow> 'w transport_state
     \<Rightarrow> bool \<times> 'w transport_state" where
  "dbus_transport_get_is_authenticated env vt s =
     (if authenticated s then (True, s)
      else if disconnected s then (False, s)
      else
        let s1 = dbus_connection_ref_unlocked env (connection s) s;
            maybe0 = (\<not> (send_credentials_pending s1 \<or> receive_credentials_pending s1));
            (maybe_authenticated, s2) =
              (if maybe0 then
                 (case auth_do_work env (auth s1) (world s1) of
                    (st, w) \<Rightarrow> (st = DBUS_AUTH_STATE_AUTHENTICATED, s1\<lparr>world := w\<rparr>))
               else (False, s1))
        in
        (case (if maybe_authenticated \<and> \<not> is_server s2
               then check_server_guid env vt s2 else Inr s2) of
           Inl r \<Rightarrow> r
         | Inr s3 \<Rightarrow>
             (case (if maybe_authenticated \<and> is_server s3
                    then check_auth_identity env vt s3 else Inr s3) of
                Inl r \<Rightarrow> r
              | Inr s4 \<Rightarrow>
                  let s5 = s4\<lparr>authenticated := maybe_authenticated\<rparr>;
                      s6 = dbus_connection_unref_unlocked env (connection s5) s5
                  in (maybe_authenticated, s6))))"

definition dbus_transport_get_address :: "'w transport_state \<Rightarrow> string option" where
  "dbus_transport_get_address s = address s"

definition dbus_transport_handle_watch ::
  "'w environment \<Rightarrow> 'w DBusTransportVTable \<Rightarrow> ptr \<Rightarrow> nat \<Rightarrow> 'w transport_state
     \<Rightarrow> bool \<times> 'w transport_state" where
  "dbus_transport_handle_watch env vt watch condition s =
     (if disconnected s then (True, s)
      else if watch_get_fd env watch (world s) < 0 then (True, s)
      else
        let condition1 = watch_sanitize_condition env watch condition (world s);
            s1 = dbus_transport_ref s;
            s2 = in_world (watch_ref env watch) s1
        in case run_hook_result (handle_watch vt watch condition1) s2 of
             (retval, s3) \<Rightarrow>
               let s4 = in_world (watch_unref env watch) s3;
                   s5 = dbus_transport_unref vt s4
               in (retval, s5))"

text \<open>The assertion at the head of \<open>_dbus_transport_set_connection\<close>.\<close>

definition set_connection_precondition :: "'w transport_state \<Rightarrow> bool" where
  "set_connection_precondition s = (connection s = NULL)"

definition dbus_transport_set_connection ::
  "'w DBusTransportVTable \<Rightarrow> ptr \<Rightarrow> 'w transport_state \<Rightarrow> bool \<times> 'w transport_state" where
  "dbus_transport_set_connection vt conn s =
     (let s1 = s\<lparr>connection := conn\<rparr>;
          s2 = dbus_transport_ref s1
      in case run_hook_result (connection_set vt) s2 of
           (ok, s3) \<Rightarrow>
             let s4 = (if \<not> ok then s3\<lparr>connection := NULL\<rparr> else s3);
                 s5 = dbus_transport_unref vt s4
             in (connection s5 \<noteq> NULL, s5))"

definition dbus_transport_get_socket_fd ::
  "'w DBusTransportVTable \<Rightarrow> 'w transport_state \<Rightarrow> (bool \<times> int option) \<times> 'w transport_state" where
  "dbus_transport_get_socket_fd vt s =
     (case get_socket_fd vt of
        None \<Rightarrow> ((False, None), s)
      | Some h \<Rightarrow>
          if disconnected s then ((False, None), s)
          else
            (case run_hook_result h (dbus_transport_ref s) of
               ((retval, fd), s1) \<Rightarrow> ((retval, Some fd), dbus_transport_unref vt s1)))"

text \<open>
  The iteration flags are declared in dbus-connection-internal.h, which is not among
  the sources: two distinct bits, here bit 0 and bit 1. No property below depends on
  their values.
\<close>

definition DBUS_ITERATION_DO_WRITING :: nat where "DBUS_ITERATION_DO_WRITING = 1"
definition DBUS_ITERATION_DO_READING :: nat where "DBUS_ITERATION_DO_READING = 2"

definition dbus_transport_do_iteration ::
  "'w DBusTransportVTable \<Rightarrow> nat \<Rightarrow> int \<Rightarrow> 'w transport_state \<Rightarrow> 'w transport_state" where
  "dbus_transport_do_iteration vt flags timeout_milliseconds s =
     (if and flags (or DBUS_ITERATION_DO_WRITING DBUS_ITERATION_DO_READING) = 0 then s
      else if disconnected s then s
      else
        let s1 = dbus_transport_ref s;
            s2 = run_hook (do_iteration vt flags timeout_milliseconds) s1
        in dbus_transport_unref vt s2)"

section \<open>dbus-transport.c: dispatch status and queueing\<close>

definition recover_unused_bytes ::
  "'w environment \<Rightarrow> 'w transport_state \<Rightarrow> bool \<times> 'w transport_state" where
  "recover_unused_bytes env s =
     (if auth_needs_decoding env (auth s) (world s) then
        (case string_init env (world s) of
           (False, w) \<Rightarrow> (False, s\<lparr>world := w\<rparr>)
         | (True, w) \<Rightarrow>
             let s1 = s\<lparr>world := w\<rparr>;
                 encoded = auth_get_unused_bytes env (auth s1) (world s1)
             in
             (case auth_decode_data env (auth s1) encoded (world s1) of
                (None, w2) \<Rightarrow> (False, in_world (string_free env) (s1\<lparr>world := w2\<rparr>))
              | (Some plaintext, w2) \<Rightarrow>
                  let s2 = s1\<lparr>world := w2\<rparr>;
                      buffer = message_loader_get_buffer env (loader s2) (world s2);
                      orig_len = length buffer
                  in
                  (case string_lengthen env (length plaintext) (world s2) of
                     (False, w3) \<Rightarrow> (False, in_world (string_free env) (s2\<lparr>world := w3\<rparr>))
                   | (True, w3) \<Rightarrow>
                       let buffer1 = buffer @ plaintext;
                           s3 = in_world (message_loader_return_buffer env (loader s2) buffer1
                                            (length buffer1 - orig_len)) (s2\<lparr>world := w3\<rparr>);
                           s4 = in_world (auth_delete_unused_bytes env (auth s3)) s3;
                           s5 = in_world (string_free env) s4
                       in (True, s5))))
      else
        (let buffer = message_loader_get_buffer env (loader s) (world s);
             orig_len = length buffer;
             bytes = auth_get_unused_bytes env (auth s) (world s)
         in
         case string_lengthen env (length bytes) (world s) of
           (succeeded, w) \<Rightarrow>
             let buffer1 = (if succeeded then buffer @ bytes else buffer);
                 s1 = in_world (message_loader_return_buffer env (loader s) buffer1
                                  (length buffer1 - orig_len)) (s\<lparr>world := w\<rparr>)
             in
             if succeeded then (True, in_world (auth_delete_unused_bytes env (auth s1)) s1)
             else (False, s1)))"

definition dbus_transport_get_dispatch_status ::
  "'w environment \<Rightarrow> 'w DBusTransportVTable \<Rightarrow> 'w transport_state
     \<Rightarrow> DBusDispatchStatus \<times> 'w transport_state" where
  "dbus_transport_get_dispatch_status env vt s =
     (if counter_get_value env (live_messages_size s) (world s) \<ge> max_live_messages_size s
      then (DBUS_DISPATCH_COMPLETE, s)
      else
        let (a1, s1) = dbus_transport_get_is_authenticated env vt s in
        (case (if \<not> a1 then
                 (let (st, w) = auth_do_work env (auth s1) (world s1);
                      s2 = s1\<lparr>world := w\<rparr>
                  in
                  if st = DBUS_AUTH_STATE_WAITING_FOR_MEMORY
                  then Inl (DBUS_DISPATCH_NEED_MEMORY, s2)
                  else
                    (let (a2, s3) = dbus_transport_get_is_authenticated env vt s2 in
                     if \<not> a2 then Inl (DBUS_DISPATCH_COMPLETE, s3) else Inr s3))
               else Inr s1) of
           Inl r \<Rightarrow> r
         | Inr s4 \<Rightarrow>
             let (ok, s5) = (if \<not> unused_bytes_recovered s4
                             then recover_unused_bytes env s4 else (True, s4))
             in
             if \<not> ok then (DBUS_DISPATCH_NEED_MEMORY, s5)
             else
               (let s6 = s5\<lparr>unused_bytes_recovered := True\<rparr>;
                    (queued, w) = message_loader_queue_messages env (loader s6) (world s6);
                    s7 = s6\<lparr>world := w\<rparr>
                in
                if \<not> queued then (DBUS_DISPATCH_NEED_MEMORY, s7)
                else if message_loader_peek_message env (loader s7) (world s7) \<noteq> NULL
                then (DBUS_DISPATCH_DATA_REMAINS, s7)
                else (DBUS_DISPATCH_COMPLETE, s7))))"

text \<open>
  The dispatch status as section 4.4 of the specification words it, one function per
  sentence; \<open>Inl\<close> is a status returned, \<open>Inr\<close> the state the next sentence starts
  from. "Not authenticated" is a \<open>False\<close> from the is-authenticated procedure and
  "recovery" is \<open>recover_unused_bytes\<close>.
\<close>

definition spec_refuse_when_full ::
  "'w environment \<Rightarrow> 'w transport_state
     \<Rightarrow> (DBusDispatchStatus \<times> 'w transport_state) + 'w transport_state" where
  "spec_refuse_when_full env s =
     (if max_live_messages_size s \<le> counter_get_value env (live_messages_size s) (world s)
      then Inl (DBUS_DISPATCH_COMPLETE, s) else Inr s)"

definition spec_step_auth ::
  "'w environment \<Rightarrow> 'w DBusTransportVTable \<Rightarrow> 'w transport_state
     \<Rightarrow> (DBusDispatchStatus \<times> 'w transport_state) + 'w transport_state" where
  "spec_step_auth env vt s =
     (case dbus_transport_get_is_authenticated env vt s of
        (True, s1) \<Rightarrow> Inr s1
      | (False, s1) \<Rightarrow>
          (case auth_do_work env (auth s1) (world s1) of
             (DBUS_AUTH_STATE_WAITING_FOR_MEMORY, w) \<Rightarrow>
               Inl (DBUS_DISPATCH_NEED_MEMORY, s1\<lparr>world := w\<rparr>)
           | (_, w) \<Rightarrow>
               (case dbus_transport_get_is_authenticated env vt (s1\<lparr>world := w\<rparr>) of
                  (True, s2) \<Rightarrow> Inr s2
                | (False, s2) \<Rightarrow> Inl (DBUS_DISPATCH_COMPLETE, s2))))"

definition spec_recover ::
  "'w environment \<Rightarrow> 'w transport_state
     \<Rightarrow> (DBusDispatchStatus \<times> 'w transport_state) + 'w transport_state" where
  "spec_recover env s =
     (if unused_bytes_recovered s then Inr s
      else
        (case recover_unused_bytes env s of
           (False, s1) \<Rightarrow> Inl (DBUS_DISPATCH_NEED_MEMORY, s1)
         | (True, s1) \<Rightarrow> Inr (s1\<lparr>unused_bytes_recovered := True\<rparr>)))"

definition spec_queue ::
  "'w environment \<Rightarrow> 'w transport_state
     \<Rightarrow> (DBusDispatchStatus \<times> 'w transport_state) + 'w transport_state" where
  "spec_queue env s =
     (case message_loader_queue_messages env (loader s) (world s) of
        (False, w) \<Rightarrow> Inl (DBUS_DISPATCH_NEED_MEMORY, s\<lparr>world := w\<rparr>)
      | (True, w) \<Rightarrow> Inr (s\<lparr>world := w\<rparr>))"

definition spec_peek ::
  "'w environment \<Rightarrow> 'w transport_state \<Rightarrow> DBusDispatchStatus \<times> 'w transport_state" where
  "spec_peek env s =
     (if message_loader_peek_message env (loader s) (world s) = NULL
      then (DBUS_DISPATCH_COMPLETE, s) else (DBUS_DISPATCH_DATA_REMAINS, s))"

definition and_then :: "('r + 's) \<Rightarrow> ('s \<Rightarrow> 'r + 's) \<Rightarrow> 'r + 's" where
  "and_then x f = (case x of Inl r \<Rightarrow> Inl r | Inr s \<Rightarrow> f s)"

definition get_dispatch_status_spec ::
  "'w environment \<Rightarrow> 'w DBusTransportVTable \<Rightarrow> 'w transport_state
     \<Rightarrow> DBusDispatchStatus \<times> 'w transport_state" where
  "get_dispatch_status_spec env vt s =
     (case and_then (and_then (and_then (spec_refuse_when_full env s) (spec_step_auth env vt))
                       (spec_recover env)) (spec_queue env) of
        Inl r \<Rightarrow> r
      | Inr s1 \<Rightarrow> spec_peek env s1)"

text \<open>
  \<open>_dbus_transport_queue_messages\<close>. \<open>queue_step\<close> is the loop's condition and body:
  \<open>Inl\<close> leaves the loop with the status, \<open>Inr\<close> goes round again. The loop runs on
  fuel; \<open>None\<close> is a loop that has not ended when the fuel has.
\<close>

definition queue_step ::
  "'w environment \<Rightarrow> 'w DBusTransportVTable \<Rightarrow> 'w transport_state
     \<Rightarrow> (DBusDispatchStatus \<times> 'w transport_state) + 'w transport_state" where
  "queue_step env vt s =
     (let (status, s1) = dbus_transport_get_dispatch_status env vt s in
      if status = DBUS_DISPATCH_DATA_REMAINS then
        (let (link, w) = message_loader_pop_message_link env (loader s1) (world s1);
             s2 = log_call (PopLink link) (s1\<lparr>world := w\<rparr>);
             message = link_data env link (world s2);
             ((added, notified), w1) =
                message_add_size_counter env message (live_messages_size s2) (world s2);
             s3 = s2\<lparr>world := w1\<rparr>;
             s4 = (if notified then live_messages_size_notify vt s3 else s3)
         in
         if \<not> added then
           Inl (DBUS_DISPATCH_NEED_MEMORY,
                log_call (PutbackLink link)
                  (in_world (message_loader_putback_message_link env (loader s4) link) s4))
         else
           Inr (log_call (QueueReceived (connection s4) link)
                  (in_world (connection_queue_received_message_link env (connection s4) link) s4)))
      else Inl (status, s1))"

fun queue_loop ::
  "nat \<Rightarrow> 'w environment \<Rightarrow> 'w DBusTransportVTable \<Rightarrow> 'w transport_state
     \<Rightarrow> (DBusDispatchStatus \<times> 'w transport_state) option" where
  "queue_loop 0 env vt s = None"
| "queue_loop (Suc n) env vt s =
     (case queue_step env vt s of
        Inl r \<Rightarrow> Some r
      | Inr s1 \<Rightarrow> queue_loop n env vt s1)"

definition loader_is_corrupted :: "'w environment \<Rightarrow> 'w transport_state \<Rightarrow> bool" where
  "loader_is_corrupted env s = message_loader_get_is_corrupted env (loader s) (world s)"

definition dbus_transport_queue_messages ::
  "nat \<Rightarrow> 'w environment \<Rightarrow> 'w DBusTransportVTable \<Rightarrow> 'w transport_state
     \<Rightarrow> (bool \<times> 'w transport_state) option" where
  "dbus_transport_queue_messages fuel env vt s =
     (case queue_loop fuel env vt s of
        None \<Rightarrow> None
      | Some (status, s1) \<Rightarrow>
          let s2 = (if loader_is_corrupted env s1 then dbus_transport_disconnect vt s1 else s1)
          in Some (status \<noteq> DBUS_DISPATCH_NEED_MEMORY, s2))"

definition dbus_transport_set_max_message_size ::
  "'w environment \<Rightarrow> int \<Rightarrow> 'w transport_state \<Rightarrow> 'w transport_state" where
  "dbus_transport_set_max_message_size env sz s =
     in_world (message_loader_set_max_message_size env (loader s) sz) s"

definition dbus_transport_get_max_message_size ::
  "'w environment \<Rightarrow> 'w transport_state \<Rightarrow> int" where
  "dbus_transport_get_max_message_size env s =
     message_loader_get_max_message_size env (loader s) (world s)"

definition dbus_transport_set_max_received_size ::
  "'w environment \<Rightarrow> int \<Rightarrow> 'w transport_state \<Rightarrow> 'w transport_state" where
  "dbus_transport_set_max_received_size env sz s =
     (let s1 = s\<lparr>max_live_messages_size := sz\<rparr> in
      in_world (counter_set_notify env (live_messages_size s1)
                  (max_live_messages_size s1) True) s1)"

definition dbus_transport_get_max_received_size :: "'w transport_state \<Rightarrow> int" where
  "dbus_transport_get_max_received_size s = max_live_messages_size s"

text \<open>The two getters return their result and the value stored through the pointer.\<close>

definition dbus_transport_get_unix_user ::
  "'w environment \<Rightarrow> 'w transport_state \<Rightarrow> bool \<times> int" where
  "dbus_transport_get_unix_user env s =
     (if \<not> authenticated s then (False, DBUS_INT32_MAX)
      else
        let auth_identity = auth_get_identity env (auth s) (world s) in
        if uid auth_identity \<noteq> DBUS_UID_UNSET then (True, uid auth_identity)
        else (False, DBUS_INT32_MAX))"

definition dbus_transport_get_unix_process_id ::
  "'w environment \<Rightarrow> 'w transport_state \<Rightarrow> bool \<times> int" where
  "dbus_transport_get_unix_process_id env s =
     (if \<not> authenticated s then (False, DBUS_PID_UNSET)
      else
        let auth_identity = auth_get_identity env (auth s) (world s) in
        if pid auth_identity \<noteq> DBUS_PID_UNSET then (True, pid auth_identity)
        else (False, DBUS_PID_UNSET))"

text \<open>Returns the old user data and the old free function with the new state.\<close>

definition dbus_transport_set_unix_user_function ::
  "(ptr \<Rightarrow> int \<Rightarrow> ptr \<Rightarrow> 'w \<Rightarrow> bool \<times> 'w) option \<Rightarrow> ptr \<Rightarrow> (ptr \<Rightarrow> 'w \<Rightarrow> 'w) option
     \<Rightarrow> 'w transport_state \<Rightarrow> (ptr \<times> (ptr \<Rightarrow> 'w \<Rightarrow> 'w) option) \<times> 'w transport_state" where
  "dbus_transport_set_unix_user_function func data free_data_function s =
     ((unix_user_data s, free_unix_user_data s),
      s\<lparr> unix_user_function := func,
         unix_user_data := data,
         free_unix_user_data := free_data_function \<rparr>)"

definition dbus_transport_set_auth_mechanisms ::
  "'w environment \<Rightarrow> string list \<Rightarrow> 'w transport_state \<Rightarrow> bool \<times> 'w transport_state" where
  "dbus_transport_set_auth_mechanisms env mechanisms s =
     (case auth_set_mechanisms env (auth s) mechanisms (world s) of
        (ok, w) \<Rightarrow> (ok, s\<lparr>world := w\<rparr>))"

section \<open>dbus-transport.c: opening a transport\<close>

text \<open>
  An open function receives the entry and the addresses of the caller's \<open>transport\<close>
  and \<open>tmp_error\<close> variables: it is given their values and returns its result with
  their new values. \<open>None\<close> is a call that does not return. An opener
  (\<open>_dbus_transport_open\<close>) receives the entry and the caller's \<open>error\<close>, and returns the
  transport (or \<open>NULL\<close>) with the new value of \<open>error\<close>.
\<close>

type_synonym 'w open_func =
  "DBusAddressEntry \<Rightarrow> 'w DBusTransport option \<Rightarrow> DBusError option \<Rightarrow> 'w
     \<Rightarrow> ((DBusTransportOpenResult \<times> 'w DBusTransport option \<times> DBusError option) \<times> 'w) option"

type_synonym 'w opener =
  "DBusAddressEntry \<Rightarrow> DBusError option \<Rightarrow> 'w
     \<Rightarrow> (('w DBusTransport option \<times> DBusError option) \<times> 'w) option"

text \<open>The open functions of the backends, which are not in this file.\<close>

record 'w backends =
  dbus_transport_open_socket :: "'w open_func"
  dbus_transport_open_platform_specific :: "'w open_func"
  dbus_transport_open_debug_pipe :: "'w open_func"

definition dbus_strdup :: "'w environment \<Rightarrow> string option \<Rightarrow> 'w \<Rightarrow> string option \<times> 'w" where
  "dbus_strdup env str w = (case str of None \<Rightarrow> (None, w) | Some g \<Rightarrow> strdup env g w)"

definition dbus_free_chars :: "'w environment \<Rightarrow> string option \<Rightarrow> 'w \<Rightarrow> 'w" where
  "dbus_free_chars env str w = (case str of None \<Rightarrow> w | Some g \<Rightarrow> free_chars env g w)"

fun check_address_entries ::
  "'w opener \<Rightarrow> DBusAddressEntry list \<Rightarrow> DBusError option \<Rightarrow> 'w
     \<Rightarrow> (('w DBusTransport option \<times> DBusError option) \<times> 'w) option" where
  "check_address_entries open_rec [] error w = Some ((None, error), w)"
| "check_address_entries open_rec (entry # entries) error w =
     (case open_rec entry error w of
        None \<Rightarrow> None
      | Some ((transport, error1), w1) \<Rightarrow>
          if transport \<noteq> None then Some ((transport, error1), w1)
          else check_address_entries open_rec entries error1 w1)"

text \<open>
  \<open>check_address\<close>: the entries are opened in order until one gives a transport.
  (\<open>dbus_address_entries_free\<close> only releases the parsed entries and is left out.)
\<close>

definition check_address ::
  "'w environment \<Rightarrow> 'w opener \<Rightarrow> string \<Rightarrow> DBusError option \<Rightarrow> 'w
     \<Rightarrow> (('w DBusTransport option \<times> DBusError option) \<times> 'w) option" where
  "check_address env open_rec addr error w =
     (case parse_address env addr w of
        (Inl parse_error, w1) \<Rightarrow> Some ((None, Some parse_error), w1)
      | (Inr entries, w1) \<Rightarrow> check_address_entries open_rec entries error w1)"

definition dbus_transport_new_for_autolaunch ::
  "'w environment \<Rightarrow> 'w opener \<Rightarrow> DBusError option \<Rightarrow> 'w
     \<Rightarrow> (('w DBusTransport option \<times> DBusError option) \<times> 'w) option" where
  "dbus_transport_new_for_autolaunch env open_rec error w =
     (case string_init env w of
        (False, w1) \<Rightarrow> Some ((None, Some Error_no_memory), w1)
      | (True, w1) \<Rightarrow>
          (case get_autolaunch_address env w1 of
             (Inl launch_error, w2) \<Rightarrow> Some ((None, Some launch_error), string_free env w2)
           | (Inr addr, w2) \<Rightarrow>
               (case check_address env open_rec addr error w2 of
                  None \<Rightarrow> None
                | Some (r, w3) \<Rightarrow> Some (r, string_free env w3))))"

definition dbus_transport_open_autolaunch ::
  "'w environment \<Rightarrow> 'w opener \<Rightarrow> 'w open_func" where
  "dbus_transport_open_autolaunch env open_rec entry transport error w =
     (if dbus_address_entry_get_method entry = ''autolaunch'' then
        (case dbus_transport_new_for_autolaunch env open_rec error w of
           None \<Rightarrow> None
         | Some ((transport1, error1), w1) \<Rightarrow>
             if transport1 = None
             then Some ((DBUS_TRANSPORT_OPEN_DID_NOT_CONNECT, transport1, error1), w1)
             else Some ((DBUS_TRANSPORT_OPEN_OK, transport1, error1), w1))
      else Some ((DBUS_TRANSPORT_OPEN_NOT_HANDLED, transport, error), w))"

text \<open>The table \<open>open_funcs\<close>; its last row is compiled under \<open>DBUS_BUILD_TESTS\<close>.\<close>

definition open_funcs :: "bool \<Rightarrow> 'w backends \<Rightarrow> 'w open_func \<Rightarrow> 'w open_func list" where
  "open_funcs tests be autolaunch =
     [dbus_transport_open_socket be, dbus_transport_open_platform_specific be, autolaunch]
     @ (if tests then [dbus_transport_open_debug_pipe be] else [])"

text \<open>The \<open>for\<close> loop of \<open>_dbus_transport_open\<close> over the rows still to try.\<close>

fun try_open_funcs ::
  "'w open_func list \<Rightarrow> DBusAddressEntry \<Rightarrow> 'w DBusTransport option \<Rightarrow> DBusError option \<Rightarrow> 'w
     \<Rightarrow> (('w DBusTransport option \<times> DBusError option) \<times> 'w) option" where
  "try_open_funcs [] entry transport tmp_error w = Some ((transport, tmp_error), w)"
| "try_open_funcs (func # funcs) entry transport tmp_error w =
     (case func entry transport tmp_error w of
        None \<Rightarrow> None
      | Some ((result, transport1, tmp_error1), w1) \<Rightarrow>
          (case result of
             DBUS_TRANSPORT_OPEN_OK \<Rightarrow> Some ((transport1, tmp_error1), w1)
           | DBUS_TRANSPORT_OPEN_NOT_HANDLED \<Rightarrow>
               try_open_funcs funcs entry transport1 tmp_error1 w1
           | DBUS_TRANSPORT_OPEN_BAD_ADDRESS \<Rightarrow> Some ((transport1, tmp_error1), w1)
           | DBUS_TRANSPORT_OPEN_DID_NOT_CONNECT \<Rightarrow> Some ((transport1, tmp_error1), w1)))"

definition unknown_address_type :: string where
  "unknown_address_type =
     ''Unknown address type (examples of valid types are '' @ [CHR 0x22] @ ''tcp'' @ [CHR 0x22]
     @ '' and on UNIX '' @ [CHR 0x22] @ ''unix'' @ [CHR 0x22] @ '')''"

text \<open>The body of \<open>_dbus_transport_open\<close> over a given table.\<close>

definition transport_open_with ::
  "'w environment \<Rightarrow> 'w open_func list \<Rightarrow> 'w opener" where
  "transport_open_with env funcs entry error w =
     (let expected_guid_orig = dbus_address_entry_get_value entry ''guid'';
          (expected_guid, w1) = dbus_strdup env expected_guid_orig w
      in
      if expected_guid_orig \<noteq> None \<and> expected_guid = None
      then Some ((None, Some Error_no_memory), w1)
      else
        (case try_open_funcs funcs entry None None w1 of
           None \<Rightarrow> None
         | Some ((transport, tmp_error), w2) \<Rightarrow>
             (case transport of
                None \<Rightarrow>
                  let tmp_error1 = (if tmp_error = None
                                    then Some (Error_bad_address unknown_address_type)
                                    else tmp_error)
                  in Some ((None, tmp_error1), dbus_free_chars env expected_guid w2)
              | Some t \<Rightarrow> Some ((Some (t\<lparr>expected_guid := expected_guid\<rparr>), error), w2))))"

text \<open>
  \<open>_dbus_transport_open\<close> with its table. The autolaunch row opens the entries of the
  autolaunch address with \<open>_dbus_transport_open\<close> again; the recursion is bounded by
  fuel, and \<open>None\<close> is a recursion deeper than the fuel.
\<close>

primrec dbus_transport_open ::
  "nat \<Rightarrow> bool \<Rightarrow> 'w environment \<Rightarrow> 'w backends \<Rightarrow> 'w opener" where
  "dbus_transport_open 0 tests env be = (\<lambda>entry error w. None)"
| "dbus_transport_open (Suc n) tests env be =
     transport_open_with env
       (open_funcs tests be (dbus_transport_open_autolaunch env (dbus_transport_open n tests env be)))"

text \<open>
  The world left by a run of open functions that each answered "not handled",
  leaving the transport \<open>NULL\<close> and the error clear, as the loop asserts.
\<close>

fun all_not_handled :: "'w open_func list \<Rightarrow> DBusAddressEntry \<Rightarrow> 'w \<Rightarrow> 'w option" where
  "all_not_handled [] entry w = Some w"
| "all_not_handled (func # funcs) entry w =
     (case func entry None None w of
        Some ((DBUS_TRANSPORT_OPEN_NOT_HANDLED, None, None), w1) \<Rightarrow>
          all_not_handled funcs entry w1
      | _ \<Rightarrow> None)"

section \<open>A concrete world for the scenarios\<close>

text \<open>
  A small world to run the functions in: an authenticator that reports a fixed state,
  GUID and identity, a loader holding parsed message links (a link stands for its
  message, and its address for the message's size), a counter, and an allocator that
  fails where a script says so (\<open>True\<close> in \<open>sw_alloc_failures\<close> fails the next
  allocation; an empty script lets every allocation through).
\<close>

record scenario_world =
  sw_auth_state :: DBusAuthState
  sw_server_guid :: string
  sw_auth_identity :: DBusCredentials
  sw_our_identity :: DBusCredentials
  sw_needs_decoding :: bool
  sw_unused_bytes :: string
  sw_buffer :: string
  sw_links :: "ptr list"
  sw_corrupted :: bool
  sw_counter :: int
  sw_alloc_failures :: "bool list"
  sw_next :: ptr

definition sw_alloc :: "scenario_world \<Rightarrow> bool \<times> scenario_world" where
  "sw_alloc w =
     (case sw_alloc_failures w of
        [] \<Rightarrow> (True, w)
      | b # bs \<Rightarrow> (\<not> b, w\<lparr>sw_alloc_failures := bs\<rparr>))"

definition sw_new :: "scenario_world \<Rightarrow> ptr \<times> scenario_world" where
  "sw_new w =
     (case sw_alloc w of
        (True, w1) \<Rightarrow> (sw_next w1, w1\<lparr>sw_next := sw_next w1 + 16\<rparr>)
      | (False, w1) \<Rightarrow> (NULL, w1))"

definition sw_copy :: "string \<Rightarrow> scenario_world \<Rightarrow> string option \<times> scenario_world" where
  "sw_copy str w = (case sw_alloc w of (True, w1) \<Rightarrow> (Some str, w1) | (False, w1) \<Rightarrow> (None, w1))"

definition scenario_env :: "scenario_world environment" where
  "scenario_env =
     \<lparr> DBUS_WIN = False,
       message_loader_new = sw_new,
       message_loader_unref = (\<lambda>p w. w),
       message_loader_get_buffer = (\<lambda>p w. sw_buffer w),
       message_loader_return_buffer = (\<lambda>p b n w. w\<lparr>sw_buffer := b\<rparr>),
       message_loader_queue_messages = (\<lambda>p w. (True, w)),
       message_loader_peek_message = (\<lambda>p w. case sw_links w of [] \<Rightarrow> NULL | l # ls \<Rightarrow> l),
       message_loader_pop_message_link =
         (\<lambda>p w. case sw_links w of [] \<Rightarrow> (NULL, w) | l # ls \<Rightarrow> (l, w\<lparr>sw_links := ls\<rparr>)),
       message_loader_putback_message_link = (\<lambda>p l w. w\<lparr>sw_links := l # sw_links w\<rparr>),
       message_loader_get_is_corrupted = (\<lambda>p w. sw_corrupted w),
       message_loader_set_max_message_size = (\<lambda>p n w. w),
       message_loader_get_max_message_size = (\<lambda>p w. 0),
       link_data = (\<lambda>l w. l),
       message_add_size_counter =
         (\<lambda>m c w. case sw_alloc w of
                     (True, w1) \<Rightarrow> ((True, False), w1\<lparr>sw_counter := sw_counter w1 + int m\<rparr>)
                   | (False, w1) \<Rightarrow> ((False, False), w1)),
       auth_server_new = (\<lambda>g. sw_new),
       auth_client_new = sw_new,
       auth_unref = (\<lambda>p w. w),
       auth_do_work = (\<lambda>p w. (sw_auth_state w, w)),
       auth_get_guid_from_server = (\<lambda>p w. sw_server_guid w),
       auth_get_identity = (\<lambda>p w. sw_auth_identity w),
       auth_needs_decoding = (\<lambda>p w. sw_needs_decoding w),
       auth_get_unused_bytes = (\<lambda>p w. sw_unused_bytes w),
       auth_decode_data = (\<lambda>p encoded. sw_copy encoded),
       auth_delete_unused_bytes = (\<lambda>p w. w\<lparr>sw_unused_bytes := []\<rparr>),
       auth_set_mechanisms = (\<lambda>p ms w. (True, w)),
       counter_new = sw_new,
       counter_unref = (\<lambda>p w. w),
       counter_set_notify = (\<lambda>p n f w. w),
       counter_get_value = (\<lambda>p w. sw_counter w),
       string_init = sw_alloc,
       string_free = (\<lambda>w. w),
       string_lengthen = (\<lambda>n. sw_alloc),
       string_copy_data = sw_copy,
       strdup = sw_copy,
       free_chars = (\<lambda>str w. w),
       connection_ref_unlocked = (\<lambda>c w. w),
       connection_unref_unlocked = (\<lambda>c w. w),
       connection_unlock = (\<lambda>c w. w),
       connection_lock = (\<lambda>c w. w),
       connection_queue_received_message_link = (\<lambda>c l w. w),
       credentials_from_current_process = (\<lambda>w. sw_our_identity w),
       credentials_match = (\<lambda>a b. uid a = uid b),
       watch_get_fd = (\<lambda>p w. 3),
       watch_sanitize_condition = (\<lambda>p c w. c),
       watch_ref = (\<lambda>p w. w),
       watch_unref = (\<lambda>p w. w),
       get_autolaunch_address = (\<lambda>w. (Inl (Error_other ''Failed'' ''no session bus''), w)),
       parse_address = (\<lambda>a w. (Inr [], w)) \<rparr>"

definition scenario_vtable :: "scenario_world DBusTransportVTable" where
  "scenario_vtable =
     \<lparr> finalize = (\<lambda>s. s),
       handle_watch = (\<lambda>watch condition s. (True, s)),
       disconnect = (\<lambda>s. s),
       connection_set = (\<lambda>s. (True, s)),
       do_iteration = (\<lambda>flags timeout s. s),
       live_messages_changed = None,
       get_socket_fd = None \<rparr>"

definition scenario_world0 :: scenario_world where
  "scenario_world0 =
     \<lparr> sw_auth_state = DBUS_AUTH_STATE_AUTHENTICATED,
       sw_server_guid = ''g1'',
       sw_auth_identity = \<lparr> pid = 100, uid = 1000, gid = 1000 \<rparr>,
       sw_our_identity = \<lparr> pid = 200, uid = 1000, gid = 1000 \<rparr>,
       sw_needs_decoding = False,
       sw_unused_bytes = [],
       sw_buffer = [],
       sw_links = [],
       sw_corrupted = False,
       sw_counter = 0,
       sw_alloc_failures = [],
       sw_next = 4096 \<rparr>"

text \<open>A zeroed struct, as \<open>dbus_new0\<close> gives a backend's constructor, in a world.\<close>

definition blank_transport :: "'w \<Rightarrow> 'w transport_state" where
  "blank_transport w =
     \<lparr> refcount = 0, loader = NULL, auth = NULL, live_messages_size = NULL,
       max_live_messages_size = 0, connection = NULL, authenticated = False,
       disconnected = False, is_server = False, send_credentials_pending = False,
       receive_credentials_pending = False, address = None, expected_guid = None,
       unix_user_function = None, unix_user_data = NULL, free_unix_user_data = None,
       credentials = \<lparr> pid = 0, uid = 0, gid = 0 \<rparr>, unused_bytes_recovered = False,
       world = w, calls = [] \<rparr>"

text \<open>
  A client transport after the credentials byte has gone out, attached to connection
  7, in a given world.
\<close>

definition ready_client :: "string option \<Rightarrow> 'w \<Rightarrow> 'w transport_state" where
  "ready_client guid w =
     (blank_transport w)
       \<lparr> refcount := 1, loader := 4096, auth := 4112, live_messages_size := 4128,
         max_live_messages_size := DBUS_ONE_MEGABYTE * 63, connection := 7,
         address := Some ''unix:path=/tmp/bus'', expected_guid := guid \<rparr>"

text \<open>The resources a log acquired and released.\<close>

fun acquired :: "event list \<Rightarrow> resource list" where
  "acquired [] = []"
| "acquired (Acquire r # es) = r # acquired es"
| "acquired (e # es) = acquired es"

fun released :: "event list \<Rightarrow> resource list" where
  "released [] = []"
| "released (Release r # es) = r # released es"
| "released (e # es) = released es"

text \<open>
  Backends for the scenarios: the socket backend handles \<open>tcp\<close> and \<open>unix\<close> entries
  (and refuses a \<open>tcp\<close> entry without a host as a bad address), the platform-specific
  backend handles none, the debug pipe handles \<open>debug-pipe\<close> entries whose server exists.
\<close>

definition client_struct :: "string \<Rightarrow> 'w DBusTransport" where
  "client_struct addr =
     \<lparr> refcount = 1, loader = 4096, auth = 4112, live_messages_size = 4128,
       max_live_messages_size = DBUS_ONE_MEGABYTE * 63, connection = NULL,
       authenticated = False, disconnected = False, is_server = False,
       send_credentials_pending = True, receive_credentials_pending = False,
       address = Some addr, expected_guid = None,
       unix_user_function = None, unix_user_data = NULL, free_unix_user_data = None,
       credentials = \<lparr> pid = -1, uid = -1, gid = -1 \<rparr>, unused_bytes_recovered = False \<rparr>"

definition scenario_backends :: "string list \<Rightarrow> 'w backends" where
  "scenario_backends pipes =
     \<lparr> dbus_transport_open_socket =
         (\<lambda>entry transport error w.
            if entry_method entry = ''unix'' then
              Some ((DBUS_TRANSPORT_OPEN_OK, Some (client_struct ''unix:''), error), w)
            else if entry_method entry = ''tcp'' then
              (if map_of (entry_values entry) ''host'' = None
               then Some ((DBUS_TRANSPORT_OPEN_BAD_ADDRESS, transport,
                           Some (Error_bad_address ''host'')), w)
               else Some ((DBUS_TRANSPORT_OPEN_OK, Some (client_struct ''tcp:''), error), w))
            else Some ((DBUS_TRANSPORT_OPEN_NOT_HANDLED, transport, error), w)),
       dbus_transport_open_platform_specific =
         (\<lambda>entry transport error w.
            Some ((DBUS_TRANSPORT_OPEN_NOT_HANDLED, transport, error), w)),
       dbus_transport_open_debug_pipe =
         (\<lambda>entry transport error w.
            if entry_method entry = ''debug-pipe'' then
              (case map_of (entry_values entry) ''name'' of
                 None \<Rightarrow> Some ((DBUS_TRANSPORT_OPEN_BAD_ADDRESS, transport,
                                  Some (Error_bad_address ''name'')), w)
               | Some name \<Rightarrow>
                   if name \<in> set pipes
                   then Some ((DBUS_TRANSPORT_OPEN_OK,
                               Some (client_struct (''debug-pipe:name='' @ name)), error), w)
                   else Some ((DBUS_TRANSPORT_OPEN_DID_NOT_CONNECT, transport,
                               Some (Error_other ''NoServer'' name)), w))
            else Some ((DBUS_TRANSPORT_OPEN_NOT_HANDLED, transport, error), w)) \<rparr>"

section \<open>Situations the properties speak about\<close>

text \<open>
  The peer is rejected in the state the identity checks of
  \<open>_dbus_transport_get_is_authenticated\<close> start from: on the client side the expected
  GUID is set and differs from the server's; on the server side the installed
  \<open>unix_user_function\<close> (not on Windows) refuses the peer's uid, or, without one, the
  peer's identity does not match the process's own.
\<close>

definition peer_rejected :: "'w environment \<Rightarrow> 'w transport_state \<Rightarrow> bool" where
  "peer_rejected env s =
     (let auth_identity = auth_get_identity env (auth s) (world s) in
      if \<not> is_server s then
        expected_guid s \<noteq> None \<and>
        the (expected_guid s) \<noteq> auth_get_guid_from_server env (auth s) (world s)
      else if unix_user_function s \<noteq> None \<and> \<not> DBUS_WIN env then
        \<not> fst (the (unix_user_function s) (connection s) (uid auth_identity) (unix_user_data s)
                 (connection_unlock env (connection s) (world s)))
      else
        \<not> credentials_match env (credentials_from_current_process env (world s)) auth_identity)"

text \<open>
  At the start of \<open>_dbus_transport_get_is_authenticated\<close>: the procedure will reach the
  copy of the server's GUID into \<open>expected_guid\<close> and \<open>_dbus_strdup\<close> will return
  \<open>NULL\<close>.
\<close>

definition guid_copy_fails :: "'w environment \<Rightarrow> 'w transport_state \<Rightarrow> bool" where
  "guid_copy_fails env s =
     (\<not> send_credentials_pending s \<and> \<not> receive_credentials_pending s \<and>
      \<not> is_server s \<and> expected_guid s = None \<and>
      (let (st, w) = auth_do_work env (auth s)
                       (connection_ref_unlocked env (connection s) (world s))
       in st = DBUS_AUTH_STATE_AUTHENTICATED \<and>
          fst (strdup env (auth_get_guid_from_server env (auth s) w) w) = None))"

definition is_conn_ref :: "event \<Rightarrow> bool" where
  "is_conn_ref e = (case e of ConnectionRef c \<Rightarrow> True | _ \<Rightarrow> False)"

definition is_conn_unref :: "event \<Rightarrow> bool" where
  "is_conn_unref e = (case e of ConnectionUnref c \<Rightarrow> True | _ \<Rightarrow> False)"

text \<open>The backend's disconnect hook does not set \<open>authenticated\<close>.\<close>

definition disconnect_hook_quiet :: "'w DBusTransportVTable \<Rightarrow> bool" where
  "disconnect_hook_quiet vt = (\<forall>x. authenticated (disconnect vt x) \<longrightarrow> authenticated x)"


text \<open>
  The calls of a log that move a message link: out of the loader, back into it, or on
  to the connection.
\<close>

definition is_delivery :: "event \<Rightarrow> bool" where
  "is_delivery e =
     (case e of PopLink l \<Rightarrow> True | PutbackLink l \<Rightarrow> True | QueueReceived c l \<Rightarrow> True
      | _ \<Rightarrow> False)"

text \<open>The calls that deliver the given links, each popped and queued on a connection.\<close>

definition deliveries :: "(ptr \<times> ptr) list \<Rightarrow> event list" where
  "deliveries cls = concat (map (\<lambda>(c, l). [PopLink l, QueueReceived c l]) cls)"

text \<open>A connected, authenticated client whose unused bytes have been recovered.\<close>

definition streaming_client :: "'w \<Rightarrow> 'w transport_state" where
  "streaming_client w =
     (ready_client (Some ''g1'') w)\<lparr>authenticated := True, unused_bytes_recovered := True\<rparr>"

text \<open>The states in which the rounds of the queueing loop start, in order.\<close>

fun queue_rounds ::
  "nat \<Rightarrow> 'w environment \<Rightarrow> 'w DBusTransportVTable \<Rightarrow> 'w transport_state
     \<Rightarrow> 'w transport_state list" where
  "queue_rounds 0 env vt s = []"
| "queue_rounds (Suc n) env vt s =
     s # (case queue_step env vt s of
            Inl r \<Rightarrow> []
          | Inr s1 \<Rightarrow> queue_rounds n env vt s1)"

text \<open>
  Corruption is never taken back, in the states \<open>I\<close> the loop runs through: a round
  that starts in such a state with a corrupted loader ends with a corrupted loader,
  and a round that goes on to the next starts it in such a state.
\<close>

definition corruption_sticks ::
  "'w environment \<Rightarrow> 'w DBusTransportVTable \<Rightarrow> ('w transport_state \<Rightarrow> bool) \<Rightarrow> bool" where
  "corruption_sticks env vt I =
     (\<forall>a. I a \<longrightarrow>
          (case queue_step env vt a of
             Inl (status, b) \<Rightarrow> (loader_is_corrupted env a \<longrightarrow> loader_is_corrupted env b)
           | Inr b \<Rightarrow> I b \<and> (loader_is_corrupted env a \<longrightarrow> loader_is_corrupted env b)))"

section \<open>A connected lifetime\<close>

text \<open>
  The operations of the transport that a connection calls between
  \<open>_dbus_transport_init_base\<close> and finalisation, with their arguments.
  \<open>Call_queue_messages\<close> carries the fuel of its loop.
\<close>

datatype 'w transport_call =
    Call_ref
  | Call_unref
  | Call_disconnect
  | Call_get_is_connected
  | Call_get_is_authenticated
  | Call_get_address
  | Call_handle_watch ptr nat
  | Call_set_connection ptr
  | Call_get_socket_fd
  | Call_do_iteration nat int
  | Call_get_dispatch_status
  | Call_queue_messages nat
  | Call_set_max_message_size int
  | Call_get_max_message_size
  | Call_set_max_received_size int
  | Call_get_max_received_size
  | Call_get_unix_user
  | Call_get_unix_process_id
  | Call_set_unix_user_function
      "(ptr \<Rightarrow> int \<Rightarrow> ptr \<Rightarrow> 'w \<Rightarrow> bool \<times> 'w) option" ptr "(ptr \<Rightarrow> 'w \<Rightarrow> 'w) option"
  | Call_set_auth_mechanisms "string list"

text \<open>The state an operation leaves; \<open>None\<close> when the queueing loop outlasts its fuel.\<close>

fun do_transport_call ::
  "'w environment \<Rightarrow> 'w DBusTransportVTable \<Rightarrow> 'w transport_call \<Rightarrow> 'w transport_state
     \<Rightarrow> 'w transport_state option" where
  "do_transport_call env vt Call_ref s = Some (dbus_transport_ref s)"
| "do_transport_call env vt Call_unref s = Some (dbus_transport_unref vt s)"
| "do_transport_call env vt Call_disconnect s = Some (dbus_transport_disconnect vt s)"
| "do_transport_call env vt Call_get_is_connected s = Some s"
| "do_transport_call env vt Call_get_is_authenticated s =
     Some (snd (dbus_transport_get_is_authenticated env vt s))"
| "do_transport_call env vt Call_get_address s = Some s"
| "do_transport_call env vt (Call_handle_watch watch condition) s =
     Some (snd (dbus_transport_handle_watch env vt watch condition s))"
| "do_transport_call env vt (Call_set_connection conn) s =
     Some (snd (dbus_transport_set_connection vt conn s))"
| "do_transport_call env vt Call_get_socket_fd s = Some (snd (dbus_transport_get_socket_fd vt s))"
| "do_transport_call env vt (Call_do_iteration flags timeout) s =
     Some (dbus_transport_do_iteration vt flags timeout s)"
| "do_transport_call env vt Call_get_dispatch_status s =
     Some (snd (dbus_transport_get_dispatch_status env vt s))"
| "do_transport_call env vt (Call_queue_messages fuel) s =
     map_option snd (dbus_transport_queue_messages fuel env vt s)"
| "do_transport_call env vt (Call_set_max_message_size n) s =
     Some (dbus_transport_set_max_message_size env n s)"
| "do_transport_call env vt Call_get_max_message_size s = Some s"
| "do_transport_call env vt (Call_set_max_received_size n) s =
     Some (dbus_transport_set_max_received_size env n s)"
| "do_transport_call env vt Call_get_max_received_size s = Some s"
| "do_transport_call env vt Call_get_unix_user s = Some s"
| "do_transport_call env vt Call_get_unix_process_id s = Some s"
| "do_transport_call env vt (Call_set_unix_user_function f d fr) s =
     Some (snd (dbus_transport_set_unix_user_function f d fr s))"
| "do_transport_call env vt (Call_set_auth_mechanisms ms) s =
     Some (snd (dbus_transport_set_auth_mechanisms env ms s))"

text \<open>The states observed after each operation of a sequence.\<close>

fun run_transport_calls ::
  "'w environment \<Rightarrow> 'w DBusTransportVTable \<Rightarrow> 'w transport_call list \<Rightarrow> 'w transport_state
     \<Rightarrow> 'w transport_state list option" where
  "run_transport_calls env vt [] s = Some []"
| "run_transport_calls env vt (c # cs) s =
     (case do_transport_call env vt c s of
        None \<Rightarrow> None
      | Some s1 \<Rightarrow>
          (case run_transport_calls env vt cs s1 of
             None \<Rightarrow> None
           | Some tr \<Rightarrow> Some (s1 # tr)))"

text \<open>
  \<open>authenticated\<close> is not set while credentials are pending; and what backend code
  run through the vtable is relied on to keep: it does not clear \<open>authenticated\<close>, and
  it leaves the first property in force.
\<close>

definition credentials_settled :: "'w transport_state \<Rightarrow> bool" where
  "credentials_settled s =
     (authenticated s \<longrightarrow> \<not> send_credentials_pending s \<and> \<not> receive_credentials_pending s)"

definition keeps_authentication :: "'w transport_state \<Rightarrow> 'w transport_state \<Rightarrow> bool" where
  "keeps_authentication s s1 =
     ((authenticated s \<longrightarrow> authenticated s1) \<and>
      (credentials_settled s \<longrightarrow> credentials_settled s1))"

definition vtable_keeps_authentication :: "'w DBusTransportVTable \<Rightarrow> bool" where
  "vtable_keeps_authentication vt =
     ((\<forall>s. keeps_authentication s (finalize vt s)) \<and>
      (\<forall>watch condition s. keeps_authentication s (snd (handle_watch vt watch condition s))) \<and>
      (\<forall>s. keeps_authentication s (disconnect vt s)) \<and>
      (\<forall>s. keeps_authentication s (snd (connection_set vt s))) \<and>
      (\<forall>flags timeout s. keeps_authentication s (do_iteration vt flags timeout s)) \<and>
      (\<forall>h s. live_messages_changed vt = Some h \<longrightarrow> keeps_authentication s (h s)) \<and>
      (\<forall>h s. get_socket_fd vt = Some h \<longrightarrow> keeps_authentication s (snd (h s))))"

text \<open>The number of places where a sequence of truth values goes from false to true.\<close>

fun rising_edges :: "bool list \<Rightarrow> nat" where
  "rising_edges (a # b # bs) = (if \<not> a \<and> b then 1 else 0) + rising_edges (b # bs)"
| "rising_edges bs = 0"

text \<open>A sequence of truth values in which no true is followed by a false.\<close>

fun never_reverts :: "bool list \<Rightarrow> bool" where
  "never_reverts (a # b # bs) = ((a \<longrightarrow> b) \<and> never_reverts (b # bs))"
| "never_reverts bs = True"

text \<open>
  A backend whose \<open>handle_watch\<close> does the credentials exchange: it clears both
  pending flags.
\<close>

definition handshaking_vtable :: "scenario_world DBusTransportVTable" where
  "handshaking_vtable =
     scenario_vtable
       \<lparr>handle_watch := (\<lambda>watch condition s.
           (True, s\<lparr>send_credentials_pending := False,
                     receive_credentials_pending := False\<rparr>))\<rparr>"

text \<open>
  A client's life: attached to connection 7, asked whether it is authenticated before
  and after the credentials exchange, disconnected, and asked again.
\<close>

definition handshake_calls :: "scenario_world transport_call list" where
  "handshake_calls =
     [Call_set_connection 7, Call_get_is_authenticated, Call_handle_watch 1 1,
      Call_get_is_authenticated, Call_disconnect, Call_get_is_authenticated]"


section \<open>Properties of the allocation wrappers\<close>

lemma init_initialized: "debug_initialized (dbus_initialize_malloc_debug lc m)"
  by (simp add: dbus_initialize_malloc_debug_def Let_def split: option.splits)

lemma init_idem: "debug_initialized m \<Longrightarrow> dbus_initialize_malloc_debug lc m = m"
  by (simp add: dbus_initialize_malloc_debug_def)

lemma init_heap: "heap (dbus_initialize_malloc_debug lc m) = heap m"
  by (simp add: dbus_initialize_malloc_debug_def Let_def split: option.splits)

lemma init_initial:
  "c_getenv lc ''DBUS_MALLOC_FAIL_NTH'' = Some v \<Longrightarrow>
   fail_counts (dbus_initialize_malloc_debug lc (initial_memory h)) = c_atoi lc v \<and>
   fail_alloc_counter (dbus_initialize_malloc_debug lc (initial_memory h)) = c_atoi lc v"
  by (simp add: dbus_initialize_malloc_debug_def initial_memory_def Let_def split: option.splits)

lemma set_guards_globals:
  "set_guards lc b n src m = Some (p, m') \<Longrightarrow> m' = m\<lparr>heap := heap m'\<rparr>"
  by (auto simp: set_guards_def Let_def split: if_splits)

lemma dbus_free_globals:
  "dbus_free tests lc p m = Some m' \<Longrightarrow> m' = m\<lparr>heap := heap m'\<rparr>"
  by (auto simp: dbus_free_def split: if_splits)

lemma rest_globals:
  "alloc_call_rest tests lc c m = Some (p, m') \<Longrightarrow> m' = m\<lparr>heap := heap m'\<rparr>"
  apply (cases c)
  apply (auto simp: dbus_malloc_rest_def dbus_malloc0_rest_def dbus_realloc_rest_def Let_def
      split: if_splits prod.splits option.splits dest!: set_guards_globals dbus_free_globals)
  done

lemma rest_statics:
  assumes "alloc_call_rest tests lc c m = Some (p, m')"
  shows "debug_initialized m' = debug_initialized m" "fail_counts m' = fail_counts m"
    "fail_alloc_counter m' = fail_alloc_counter m"
proof -
  from rest_globals[OF assms] obtain h where e: "m' = m\<lparr>heap := h\<rparr>" by blast
  show "debug_initialized m' = debug_initialized m" "fail_counts m' = fail_counts m"
    "fail_alloc_counter m' = fail_alloc_counter m"
    by (simp_all add: e)
qed

lemma do_alloc_call_gate:
  "do_alloc_call True lc c m =
     (case dbus_decrement_fail_alloc_counter lc m of
        (True, m1) \<Rightarrow> Some (NULL, m1)
      | (False, m1) \<Rightarrow> alloc_call_rest True lc c m1)"
  by (cases c)
     (auto simp: dbus_malloc_def dbus_malloc0_def dbus_realloc_def
       dbus_decrement_fail_alloc_counter_def init_idem init_initialized Let_def)

lemma mod_step_fail:
  fixes N :: int
  assumes "1 \<le> N" "N - int (j mod (nat N + 1)) \<le> 0"
  shows "(nat N + 1) dvd (j + 1)" "Suc j mod (nat N + 1) = 0"
proof -
  have "j mod (nat N + 1) < nat N + 1" by simp
  with assms have e: "j mod (nat N + 1) = nat N" by linarith
  then show "Suc j mod (nat N + 1) = 0"
    by (metis Suc_eq_plus1 mod_Suc)
  then show "(nat N + 1) dvd (j + 1)" by (simp add: mod_eq_0_iff_dvd)
qed

lemma mod_step_pass:
  fixes N :: int
  assumes "1 \<le> N" "\<not> N - int (j mod (nat N + 1)) \<le> 0"
  shows "\<not> (nat N + 1) dvd (j + 1)" "int (Suc j mod (nat N + 1)) = int (j mod (nat N + 1)) + 1"
proof -
  from assms have l: "j mod (nat N + 1) < nat N" by linarith
  then have e: "Suc j mod (nat N + 1) = Suc (j mod (nat N + 1))"
    by (simp add: mod_Suc)
  then show "int (Suc j mod (nat N + 1)) = int (j mod (nat N + 1)) + 1" by simp
  from e show "\<not> (nat N + 1) dvd (j + 1)"
    by (metis Suc_eq_plus1 dvd_eq_mod_eq_0 nat.distinct(1))
qed

lemma nth_call:
  assumes N: "1 \<le> N" and inv: "nth_counter_inv lc N j m"
  shows "do_alloc_call True lc c m =
     (if (nat N + 1) dvd (j + 1)
      then Some (NULL, (dbus_initialize_malloc_debug lc m)\<lparr>fail_alloc_counter := N\<rparr>)
      else alloc_call_rest True lc c
             ((dbus_initialize_malloc_debug lc m)\<lparr>fail_alloc_counter :=
                 fail_alloc_counter (dbus_initialize_malloc_debug lc m) - 1\<rparr>))"
proof (cases "N - int (j mod (nat N + 1)) \<le> 0")
  case True
  with mod_step_fail[OF N True] inv N show ?thesis
    by (simp add: do_alloc_call_gate dbus_decrement_fail_alloc_counter_def Let_def nth_counter_inv_def)
next
  case False
  with mod_step_pass[OF N False] inv N show ?thesis
    by (simp add: do_alloc_call_gate dbus_decrement_fail_alloc_counter_def Let_def nth_counter_inv_def)
qed

lemma nth_call_inv:
  assumes N: "1 \<le> N" and inv: "nth_counter_inv lc N j m"
    and call: "do_alloc_call True lc c m = Some (p, m')"
  shows "nth_counter_inv lc N (Suc j) m'"
proof (cases "N - int (j mod (nat N + 1)) \<le> 0")
  case True
  from call mod_step_fail[OF N True] inv N show ?thesis
    by (auto simp: nth_call[OF N inv] nth_counter_inv_def init_idem init_initialized)
next
  case False
  from mod_step_pass[OF N False] call
  have r: "alloc_call_rest True lc c
             ((dbus_initialize_malloc_debug lc m)\<lparr>fail_alloc_counter :=
                 fail_alloc_counter (dbus_initialize_malloc_debug lc m) - 1\<rparr>) = Some (p, m')"
    by (simp add: nth_call[OF N inv])
  from rest_statics[OF r] have
    "debug_initialized m'" "fail_counts m' = fail_counts (dbus_initialize_malloc_debug lc m)"
    "fail_alloc_counter m' = fail_alloc_counter (dbus_initialize_malloc_debug lc m) - 1"
    by (simp_all add: init_initialized)
  with mod_step_pass[OF N False] inv show ?thesis
    by (simp add: nth_counter_inv_def init_idem)
qed

lemma run_inv:
  assumes N: "1 \<le> N"
  shows "nth_counter_inv lc N j m \<Longrightarrow> run_alloc_calls True lc cs m = Some (ps, m')
     \<Longrightarrow> nth_counter_inv lc N (j + length cs) m'"
proof (induction cs arbitrary: j m ps)
  case Nil
  then show ?case by simp
next
  case (Cons c cs)
  from Cons.prems(2) obtain p m1 ps1 where
    c: "do_alloc_call True lc c m = Some (p, m1)" and
    r: "run_alloc_calls True lc cs m1 = Some (ps1, m')"
    by (auto split: option.splits prod.splits)
  from Cons.IH[OF nth_call_inv[OF N Cons.prems(1) c] r] show ?case by simp
qed

text \<open>
  Claim C8, as amended. In a test build started with \<open>DBUS_MALLOC_FAIL_NTH\<close> set to
  \<open>N \<ge> 1\<close>, take any run of calls of \<open>dbus_malloc\<close>, \<open>dbus_malloc0\<close> and
  \<open>dbus_realloc\<close> from the initial statics. Call number \<open>j + 1\<close> is failed by the
  counter, returning \<open>NULL\<close> and reloading the counter with \<open>N\<close>, exactly when
  \<open>N + 1\<close> divides \<open>j + 1\<close>: \<open>N\<close> calls get through between two failures. Every
  other call counts the counter down by one and runs the rest of its wrapper (the
  zero-size and \<open>fail_size\<close> checks, then the underlying allocator).
\<close>

theorem fail_nth_fails_every_n_plus_1:
  assumes env: "c_getenv lc ''DBUS_MALLOC_FAIL_NTH'' = Some v"
    and N: "c_atoi lc v = N" "1 \<le> N"
    and run: "run_alloc_calls True lc (take j cs) (initial_memory h) = Some (ps, m)"
    and j: "j < length cs"
  shows "do_alloc_call True lc (cs ! j) m =
     (if (nat N + 1) dvd (j + 1)
      then Some (NULL, (dbus_initialize_malloc_debug lc m)\<lparr>fail_alloc_counter := N\<rparr>)
      else alloc_call_rest True lc (cs ! j)
             ((dbus_initialize_malloc_debug lc m)\<lparr>fail_alloc_counter :=
                 fail_alloc_counter (dbus_initialize_malloc_debug lc m) - 1\<rparr>))"
proof -
  from init_initial[OF env] N have "nth_counter_inv lc N 0 (initial_memory h)"
    by (simp add: nth_counter_inv_def)
  from run_inv[OF N(2) this run] j have "nth_counter_inv lc N j m" by simp
  from nth_call[OF N(2) this] show ?thesis .
qed

theorem fail_nth_fails_every_n_plus_1_witness:
  "c_getenv (list_libc [(''DBUS_MALLOC_FAIL_NTH'', ''2'')]) ''DBUS_MALLOC_FAIL_NTH'' = Some ''2'' \<and>
   c_atoi (list_libc [(''DBUS_MALLOC_FAIL_NTH'', ''2'')]) ''2'' = 2 \<and> (1::int) \<le> 2 \<and>
   run_alloc_calls True (list_libc [(''DBUS_MALLOC_FAIL_NTH'', ''2'')])
      (take 2 [Malloc 8, Malloc0 8, Realloc NULL 8]) (initial_memory (4096, [])) =
     Some ([4096, 4104],
           \<lparr> debug_initialized = True, fail_counts = 2, fail_size = 0,
             fail_alloc_counter = 0, guards = False, disable_mem_pools = False,
             heap = (4112, [4104, 4096]) \<rparr>) \<and>
   do_alloc_call True (list_libc [(''DBUS_MALLOC_FAIL_NTH'', ''2'')])
      ([Malloc 8, Malloc0 8, Realloc NULL 8] ! 2)
      \<lparr> debug_initialized = True, fail_counts = 2, fail_size = 0,
        fail_alloc_counter = 0, guards = False, disable_mem_pools = False,
        heap = (4112, [4104, 4096]) \<rparr> =
     Some (NULL,
           \<lparr> debug_initialized = True, fail_counts = 2, fail_size = 0,
             fail_alloc_counter = 2, guards = False, disable_mem_pools = False,
             heap = (4112, [4104, 4096]) \<rparr>)"
proof -
  let ?L = "list_libc [(''DBUS_MALLOC_FAIL_NTH'', ''2'')]"
  let ?cs = "[Malloc 8, Malloc0 8, Realloc NULL 8]"
  let ?m = "\<lparr> debug_initialized = True, fail_counts = 2, fail_size = 0,
             fail_alloc_counter = 0, guards = False, disable_mem_pools = False,
             heap = (4112::nat, [4104, 4096::nat]) \<rparr>"
  have env: "c_getenv ?L ''DBUS_MALLOC_FAIL_NTH'' = Some ''2''"
    by (simp add: list_libc_def)
  have N: "c_atoi ?L ''2'' = 2" "(1::int) \<le> 2"
    by (simp_all add: list_libc_def list_atoi_def)
  have run: "run_alloc_calls True ?L (take 2 ?cs) (initial_memory (4096, [])) = Some ([4096, 4104], ?m)"
    by (simp add: list_libc_def list_atoi_def initial_memory_def dbus_malloc_def dbus_malloc0_def
        dbus_malloc_rest_def dbus_malloc0_rest_def dbus_decrement_fail_alloc_counter_def
        dbus_initialize_malloc_debug_def Let_def DBUS_INT_MAX_def)
  have j: "2 < length ?cs" by simp
  from fail_nth_fails_every_n_plus_1[OF env N run j]
  show ?thesis using env N run
    by (simp add: dbus_initialize_malloc_debug_def)
qed

text \<open>
  Claim C8 as stated fails: with \<open>N = 2\<close> the second call is passed to the allocator and
  the third returns \<open>NULL\<close>.
\<close>

theorem fail_nth_not_every_nth_counterexample:
  "map_option fst
     (run_alloc_calls True (list_libc [(''DBUS_MALLOC_FAIL_NTH'', ''2'')])
        [Malloc 8, Malloc 8, Malloc 8, Malloc 8] (initial_memory (4096, []))) =
   Some [4096, 4104, NULL, 4112] \<and> (4104::nat) \<noteq> NULL"
  by (simp add: list_libc_def list_atoi_def initial_memory_def dbus_malloc_def
        dbus_malloc_rest_def dbus_decrement_fail_alloc_counter_def
        dbus_initialize_malloc_debug_def Let_def DBUS_INT_MAX_def NULL_def)

text \<open>
  Claim C10, as amended. In every build and every state \<open>dbus_malloc (0)\<close> and
  \<open>dbus_malloc0 (0)\<close> return \<open>NULL\<close>. \<open>dbus_realloc (p, 0)\<close> never returns a block:
  in a test build where the fault-injection counter fails the call it returns \<open>NULL\<close>
  and leaves \<open>p\<close> alone; otherwise it is \<open>dbus_free (p)\<close> followed by \<open>NULL\<close>
  (with guards on, \<open>dbus_free\<close> aborts on a damaged guard word).
\<close>

theorem zero_size_requests:
  "(\<exists>m'. dbus_malloc tests lc 0 m = Some (NULL, m')) \<and>
   (\<exists>m'. dbus_malloc0 tests lc 0 m = Some (NULL, m')) \<and>
   dbus_realloc tests lc p 0 m =
     (if tests \<and> fst (dbus_decrement_fail_alloc_counter lc m)
      then Some (NULL, snd (dbus_decrement_fail_alloc_counter lc m))
      else map_option (Pair NULL)
             (dbus_free tests lc p
                (if tests then snd (dbus_decrement_fail_alloc_counter lc m) else m)))"
  by (auto simp: dbus_malloc_def dbus_malloc0_def dbus_realloc_def dbus_malloc_rest_def
      dbus_malloc0_rest_def dbus_realloc_rest_def dbus_decrement_fail_alloc_counter_def
      init_idem init_initialized Let_def split: option.splits)

text \<open>
  Claim C10 as stated fails in a test build: after \<open>_dbus_set_fail_alloc_counter (0)\<close>
  the call \<open>dbus_realloc (4096, 0)\<close> returns \<open>NULL\<close> with block 4096 still live, where
  \<open>dbus_free (4096)\<close> would have released it.
\<close>

theorem realloc_zero_keeps_block_counterexample:
  "dbus_realloc True (list_libc []) 4096 0
      (dbus_set_fail_alloc_counter (list_libc []) 0 (initial_memory (4200, [4096]))) =
     Some (NULL,
           \<lparr> debug_initialized = True, fail_counts = -1, fail_size = 0,
             fail_alloc_counter = DBUS_INT_MAX, guards = False, disable_mem_pools = False,
             heap = (4200, [4096]) \<rparr>) \<and>
   dbus_free True (list_libc []) 4096
      (dbus_set_fail_alloc_counter (list_libc []) 0 (initial_memory (4200, [4096]))) =
     Some \<lparr> debug_initialized = True, fail_counts = -1, fail_size = 0,
             fail_alloc_counter = 0, guards = False, disable_mem_pools = False,
             heap = (4200, []) \<rparr>"
  by (simp add: list_libc_def initial_memory_def dbus_realloc_def dbus_free_def
        dbus_set_fail_alloc_counter_def dbus_decrement_fail_alloc_counter_def
        dbus_initialize_malloc_debug_def Let_def NULL_def)

section \<open>Properties of the transport base\<close>

lemma acquired_append: "acquired (xs @ ys) = acquired xs @ acquired ys"
  by (induction xs rule: acquired.induct) simp_all

lemma released_append: "released (xs @ ys) = released xs @ released ys"
  by (induction xs rule: released.induct) simp_all

lemmas call_defs = log_call_def in_world_def dbus_message_loader_unref_def dbus_auth_unref_def
  dbus_counter_unref_def dbus_connection_ref_unlocked_def dbus_connection_unref_unlocked_def
  dbus_connection_unlock_def dbus_connection_lock_def

lemmas scenario_defs = scenario_env_def scenario_vtable_def scenario_world0_def
  blank_transport_def ready_client_def sw_new_def sw_alloc_def sw_copy_def

text \<open>
  Claim C6. \<open>_dbus_transport_init_base\<close> returns \<open>TRUE\<close> exactly when the loader, the
  authenticator, the counter and (on the client side) the copy of the address were all
  obtained. When it returns \<open>FALSE\<close> no field of the struct has been written and every
  object obtained before the failure has been released, last obtained first. When it
  returns \<open>TRUE\<close> the reference count is 1, the client has credentials to send and the
  server credentials to receive, and \<open>max_live_messages_size\<close> is 63 MiB. (It does not
  return only when called for a client without an address.)
\<close>

theorem init_base_all_or_nothing:
  "let (ld, w1) = message_loader_new env (world s);
       (au, w2) = (case server_guid of
                     Some g \<Rightarrow> auth_server_new env g w1
                   | None \<Rightarrow> auth_client_new env w1);
       (cn, w3) = counter_new env w2;
       address_copy = (case addr of Some a \<Rightarrow> fst (string_copy_data env a w3) | None \<Rightarrow> None)
   in
   case dbus_transport_init_base env server_guid addr s of
     None \<Rightarrow> ld \<noteq> NULL \<and> au \<noteq> NULL \<and> cn \<noteq> NULL \<and> server_guid = None \<and> addr = None
   | Some (r, s') \<Rightarrow>
       r = (ld \<noteq> NULL \<and> au \<noteq> NULL \<and> cn \<noteq> NULL \<and>
            (server_guid = None \<longrightarrow> address_copy \<noteq> None)) \<and>
       (if r then
          calls s' = calls s @ [Acquire (Loader ld), Acquire (Auth au), Acquire (Counter cn)] \<and>
          loader s' = ld \<and> auth s' = au \<and> live_messages_size s' = cn \<and>
          refcount s' = 1 \<and>
          is_server s' = (server_guid \<noteq> None) \<and>
          send_credentials_pending s' = (server_guid = None) \<and>
          receive_credentials_pending s' = (server_guid \<noteq> None) \<and>
          max_live_messages_size s' = 63 * 1024 * 1024 \<and>
          \<not> authenticated s' \<and> \<not> disconnected s' \<and>
          expected_guid s' = None \<and>
          address s' = (if server_guid = None then address_copy else None)
        else
          s' = s\<lparr>world := world s', calls := calls s'\<rparr> \<and>
          (\<exists>evs. calls s' = calls s @ evs \<and> released evs = rev (acquired evs)))"
  by (auto simp: dbus_transport_init_base_def call_defs init_base_fields_def Let_def NULL_def
      DBUS_ONE_MEGABYTE_def
      split: prod.splits option.splits bool.splits)

theorem init_base_all_or_nothing_witness:
  "dbus_transport_init_base scenario_env None (Some ''unix:path=/tmp/bus'')
      (blank_transport (scenario_world0\<lparr>sw_alloc_failures := [False, False, True]\<rparr>)) =
     Some (False,
           (blank_transport (scenario_world0\<lparr>sw_alloc_failures := [], sw_next := 4128\<rparr>))
             \<lparr>calls := [Acquire (Loader 4096), Acquire (Auth 4112),
                        Release (Auth 4112), Release (Loader 4096)]\<rparr>) \<and>
   map_option fst (dbus_transport_init_base scenario_env None (Some ''unix:path=/tmp/bus'')
      (blank_transport scenario_world0)) = Some True \<and>
   map_option (address \<circ> snd) (dbus_transport_init_base scenario_env None (Some ''unix:path=/tmp/bus'')
      (blank_transport scenario_world0)) = Some (Some ''unix:path=/tmp/bus'')"
  using init_base_all_or_nothing [of scenario_env "blank_transport (scenario_world0\<lparr>sw_alloc_failures := [False, False, True]\<rparr>)" None "Some ''unix:path=/tmp/bus''"]
  by (simp add: dbus_transport_init_base_def call_defs init_base_fields_def Let_def NULL_def
      scenario_defs
      DBUS_ONE_MEGABYTE_def)

section \<open>Attaching a connection; the dispatch status\<close>


text \<open>
  Claim C9. Whenever \<open>_dbus_transport_set_connection\<close> returns \<open>FALSE\<close> the transport's
  \<open>connection\<close> is \<open>NULL\<close>, which is the assertion the function starts with, so it may be
  called again. When the backend's \<open>connection_set\<close> hook fails (and the reference the
  function took is not the last one, so that nothing is finalized), the function resets
  \<open>connection\<close> to \<open>NULL\<close> and returns \<open>FALSE\<close>.
\<close>

theorem set_connection_failure_unattached:
  "(\<not> fst (dbus_transport_set_connection vt conn s) \<longrightarrow>
      set_connection_precondition (snd (dbus_transport_set_connection vt conn s))) \<and>
   (\<not> fst (connection_set vt (dbus_transport_ref (s\<lparr>connection := conn\<rparr>))) \<and>
    refcount (snd (connection_set vt (dbus_transport_ref (s\<lparr>connection := conn\<rparr>)))) \<noteq> 1 \<longrightarrow>
      \<not> fst (dbus_transport_set_connection vt conn s) \<and>
      connection (snd (dbus_transport_set_connection vt conn s)) = NULL)"
  by (auto simp: dbus_transport_set_connection_def set_connection_precondition_def
      dbus_transport_unref_def dbus_transport_ref_def run_hook_result_def run_hook_def Let_def
      split: prod.splits)

theorem set_connection_failure_unattached_witness:
  "\<not> fst (connection_set (scenario_vtable\<lparr>connection_set := (\<lambda>s. (False, s))\<rparr>)
            (dbus_transport_ref ((blank_transport scenario_world0)\<lparr>refcount := 1, connection := 7\<rparr>))) \<and>
   refcount (snd (connection_set (scenario_vtable\<lparr>connection_set := (\<lambda>s. (False, s))\<rparr>)
            (dbus_transport_ref ((blank_transport scenario_world0)\<lparr>refcount := 1, connection := 7\<rparr>)))) \<noteq> 1 \<and>
   dbus_transport_set_connection (scenario_vtable\<lparr>connection_set := (\<lambda>s. (False, s))\<rparr>) 7
      ((blank_transport scenario_world0)\<lparr>refcount := 1\<rparr>) =
     (False, (blank_transport scenario_world0)\<lparr>refcount := 1\<rparr>) \<and>
   set_connection_precondition ((blank_transport scenario_world0)\<lparr>refcount := 1\<rparr>) \<and>
   dbus_transport_set_connection scenario_vtable 7 ((blank_transport scenario_world0)\<lparr>refcount := 1\<rparr>) =
     (True, (blank_transport scenario_world0)\<lparr>refcount := 1, connection := 7\<rparr>)"
  using set_connection_failure_unattached
    [of "scenario_vtable\<lparr>connection_set := (\<lambda>s. (False, s))\<rparr>" 7
        "(blank_transport scenario_world0)\<lparr>refcount := 1\<rparr>"]
  by (simp add: dbus_transport_set_connection_def set_connection_precondition_def
      dbus_transport_unref_def dbus_transport_ref_def run_hook_result_def run_hook_def Let_def
      scenario_vtable_def blank_transport_def NULL_def)


lemma and_then_Inl [simp]: "and_then (Inl r) f = Inl r"
  by (simp add: and_then_def)

lemma and_then_Inr [simp]: "and_then (Inr s) f = f s"
  by (simp add: and_then_def)

lemma spec_tail:
  "(case and_then (spec_recover env s4) (spec_queue env) of
        Inl r \<Rightarrow> r
      | Inr s1 \<Rightarrow> spec_peek env s1) =
   (let (ok, s5) = (if \<not> unused_bytes_recovered s4
                             then recover_unused_bytes env s4 else (True, s4))
             in
             if \<not> ok then (DBUS_DISPATCH_NEED_MEMORY, s5)
             else
               (let s6 = s5\<lparr>unused_bytes_recovered := True\<rparr>;
                    (queued, w) = message_loader_queue_messages env (loader s6) (world s6);
                    s7 = s6\<lparr>world := w\<rparr>
                in
                if \<not> queued then (DBUS_DISPATCH_NEED_MEMORY, s7)
                else if message_loader_peek_message env (loader s7) (world s7) \<noteq> NULL
                then (DBUS_DISPATCH_DATA_REMAINS, s7)
                else (DBUS_DISPATCH_COMPLETE, s7)))"
proof (cases "unused_bytes_recovered s4")
  case True
  then have "s4\<lparr>unused_bytes_recovered := True\<rparr> = s4" by simp
  with True show ?thesis
    by (simp add: spec_recover_def spec_queue_def spec_peek_def Let_def
        split: prod.splits bool.splits)
next
  case False
  then show ?thesis
    by (simp add: spec_recover_def spec_queue_def spec_peek_def Let_def
        split: prod.splits bool.splits)
qed

lemma dispatch_status_head:
  "dbus_transport_get_dispatch_status env vt s =
     (if counter_get_value env (live_messages_size s) (world s) \<ge> max_live_messages_size s
      then (DBUS_DISPATCH_COMPLETE, s)
      else
        let (a1, s1) = dbus_transport_get_is_authenticated env vt s in
        (case (if \<not> a1 then
                 (let (st, w) = auth_do_work env (auth s1) (world s1);
                      s2 = s1\<lparr>world := w\<rparr>
                  in
                  if st = DBUS_AUTH_STATE_WAITING_FOR_MEMORY
                  then Inl (DBUS_DISPATCH_NEED_MEMORY, s2)
                  else
                    (let (a2, s3) = dbus_transport_get_is_authenticated env vt s2 in
                     if \<not> a2 then Inl (DBUS_DISPATCH_COMPLETE, s3) else Inr s3))
               else Inr s1) of
           Inl r \<Rightarrow> r
         | Inr s4 \<Rightarrow>
             (case and_then (spec_recover env s4) (spec_queue env) of
                Inl r \<Rightarrow> r
              | Inr s1 \<Rightarrow> spec_peek env s1)))"
  unfolding dbus_transport_get_dispatch_status_def spec_tail ..

text \<open>
  Claim C2. \<open>_dbus_transport_get_dispatch_status\<close> computes exactly what the algorithm
  of the specification computes, result and state, for every transport, backend and
  environment.
\<close>

theorem get_dispatch_status_refines_spec:
  "dbus_transport_get_dispatch_status env vt s = get_dispatch_status_spec env vt s"
proof (cases "max_live_messages_size s \<le> counter_get_value env (live_messages_size s) (world s)")
  case True
  then show ?thesis
    by (simp add: dispatch_status_head get_dispatch_status_spec_def spec_refuse_when_full_def)
next
  case False
  obtain a1 s1 where a: "dbus_transport_get_is_authenticated env vt s = (a1, s1)"
    by (cases "dbus_transport_get_is_authenticated env vt s")
  show ?thesis
  proof (cases a1)
    case True
    with False a show ?thesis
      by (simp add: dispatch_status_head get_dispatch_status_spec_def spec_refuse_when_full_def
          spec_step_auth_def)
  next
    case nauth: False
    obtain st w where d: "auth_do_work env (auth s1) (world s1) = (st, w)"
      by (cases "auth_do_work env (auth s1) (world s1)")
    obtain a2 s3 where b: "dbus_transport_get_is_authenticated env vt (s1\<lparr>world := w\<rparr>) = (a2, s3)"
      by (cases "dbus_transport_get_is_authenticated env vt (s1\<lparr>world := w\<rparr>)")
    from False a nauth d b show ?thesis
      by (cases st; cases a2)
         (simp_all add: dispatch_status_head get_dispatch_status_spec_def
            spec_refuse_when_full_def spec_step_auth_def)
  qed
qed

section \<open>The is-authenticated procedure\<close>


lemma disconnect_disconnected [simp]: "disconnected (dbus_transport_disconnect vt s)"
  by (simp add: dbus_transport_disconnect_def)

lemma unref_unlocked_fields [simp]:
  "disconnected (dbus_connection_unref_unlocked env c s) = disconnected s"
  "authenticated (dbus_connection_unref_unlocked env c s) = authenticated s"
  by (simp_all add: call_defs)

lemma check_server_guid_rejects:
  assumes "\<not> is_server s" "peer_rejected env s"
  shows "\<exists>s'. check_server_guid env vt s = Inl (False, s') \<and> disconnected s'"
  using assms by (simp add: check_server_guid_def peer_rejected_def Let_def)

lemma check_auth_identity_rejects:
  assumes "is_server s" "peer_rejected env s"
  shows "\<exists>s'. check_auth_identity env vt s = Inl (False, s') \<and> disconnected s'"
  using assms
  by (auto simp: check_auth_identity_def peer_rejected_def Let_def dbus_connection_unlock_def
      log_call_def in_world_def split: prod.splits if_splits)

lemma is_authenticated_rejects:
  assumes "\<not> authenticated s" "\<not> disconnected s"
    and "\<not> send_credentials_pending s" "\<not> receive_credentials_pending s"
    and work: "auth_do_work env (auth s) (connection_ref_unlocked env (connection s) (world s)) =
             (DBUS_AUTH_STATE_AUTHENTICATED, w)"
    and rej: "peer_rejected env (s\<lparr>calls := calls s @ [ConnectionRef (connection s)], world := w\<rparr>)"
  shows "\<not> fst (dbus_transport_get_is_authenticated env vt s) \<and>
         disconnected (snd (dbus_transport_get_is_authenticated env vt s))"
proof -
  let ?s2 = "s\<lparr>calls := calls s @ [ConnectionRef (connection s)], world := w\<rparr>"
  show ?thesis
  proof (cases "is_server s")
    case True
    then have "is_server ?s2" by simp
    from check_auth_identity_rejects[OF this rej, of vt] obtain s' where
      "check_auth_identity env vt ?s2 = Inl (False, s')" "disconnected s'" by blast
    with assms True show ?thesis
      by (simp add: dbus_transport_get_is_authenticated_def Let_def call_defs)
  next
    case False
    then have "\<not> is_server ?s2" by simp
    from check_server_guid_rejects[OF this rej, of vt] obtain s' where
      "check_server_guid env vt ?s2 = Inl (False, s')" "disconnected s'" by blast
    with assms False show ?thesis
      by (simp add: dbus_transport_get_is_authenticated_def Let_def call_defs)
  qed
qed

lemma dead_transport_no_data:
  assumes "\<not> authenticated s" "disconnected s"
  shows "fst (dbus_transport_get_dispatch_status env vt s) \<noteq> DBUS_DISPATCH_DATA_REMAINS"
  using assms
  by (simp add: dbus_transport_get_dispatch_status_def dbus_transport_get_is_authenticated_def
      Let_def split: prod.splits)

lemma disconnect_calls [simp]: "calls (dbus_transport_disconnect vt s) = calls s"
  by (simp add: dbus_transport_disconnect_def run_hook_def)

lemma disconnect_authenticated:
  "\<forall>x. authenticated (disconnect vt x) \<longrightarrow> authenticated x \<Longrightarrow>
   \<not> authenticated s \<Longrightarrow> \<not> authenticated (dbus_transport_disconnect vt s)"
  by (auto simp: dbus_transport_disconnect_def run_hook_def)

lemma check_server_guid_calls:
  "check_server_guid env vt s = Inl (r, s') \<Longrightarrow>
     \<not> r \<and> (calls s' = calls s \<and> expected_guid s = None \<and>
             fst (strdup env (auth_get_guid_from_server env (auth s) (world s)) (world s)) = None
           \<or> expected_guid s \<noteq> None \<and> (\<exists>c. calls s' = calls s @ [ConnectionUnref c]))"
  "check_server_guid env vt s = Inr s' \<Longrightarrow> calls s' = calls s \<and>
      (expected_guid s = None \<longrightarrow>
         fst (strdup env (auth_get_guid_from_server env (auth s) (world s)) (world s)) \<noteq> None)"
  by (auto simp: check_server_guid_def Let_def call_defs split: if_splits prod.splits option.splits)

lemma check_auth_identity_calls:
  "check_auth_identity env vt s = Inl (r, s') \<Longrightarrow>
     \<not> r \<and> (\<exists>evs c. calls s' = calls s @ evs @ [ConnectionUnref c] \<and>
                  filter is_conn_ref evs = [] \<and> filter is_conn_unref evs = [])"
  "check_auth_identity env vt s = Inr s' \<Longrightarrow>
     (\<exists>evs. calls s' = calls s @ evs \<and>
                  filter is_conn_ref evs = [] \<and> filter is_conn_unref evs = [])"
  by (auto simp: check_auth_identity_def Let_def call_defs is_conn_ref_def is_conn_unref_def
      split: if_splits prod.splits option.splits)

lemma check_server_guid_is_server:
  "check_server_guid env vt s = Inr s' \<Longrightarrow> is_server s' = is_server s \<and> connection s' = connection s"
  by (auto simp: check_server_guid_def Let_def split: if_splits prod.splits option.splits)

lemma is_authenticated_connection_refs:
  assumes na: "\<not> authenticated s" and nd: "\<not> disconnected s"
    and r: "dbus_transport_get_is_authenticated env vt s = (r, s')"
  shows "\<exists>evs. calls s' = calls s @ ConnectionRef (connection s) # evs \<and>
           filter is_conn_ref evs = [] \<and>
           length (filter is_conn_unref evs) = (if guid_copy_fails env s then 0 else 1)"
proof -
  let ?s1 = "dbus_connection_ref_unlocked env (connection s) s"
  have c1: "calls ?s1 = calls s @ [ConnectionRef (connection s)]"
    by (simp add: call_defs)
  obtain m s2 where m: "(if \<not> (send_credentials_pending ?s1 \<or> receive_credentials_pending ?s1) then
                 (case auth_do_work env (auth ?s1) (world ?s1) of
                    (st, w) \<Rightarrow> (st = DBUS_AUTH_STATE_AUTHENTICATED, ?s1\<lparr>world := w\<rparr>))
               else (False, ?s1)) = (m, s2)"
    by fastforce
  from m have c2: "calls s2 = calls ?s1" "is_server s2 = is_server s"
      "expected_guid s2 = expected_guid s" "auth s2 = auth s"
    by (auto simp: call_defs split: if_splits prod.splits)
  from m have mdef: "m = (\<not> send_credentials_pending s \<and> \<not> receive_credentials_pending s \<and>
      fst (auth_do_work env (auth s) (connection_ref_unlocked env (connection s) (world s)))
        = DBUS_AUTH_STATE_AUTHENTICATED)"
     and w2: "m \<Longrightarrow> world s2 = snd (auth_do_work env (auth s) (connection_ref_unlocked env (connection s) (world s)))"
    by (auto simp: call_defs split: if_splits prod.splits)
  have gcf: "guid_copy_fails env s = (m \<and> \<not> is_server s \<and> expected_guid s = None \<and>
       fst (strdup env (auth_get_guid_from_server env (auth s2) (world s2)) (world s2)) = None)"
    using mdef w2 c2 by (auto simp: guid_copy_fails_def split: prod.splits)
  from r na nd m have r2: "(case (if m \<and> \<not> is_server s2
               then check_server_guid env vt s2 else Inr s2) of
           Inl r \<Rightarrow> r
         | Inr s3 \<Rightarrow>
             (case (if m \<and> is_server s3
                    then check_auth_identity env vt s3 else Inr s3) of
                Inl r \<Rightarrow> r
              | Inr s4 \<Rightarrow>
                  let s5 = s4\<lparr>authenticated := m\<rparr>;
                      s6 = dbus_connection_unref_unlocked env (connection s5) s5
                  in (m, s6))) = (r, s')"
    by (simp add: dbus_transport_get_is_authenticated_def Let_def)
  show ?thesis
  proof (cases "m \<and> \<not> is_server s2")
    case True
    show ?thesis
    proof (cases "check_server_guid env vt s2")
      case (Inl a)
      with True r2 have "check_server_guid env vt s2 = Inl (r, s')" by simp
      from check_server_guid_calls(1)[OF this] True c1 c2 gcf show ?thesis
        by (auto simp: is_conn_ref_def is_conn_unref_def)
    next
      case (Inr s3)
      from check_server_guid_calls(2)[OF Inr] check_server_guid_is_server[OF Inr] True r2 Inr c1 c2 gcf
      show ?thesis
        by (auto simp: call_defs is_conn_ref_def is_conn_unref_def)
    qed
  next
    case False
    show ?thesis
    proof (cases "m \<and> is_server s2")
      case srv: True
      show ?thesis
      proof (cases "check_auth_identity env vt s2")
        case (Inl a)
        with srv r2 have "check_auth_identity env vt s2 = Inl (r, s')" by auto
        from check_auth_identity_calls(1)[OF this] srv c1 c2 gcf show ?thesis
          by (auto simp: is_conn_ref_def is_conn_unref_def)
      next
        case (Inr s4)
        from check_auth_identity_calls(2)[OF Inr] srv r2 Inr c1 c2 gcf
        show ?thesis
          by (auto simp: call_defs is_conn_ref_def is_conn_unref_def)
      qed
    next
      case nsrv: False
      with False r2 c1 c2 gcf show ?thesis
        by (auto simp: call_defs is_conn_ref_def is_conn_unref_def)
    qed
  qed
qed

lemma peer_rejected_calls [simp]: "peer_rejected env (s\<lparr>calls := c\<rparr>) = peer_rejected env s"
  by (simp add: peer_rejected_def)

lemma quiet_disconnect [simp]:
  "disconnect_hook_quiet vt \<Longrightarrow> \<not> authenticated s \<Longrightarrow>
   authenticated (dbus_transport_disconnect vt s) = False"
  by (auto simp: dbus_transport_disconnect_def run_hook_def disconnect_hook_quiet_def)

lemma check_server_guid_unauthenticated:
  assumes "disconnect_hook_quiet vt" "\<not> authenticated s"
    and "check_server_guid env vt s = Inl (r, s')"
  shows "\<not> authenticated s'"
  using assms(3) assms(1,2)
  by (auto simp: check_server_guid_def Let_def split: if_splits prod.splits option.splits)

lemma check_auth_identity_unauthenticated:
  assumes "disconnect_hook_quiet vt" "\<not> authenticated s"
    and "check_auth_identity env vt s = Inl (r, s')"
  shows "\<not> authenticated s'"
  using assms(3) assms(1,2)
  by (auto simp: check_auth_identity_def Let_def call_defs split: if_splits prod.splits)

text \<open>
  Claim C3. Take a connected transport that is not yet authenticated, with no
  credentials pending, whose authenticator reports \<open>Authenticated\<close> when stepped. If the
  peer is rejected (GUID mismatch on the client side; refusal by the
  \<open>unix_user_function\<close> or identity mismatch on the server side) then
  \<open>_dbus_transport_get_is_authenticated\<close> returns \<open>FALSE\<close> and leaves the transport
  disconnected. If moreover the backend's disconnect hook does not set
  \<open>authenticated\<close>, the transport is left unauthenticated and its dispatch status is
  not \<open>DATA_REMAINS\<close>: no message is exposed.
\<close>

theorem rejected_peer_is_disconnected:
  assumes "\<not> authenticated s" "\<not> disconnected s"
    and "\<not> send_credentials_pending s" "\<not> receive_credentials_pending s"
    and work: "auth_do_work env (auth s) (connection_ref_unlocked env (connection s) (world s)) =
             (DBUS_AUTH_STATE_AUTHENTICATED, w)"
    and rej: "peer_rejected env (s\<lparr>world := w\<rparr>)"
  shows "\<not> fst (dbus_transport_get_is_authenticated env vt s) \<and>
         disconnected (snd (dbus_transport_get_is_authenticated env vt s)) \<and>
         (disconnect_hook_quiet vt \<longrightarrow>
            \<not> authenticated (snd (dbus_transport_get_is_authenticated env vt s)) \<and>
            fst (dbus_transport_get_dispatch_status env vt
                   (snd (dbus_transport_get_is_authenticated env vt s))) \<noteq> DBUS_DISPATCH_DATA_REMAINS)"
proof -
  let ?s2 = "s\<lparr>calls := calls s @ [ConnectionRef (connection s)], world := w\<rparr>"
  from rej have rej2: "peer_rejected env ?s2"
    by (simp add: peer_rejected_def Let_def cong: if_cong)
  have main: "\<not> fst (dbus_transport_get_is_authenticated env vt s) \<and>
         disconnected (snd (dbus_transport_get_is_authenticated env vt s))"
    using is_authenticated_rejects[OF assms(1-5) rej2] .
  have "\<not> authenticated (snd (dbus_transport_get_is_authenticated env vt s))"
    if h: "disconnect_hook_quiet vt"
  proof (cases "is_server s")
    case True
    then have "is_server ?s2" by simp
    from check_auth_identity_rejects[OF this rej2, of vt] obtain s' where
      c: "check_auth_identity env vt ?s2 = Inl (False, s')" by blast
    from check_auth_identity_unauthenticated[OF h _ c] assms(1) have "\<not> authenticated s'" by simp
    with c assms True show ?thesis
      by (simp add: dbus_transport_get_is_authenticated_def Let_def call_defs)
  next
    case False
    then have "\<not> is_server ?s2" by simp
    from check_server_guid_rejects[OF this rej2, of vt] obtain s' where
      c: "check_server_guid env vt ?s2 = Inl (False, s')" by blast
    from check_server_guid_unauthenticated[OF h _ c] assms(1) have "\<not> authenticated s'" by simp
    with c assms False show ?thesis
      by (simp add: dbus_transport_get_is_authenticated_def Let_def call_defs)
  qed
  with main dead_transport_no_data show ?thesis by blast
qed


theorem rejected_peer_is_disconnected_witness:
  "auth_do_work scenario_env
     (auth (ready_client (Some ''g1'') (scenario_world0\<lparr>sw_server_guid := ''g2''\<rparr>)))
     (connection_ref_unlocked scenario_env
        (connection (ready_client (Some ''g1'') (scenario_world0\<lparr>sw_server_guid := ''g2''\<rparr>)))
        (world (ready_client (Some ''g1'') (scenario_world0\<lparr>sw_server_guid := ''g2''\<rparr>)))) =
     (DBUS_AUTH_STATE_AUTHENTICATED, scenario_world0\<lparr>sw_server_guid := ''g2''\<rparr>) \<and>
   peer_rejected scenario_env
     ((ready_client (Some ''g1'') (scenario_world0\<lparr>sw_server_guid := ''g2''\<rparr>))
        \<lparr>world := scenario_world0\<lparr>sw_server_guid := ''g2''\<rparr>\<rparr>) \<and>
   dbus_transport_get_is_authenticated scenario_env scenario_vtable
     (ready_client (Some ''g1'') (scenario_world0\<lparr>sw_server_guid := ''g2''\<rparr>)) =
     (False, (ready_client (Some ''g1'') (scenario_world0\<lparr>sw_server_guid := ''g2''\<rparr>))
               \<lparr>disconnected := True, calls := [ConnectionRef 7, ConnectionUnref 7]\<rparr>) \<and>
   disconnect_hook_quiet scenario_vtable \<and>
   fst (dbus_transport_get_dispatch_status scenario_env scenario_vtable
          (snd (dbus_transport_get_is_authenticated scenario_env scenario_vtable
                  (ready_client (Some ''g1'') (scenario_world0\<lparr>sw_server_guid := ''g2''\<rparr>))))) \<noteq>
     DBUS_DISPATCH_DATA_REMAINS"
proof -
  let ?w = "scenario_world0\<lparr>sw_server_guid := ''g2''\<rparr>"
  let ?s = "ready_client (Some ''g1'') ?w"
  have a: "\<not> authenticated ?s" "\<not> disconnected ?s" "\<not> send_credentials_pending ?s"
    "\<not> receive_credentials_pending ?s"
    by (simp_all add: scenario_defs)
  have work: "auth_do_work scenario_env (auth ?s)
      (connection_ref_unlocked scenario_env (connection ?s) (world ?s)) =
      (DBUS_AUTH_STATE_AUTHENTICATED, ?w)"
    by (simp add: scenario_defs)
  have rej: "peer_rejected scenario_env (?s\<lparr>world := ?w\<rparr>)"
    by (simp add: peer_rejected_def scenario_defs)
  have ev: "dbus_transport_get_is_authenticated scenario_env scenario_vtable ?s =
     (False, ?s\<lparr>disconnected := True, calls := [ConnectionRef 7, ConnectionUnref 7]\<rparr>)"
    by (simp add: dbus_transport_get_is_authenticated_def check_server_guid_def
        dbus_transport_disconnect_def run_hook_def Let_def call_defs scenario_defs)
  have q: "disconnect_hook_quiet scenario_vtable"
    by (simp add: disconnect_hook_quiet_def scenario_vtable_def)
  from rejected_peer_is_disconnected[OF a work rej, of scenario_vtable] q
  have "fst (dbus_transport_get_dispatch_status scenario_env scenario_vtable
          (snd (dbus_transport_get_is_authenticated scenario_env scenario_vtable ?s))) \<noteq>
     DBUS_DISPATCH_DATA_REMAINS"
    by blast
  with work rej ev q show ?thesis by blast
qed

text \<open>
  Claim C4 fails on the code. On the path where \<open>_dbus_strdup\<close> of the server GUID returns
  \<open>NULL\<close>, \<open>_dbus_transport_get_is_authenticated\<close> returns \<open>FALSE\<close> without
  \<open>_dbus_connection_unref_unlocked\<close>: the log holds the reference taken at entry and no
  release. (Lemma \<open>is_authenticated_connection_refs\<close> above: on every other path of a
  connected, unauthenticated transport the reference is released exactly once.)
\<close>

theorem guid_copy_failure_keeps_connection_ref:
  "dbus_transport_get_is_authenticated scenario_env scenario_vtable
     (ready_client None (scenario_world0\<lparr>sw_alloc_failures := [True]\<rparr>)) =
     (False, (ready_client None scenario_world0)\<lparr>calls := [ConnectionRef 7]\<rparr>)"
  by (simp add: dbus_transport_get_is_authenticated_def check_server_guid_def
      Let_def call_defs scenario_defs)

section \<open>Opening a transport\<close>


lemma try_all_not_handled:
  "all_not_handled pre entry w = Some w2 \<Longrightarrow>
   try_open_funcs (pre @ rest) entry None None w = try_open_funcs rest entry None None w2"
proof (induction pre arbitrary: w)
  case Nil
  then show ?case by simp
next
  case (Cons f pre)
  from Cons.prems obtain w1 where
    f: "f entry None None w = Some ((DBUS_TRANSPORT_OPEN_NOT_HANDLED, None, None), w1)"
    and r: "all_not_handled pre entry w1 = Some w2"
    by (auto split: option.splits prod.splits DBusTransportOpenResult.splits)
  from Cons.IH[OF r] f show ?case by simp
qed

lemma autolaunch_not_handled:
  "dbus_address_entry_get_method entry \<noteq> ''autolaunch'' \<Longrightarrow>
   dbus_transport_open_autolaunch env open_rec entry None None w =
     Some ((DBUS_TRANSPORT_OPEN_NOT_HANDLED, None, None), w)"
  by (simp add: dbus_transport_open_autolaunch_def)

text \<open>
  Claim C7. Let the GUID of the entry, if it has one, be copied. The table of
  \<open>_dbus_transport_open\<close> is socket, platform-specific, autolaunch and, in test builds
  only, debug-pipe, in this order. If the functions before some function \<open>f\<close> of the
  table all answer "not handled", then: when \<open>f\<close> answers OK with a transport, that
  transport is returned (carrying the expected GUID) and no later function is called;
  when \<open>f\<close> answers "bad address" or "did not connect" with an error, \<open>NULL\<close> is
  returned with that error. If every function of the table answers "not handled",
  \<open>NULL\<close> is returned with a bad-address error naming the valid address types.
\<close>

theorem open_tries_backends_in_order:
  assumes guid: "dbus_strdup env (dbus_address_entry_get_value entry ''guid'') w = (g, w1)"
    and copied: "dbus_address_entry_get_value entry ''guid'' = None \<or> g \<noteq> None"
    and table: "funcs = open_funcs tests be
                  (dbus_transport_open_autolaunch env (dbus_transport_open n tests env be))"
  shows "funcs = [dbus_transport_open_socket be, dbus_transport_open_platform_specific be,
                  dbus_transport_open_autolaunch env (dbus_transport_open n tests env be)]
                 @ (if tests then [dbus_transport_open_debug_pipe be] else []) \<and>
    (\<forall>pre f post w2 t w3.
       funcs = pre @ f # post \<and> all_not_handled pre entry w1 = Some w2 \<and>
       f entry None None w2 = Some ((DBUS_TRANSPORT_OPEN_OK, Some t, None), w3) \<longrightarrow>
       dbus_transport_open (Suc n) tests env be entry error w =
         Some ((Some (t\<lparr>expected_guid := g\<rparr>), error), w3)) \<and>
    (\<forall>pre f post w2 r e w3.
       funcs = pre @ f # post \<and> all_not_handled pre entry w1 = Some w2 \<and>
       f entry None None w2 = Some ((r, None, Some e), w3) \<and>
       (r = DBUS_TRANSPORT_OPEN_BAD_ADDRESS \<or> r = DBUS_TRANSPORT_OPEN_DID_NOT_CONNECT) \<longrightarrow>
       dbus_transport_open (Suc n) tests env be entry error w =
         Some ((None, Some e), dbus_free_chars env g w3)) \<and>
    (\<forall>w2. all_not_handled funcs entry w1 = Some w2 \<longrightarrow>
       dbus_transport_open (Suc n) tests env be entry error w =
         Some ((None, Some (Error_bad_address unknown_address_type)), dbus_free_chars env g w2))"
proof -
  have o: "dbus_transport_open (Suc n) tests env be entry error w =
      (case try_open_funcs funcs entry None None w1 of
           None \<Rightarrow> None
         | Some ((transport, tmp_error), w2) \<Rightarrow>
             (case transport of
                None \<Rightarrow>
                  let tmp_error1 = (if tmp_error = None
                                    then Some (Error_bad_address unknown_address_type)
                                    else tmp_error)
                  in Some ((None, tmp_error1), dbus_free_chars env g w2)
              | Some t \<Rightarrow> Some ((Some (t\<lparr>expected_guid := g\<rparr>), error), w2)))"
    using guid copied by (auto simp: transport_open_with_def table)
  have 1: "dbus_transport_open (Suc n) tests env be entry error w =
         Some ((Some (t\<lparr>expected_guid := g\<rparr>), error), w3)"
    if "funcs = pre @ f # post" "all_not_handled pre entry w1 = Some w2"
       "f entry None None w2 = Some ((DBUS_TRANSPORT_OPEN_OK, Some t, None), w3)"
    for pre f post w2 t w3
    unfolding o using that try_all_not_handled[OF that(2), of "f # post"] by simp
  have 2: "dbus_transport_open (Suc n) tests env be entry error w =
         Some ((None, Some e), dbus_free_chars env g w3)"
    if "funcs = pre @ f # post" "all_not_handled pre entry w1 = Some w2"
       "f entry None None w2 = Some ((r, None, Some e), w3)"
       "r = DBUS_TRANSPORT_OPEN_BAD_ADDRESS \<or> r = DBUS_TRANSPORT_OPEN_DID_NOT_CONNECT"
    for pre f post w2 r e w3
    unfolding o using that try_all_not_handled[OF that(2), of "f # post"] by auto
  have 3: "dbus_transport_open (Suc n) tests env be entry error w =
         Some ((None, Some (Error_bad_address unknown_address_type)), dbus_free_chars env g w2)"
    if "all_not_handled funcs entry w1 = Some w2" for w2
    unfolding o using try_all_not_handled[OF that, of "[]"] by simp
  from 1 2 3 show ?thesis
    unfolding table open_funcs_def by blast
qed

theorem open_tries_backends_in_order_witness:
  "dbus_strdup scenario_env
     (dbus_address_entry_get_value \<lparr>entry_method = ''debug-pipe'', entry_values = [(''name'', ''foo'')]\<rparr> ''guid'')
     scenario_world0 = (None, scenario_world0) \<and>
   all_not_handled
     [dbus_transport_open_socket (scenario_backends [''foo'']),
      dbus_transport_open_platform_specific (scenario_backends [''foo'']),
      dbus_transport_open_autolaunch scenario_env
        (dbus_transport_open 0 True scenario_env (scenario_backends [''foo'']))]
     \<lparr>entry_method = ''debug-pipe'', entry_values = [(''name'', ''foo'')]\<rparr> scenario_world0 =
     Some scenario_world0 \<and>
   dbus_transport_open_debug_pipe (scenario_backends [''foo''])
     \<lparr>entry_method = ''debug-pipe'', entry_values = [(''name'', ''foo'')]\<rparr> None None scenario_world0 =
     Some ((DBUS_TRANSPORT_OPEN_OK, Some (client_struct ''debug-pipe:name=foo''), None), scenario_world0) \<and>
   dbus_transport_open (Suc 0) True scenario_env (scenario_backends [''foo''])
     \<lparr>entry_method = ''debug-pipe'', entry_values = [(''name'', ''foo'')]\<rparr> None scenario_world0 =
     Some ((Some ((client_struct ''debug-pipe:name=foo'')\<lparr>expected_guid := None\<rparr>), None), scenario_world0)"
proof -
  let ?be = "scenario_backends [''foo''] :: scenario_world backends"
  let ?entry = "\<lparr>entry_method = ''debug-pipe'', entry_values = [(''name'', ''foo'')]\<rparr>"
  let ?al = "dbus_transport_open_autolaunch scenario_env
        (dbus_transport_open 0 True scenario_env ?be)"
  let ?funcs = "open_funcs True ?be ?al"
  have guid: "dbus_strdup scenario_env (dbus_address_entry_get_value ?entry ''guid'') scenario_world0 =
      (None, scenario_world0)"
    by (simp add: dbus_strdup_def dbus_address_entry_get_value_def)
  have copied: "dbus_address_entry_get_value ?entry ''guid'' = None \<or> (None :: string option) \<noteq> None"
    by (simp add: dbus_address_entry_get_value_def)
  have split: "?funcs = [dbus_transport_open_socket ?be, dbus_transport_open_platform_specific ?be, ?al]
       @ dbus_transport_open_debug_pipe ?be # []"
    by (simp add: open_funcs_def)
  have skip: "all_not_handled
       [dbus_transport_open_socket ?be, dbus_transport_open_platform_specific ?be, ?al]
       ?entry scenario_world0 = Some scenario_world0"
    by (simp add: scenario_backends_def dbus_transport_open_autolaunch_def
        dbus_address_entry_get_method_def)
  have hit: "dbus_transport_open_debug_pipe ?be ?entry None None scenario_world0 =
      Some ((DBUS_TRANSPORT_OPEN_OK, Some (client_struct ''debug-pipe:name=foo''), None), scenario_world0)"
    by (simp add: scenario_backends_def)
  from open_tries_backends_in_order[OF guid copied refl, of True ?be 0 None] split skip hit
  have "dbus_transport_open (Suc 0) True scenario_env ?be ?entry None scenario_world0 =
     Some ((Some ((client_struct ''debug-pipe:name=foo'')\<lparr>expected_guid := None\<rparr>), None), scenario_world0)"
    by blast
  with guid skip hit show ?thesis by blast
qed

section \<open>Queueing received messages\<close>


lemma is_delivery_simps [simp]:
  "is_delivery (PopLink l)" "is_delivery (PutbackLink l)" "is_delivery (QueueReceived c l)"
  "\<not> is_delivery (ConnectionRef c)" "\<not> is_delivery (ConnectionUnref c)"
  "\<not> is_delivery (ConnectionLock c)" "\<not> is_delivery (ConnectionUnlock c)"
  "\<not> is_delivery (Acquire x)" "\<not> is_delivery (Release x)"
  by (simp_all add: is_delivery_def)

lemma check_server_guid_quiet:
  "check_server_guid env vt s = Inl (r, s') \<Longrightarrow>
     \<exists>evs. calls s' = calls s @ evs \<and> filter is_delivery evs = []"
  "check_server_guid env vt s = Inr s' \<Longrightarrow>
     \<exists>evs. calls s' = calls s @ evs \<and> filter is_delivery evs = []"
  by (auto simp: check_server_guid_def Let_def call_defs split: if_splits prod.splits option.splits)

lemma check_auth_identity_quiet:
  "check_auth_identity env vt s = Inl (r, s') \<Longrightarrow>
     \<exists>evs. calls s' = calls s @ evs \<and> filter is_delivery evs = []"
  "check_auth_identity env vt s = Inr s' \<Longrightarrow>
     \<exists>evs. calls s' = calls s @ evs \<and> filter is_delivery evs = []"
  by (auto simp: check_auth_identity_def Let_def call_defs split: if_splits prod.splits option.splits)

lemma is_authenticated_quiet:
  assumes "dbus_transport_get_is_authenticated env vt s = (r, s')"
  shows "\<exists>evs. calls s' = calls s @ evs \<and> filter is_delivery evs = []"
proof (cases "authenticated s \<or> disconnected s")
  case True
  with assms show ?thesis
    by (auto simp: dbus_transport_get_is_authenticated_def split: if_splits)
next
  case False
  then have na: "\<not> authenticated s" and nd: "\<not> disconnected s" by auto
  let ?s1 = "dbus_connection_ref_unlocked env (connection s) s"
  obtain m s2 where m: "(if \<not> (send_credentials_pending ?s1 \<or> receive_credentials_pending ?s1) then
                 (case auth_do_work env (auth ?s1) (world ?s1) of
                    (st, w) \<Rightarrow> (st = DBUS_AUTH_STATE_AUTHENTICATED, ?s1\<lparr>world := w\<rparr>))
               else (False, ?s1)) = (m, s2)"
    by fastforce
  from m have c2: "calls s2 = calls s @ [ConnectionRef (connection s)]"
    by (auto simp: call_defs split: if_splits prod.splits)
  from assms na nd m have r2: "(case (if m \<and> \<not> is_server s2
               then check_server_guid env vt s2 else Inr s2) of
           Inl r \<Rightarrow> r
         | Inr s3 \<Rightarrow>
             (case (if m \<and> is_server s3
                    then check_auth_identity env vt s3 else Inr s3) of
                Inl r \<Rightarrow> r
              | Inr s4 \<Rightarrow>
                  let s5 = s4\<lparr>authenticated := m\<rparr>;
                      s6 = dbus_connection_unref_unlocked env (connection s5) s5
                  in (m, s6))) = (r, s')"
    by (simp add: dbus_transport_get_is_authenticated_def Let_def)
  obtain x where x: "(if m \<and> \<not> is_server s2 then check_server_guid env vt s2 else Inr s2) = x"
    by blast
  show ?thesis
  proof (cases x)
    case (Inl a)
    with x r2 have "check_server_guid env vt s2 = Inl (r, s')"
      by (auto split: if_splits)
    from check_server_guid_quiet(1)[OF this] c2 show ?thesis by auto
  next
    case (Inr s3)
    with x have "\<exists>evs. calls s3 = calls s2 @ evs \<and> filter is_delivery evs = []"
      by (auto split: if_splits dest: check_server_guid_quiet(2))
    then obtain e3 where e3: "calls s3 = calls s2 @ e3" "filter is_delivery e3 = []" by blast
    obtain y where y: "(if m \<and> is_server s3 then check_auth_identity env vt s3 else Inr s3) = y"
      by blast
    show ?thesis
    proof (cases y)
      case (Inl a)
      with y x Inr r2 have "check_auth_identity env vt s3 = Inl (r, s')"
        by (auto split: if_splits)
      from check_auth_identity_quiet(1)[OF this] c2 e3 show ?thesis by auto
    next
      case (Inr s4)
      with y have "\<exists>evs. calls s4 = calls s3 @ evs \<and> filter is_delivery evs = []"
        by (auto split: if_splits dest: check_auth_identity_quiet(2))
      then obtain e4 where e4: "calls s4 = calls s3 @ e4" "filter is_delivery e4 = []" by blast
      from r2 x \<open>x = Inr s3\<close> y Inr have
        "s' = dbus_connection_unref_unlocked env (connection s4) (s4\<lparr>authenticated := m\<rparr>)"
        by (auto simp: Let_def)
      with c2 e3 e4 show ?thesis by (auto simp: call_defs)
    qed
  qed
qed


lemma recover_unused_bytes_calls [simp]:
  "calls (snd (recover_unused_bytes env s)) = calls s"
  by (simp add: recover_unused_bytes_def Let_def in_world_def split: prod.splits bool.splits option.splits)

lemma recover_unused_bytes_calls_eq:
  "recover_unused_bytes env s = (ok, s') \<Longrightarrow> calls s' = calls s"
  using recover_unused_bytes_calls[of env s] by simp

lemma unref_calls [simp]: "calls (dbus_transport_unref vt s) = calls s"
  by (simp add: dbus_transport_unref_def run_hook_def Let_def)

lemma notify_calls [simp]: "calls (live_messages_size_notify vt s) = calls s"
  by (simp add: live_messages_size_notify_def dbus_transport_ref_def run_hook_def Let_def
      split: option.splits)

lemma dispatch_quiet:
  assumes "dbus_transport_get_dispatch_status env vt s = (st, s')"
  shows "\<exists>evs. calls s' = calls s @ evs \<and> filter is_delivery evs = []"
proof (cases "max_live_messages_size s \<le> counter_get_value env (live_messages_size s) (world s)")
  case True
  with assms show ?thesis by (simp add: dbus_transport_get_dispatch_status_def)
next
  case False
  obtain a1 s1 where a: "dbus_transport_get_is_authenticated env vt s = (a1, s1)"
    by (cases "dbus_transport_get_is_authenticated env vt s")
  from is_authenticated_quiet[OF a] obtain e1 where
    e1: "calls s1 = calls s @ e1" "filter is_delivery e1 = []" by blast
  have tail: "\<exists>evs. calls s' = calls s4 @ evs \<and> filter is_delivery evs = []"
    if "(case and_then (spec_recover env s4) (spec_queue env) of
                Inl r \<Rightarrow> r
              | Inr s1 \<Rightarrow> spec_peek env s1) = (st, s')" for s4
  proof -
    have "calls s' = calls s4"
      using that
      by (auto simp: and_then_def spec_recover_def spec_queue_def spec_peek_def
          split: sum.splits if_splits prod.splits bool.splits
          dest: recover_unused_bytes_calls_eq)
    then show ?thesis by simp
  qed
  show ?thesis
  proof (cases a1)
    case True
    with False a assms have "(case and_then (spec_recover env s1) (spec_queue env) of
                Inl r \<Rightarrow> r
              | Inr s1 \<Rightarrow> spec_peek env s1) = (st, s')"
      by (simp add: dispatch_status_head)
    from tail[OF this] e1 show ?thesis by auto
  next
    case nauth: False
    obtain ast w where d: "auth_do_work env (auth s1) (world s1) = (ast, w)"
      by (cases "auth_do_work env (auth s1) (world s1)")
    obtain a2 s3 where b: "dbus_transport_get_is_authenticated env vt (s1\<lparr>world := w\<rparr>) = (a2, s3)"
      by (cases "dbus_transport_get_is_authenticated env vt (s1\<lparr>world := w\<rparr>)")
    from is_authenticated_quiet[OF b] obtain e3 where
      e3: "calls s3 = calls s1 @ e3" "filter is_delivery e3 = []" by auto
    show ?thesis
    proof (cases "ast = DBUS_AUTH_STATE_WAITING_FOR_MEMORY")
      case True
      with False a nauth d assms have "s' = s1\<lparr>world := w\<rparr>"
        by (simp add: dispatch_status_head)
      with e1 show ?thesis by simp
    next
      case nw: False
      show ?thesis
      proof (cases a2)
        case True
        with False a nauth d b nw assms have "(case and_then (spec_recover env s3) (spec_queue env) of
                Inl r \<Rightarrow> r
              | Inr s1 \<Rightarrow> spec_peek env s1) = (st, s')"
          by (simp add: dispatch_status_head)
        from tail[OF this] e1 e3 show ?thesis by auto
      next
        case False
        with \<open>\<not> max_live_messages_size s \<le> counter_get_value env (live_messages_size s) (world s)\<close>
          a nauth d b nw assms have "s' = s3"
          by (simp add: dispatch_status_head)
        with e1 e3 show ?thesis by auto
      qed
    qed
  qed
qed

lemma queue_step_calls:
  "queue_step env vt s = Inr s' \<Longrightarrow>
     \<exists>evs c l. calls s' = calls s @ evs @ [PopLink l, QueueReceived c l] \<and>
               filter is_delivery evs = []"
  "queue_step env vt s = Inl (status, s') \<Longrightarrow>
     (\<exists>evs. calls s' = calls s @ evs \<and> filter is_delivery evs = []) \<or>
     (\<exists>evs l. calls s' = calls s @ evs @ [PopLink l, PutbackLink l] \<and>
               filter is_delivery evs = [] \<and> status = DBUS_DISPATCH_NEED_MEMORY)"
proof -
  obtain st s1 where d: "dbus_transport_get_dispatch_status env vt s = (st, s1)"
    by (cases "dbus_transport_get_dispatch_status env vt s")
  from dispatch_quiet[OF d] obtain e1 where
    e1: "calls s1 = calls s @ e1" "filter is_delivery e1 = []" by blast
  show "queue_step env vt s = Inr s' \<Longrightarrow>
     \<exists>evs c l. calls s' = calls s @ evs @ [PopLink l, QueueReceived c l] \<and>
               filter is_delivery evs = []"
    using d e1
    by (auto simp: queue_step_def Let_def log_call_def in_world_def split: prod.splits if_splits)
  show "queue_step env vt s = Inl (status, s') \<Longrightarrow>
     (\<exists>evs. calls s' = calls s @ evs \<and> filter is_delivery evs = []) \<or>
     (\<exists>evs l. calls s' = calls s @ evs @ [PopLink l, PutbackLink l] \<and>
               filter is_delivery evs = [] \<and> status = DBUS_DISPATCH_NEED_MEMORY)"
    using d e1
    by (auto simp: queue_step_def Let_def log_call_def in_world_def split: prod.splits if_splits)
qed


lemma deliveries_Cons: "deliveries ((c, l) # cls) = PopLink l # QueueReceived c l # deliveries cls"
  by (simp add: deliveries_def)

lemma queue_loop_calls:
  "queue_loop fuel env vt s = Some (status, s1) \<Longrightarrow>
     \<exists>evs cls. calls s1 = calls s @ evs \<and>
       (filter is_delivery evs = deliveries cls \<or>
        (\<exists>l. filter is_delivery evs = deliveries cls @ [PopLink l, PutbackLink l] \<and>
             status = DBUS_DISPATCH_NEED_MEMORY))"
proof (induction fuel arbitrary: s)
  case 0
  then show ?case by simp
next
  case (Suc n)
  show ?case
  proof (cases "queue_step env vt s")
    case (Inl r)
    with Suc.prems have st: "queue_step env vt s = Inl (status, s1)" by simp
    from queue_step_calls(2)[OF st] show ?thesis
    proof
      assume "\<exists>evs. calls s1 = calls s @ evs \<and> filter is_delivery evs = []"
      then obtain evs where "calls s1 = calls s @ evs" "filter is_delivery evs = deliveries []"
        by (auto simp: deliveries_def)
      then show ?thesis by blast
    next
      assume "\<exists>evs l. calls s1 = calls s @ evs @ [PopLink l, PutbackLink l] \<and>
               filter is_delivery evs = [] \<and> status = DBUS_DISPATCH_NEED_MEMORY"
      then obtain evs l where "calls s1 = calls s @ (evs @ [PopLink l, PutbackLink l])"
        "filter is_delivery (evs @ [PopLink l, PutbackLink l]) = deliveries [] @ [PopLink l, PutbackLink l]"
        "status = DBUS_DISPATCH_NEED_MEMORY"
        by (auto simp: deliveries_def)
      then show ?thesis by blast
    qed
  next
    case (Inr s2)
    with Suc.prems have run: "queue_loop n env vt s2 = Some (status, s1)" by simp
    from queue_step_calls(1)[OF Inr] obtain e c l where
      e: "calls s2 = calls s @ e @ [PopLink l, QueueReceived c l]" "filter is_delivery e = []"
      by blast
    from Suc.IH[OF run] obtain evs cls where
      ih: "calls s1 = calls s2 @ evs"
        "filter is_delivery evs = deliveries cls \<or>
         (\<exists>l. filter is_delivery evs = deliveries cls @ [PopLink l, PutbackLink l] \<and>
             status = DBUS_DISPATCH_NEED_MEMORY)"
      by blast
    let ?evs = "e @ [PopLink l, QueueReceived c l] @ evs"
    from e ih(1) have 1: "calls s1 = calls s @ ?evs" by simp
    from e ih(2) have 2: "filter is_delivery ?evs = deliveries ((c, l) # cls) \<or>
         (\<exists>l'. filter is_delivery ?evs = deliveries ((c, l) # cls) @ [PopLink l', PutbackLink l'] \<and>
             status = DBUS_DISPATCH_NEED_MEMORY)"
      by (auto simp: deliveries_Cons)
    from 1 2 show ?thesis by blast
  qed
qed

lemma queue_loop_returns:
  assumes progress: "\<forall>a b. I a \<and> queue_step env vt a = Inr b \<longrightarrow> I b \<and> m b < (m a :: nat)"
  shows "I s \<Longrightarrow> m s < fuel \<Longrightarrow> queue_loop fuel env vt s \<noteq> None"
proof (induction fuel arbitrary: s)
  case 0
  then show ?case by simp
next
  case (Suc n)
  show ?case
  proof (cases "queue_step env vt s")
    case (Inl r)
    then show ?thesis by simp
  next
    case (Inr s2)
    with progress Suc.prems(1) have "I s2" "m s2 < m s" by blast+
    with Suc.prems have "m s2 < n" by simp
    from Suc.IH[OF \<open>I s2\<close> this] Inr show ?thesis by simp
  qed
qed

lemma queue_step_counter_failure:
  assumes d: "dbus_transport_get_dispatch_status env vt s = (DBUS_DISPATCH_DATA_REMAINS, s1)"
    and p: "message_loader_pop_message_link env (loader s1) (world s1) = (link, w)"
    and a: "message_add_size_counter env (link_data env link w) (live_messages_size s1) w =
              ((False, notified), w1)"
  shows "\<exists>s4. queue_step env vt s =
            Inl (DBUS_DISPATCH_NEED_MEMORY,
                 log_call (PutbackLink link)
                   (in_world (message_loader_putback_message_link env (loader s4) link) s4)) \<and>
          calls s4 = calls s1 @ [PopLink link]"
proof -
  let ?s3 = "(log_call (PopLink link) (s1\<lparr>world := w\<rparr>))\<lparr>world := w1\<rparr>"
  let ?s4 = "if notified then live_messages_size_notify vt ?s3 else ?s3"
  have "queue_step env vt s =
            Inl (DBUS_DISPATCH_NEED_MEMORY,
                 log_call (PutbackLink link)
                   (in_world (message_loader_putback_message_link env (loader ?s4) link) ?s4))"
    using assms by (simp add: queue_step_def Let_def log_call_def)
  moreover have "calls ?s4 = calls s1 @ [PopLink link]"
    by (simp add: log_call_def)
  ultimately show ?thesis by blast
qed

lemma corruption_sticks_Inl:
  "corruption_sticks env vt I \<Longrightarrow> I a \<Longrightarrow> loader_is_corrupted env a \<Longrightarrow>
   queue_step env vt a = Inl (status, b) \<Longrightarrow> loader_is_corrupted env b"
  unfolding corruption_sticks_def by (drule spec[of _ a]) simp

lemma corruption_sticks_Inr:
  "corruption_sticks env vt I \<Longrightarrow> I a \<Longrightarrow> queue_step env vt a = Inr b \<Longrightarrow>
   I b \<and> (loader_is_corrupted env a \<longrightarrow> loader_is_corrupted env b)"
  unfolding corruption_sticks_def by (drule spec[of _ a]) simp

lemma queue_rounds_first:
  "queue_loop n env vt s = Some r \<Longrightarrow> s \<in> set (queue_rounds n env vt s)"
  by (cases n) simp_all

lemma queue_loop_corrupted:
  assumes st: "corruption_sticks env vt I"
  shows "I s \<Longrightarrow> queue_loop fuel env vt s = Some (status, s1) \<Longrightarrow>
         x \<in> set (queue_rounds fuel env vt s) \<Longrightarrow>
         loader_is_corrupted env x \<Longrightarrow> loader_is_corrupted env s1"
proof (induction fuel arbitrary: s x)
  case 0
  then show ?case by simp
next
  case (Suc n)
  show ?case
  proof (cases "queue_step env vt s")
    case (Inl r)
    with Suc.prems(2) have e: "queue_step env vt s = Inl (status, s1)" by simp
    from Inl Suc.prems(3) have "x = s" by simp
    with Suc.prems(4) corruption_sticks_Inl[OF st Suc.prems(1) _ e] show ?thesis by simp
  next
    case (Inr s2)
    with Suc.prems(2) have run: "queue_loop n env vt s2 = Some (status, s1)" by simp
    from corruption_sticks_Inr[OF st Suc.prems(1) Inr] have i2: "I s2"
      and c: "loader_is_corrupted env s \<longrightarrow> loader_is_corrupted env s2" by simp_all
    from Inr Suc.prems(3) have x: "x = s \<or> x \<in> set (queue_rounds n env vt s2)" by simp
    from x show ?thesis
    proof
      assume "x = s"
      with Suc.prems(4) c have c2: "loader_is_corrupted env s2" by simp
      from Suc.IH[OF i2 run queue_rounds_first[OF run] c2] show ?thesis .
    next
      assume "x \<in> set (queue_rounds n env vt s2)"
      from Suc.IH[OF i2 run this Suc.prems(4)] show ?thesis .
    qed
  qed
qed

lemma queue_messages_corrupted:
  assumes st: "corruption_sticks env vt I" and i: "I s"
    and q: "dbus_transport_queue_messages fuel env vt s = Some (r, s')"
    and x: "x \<in> set (queue_rounds fuel env vt s)" "loader_is_corrupted env x"
  shows "disconnected s'"
proof -
  from q obtain status s1 where
    l: "queue_loop fuel env vt s = Some (status, s1)" and
    s': "s' = (if loader_is_corrupted env s1 then dbus_transport_disconnect vt s1 else s1)"
    by (auto simp: dbus_transport_queue_messages_def Let_def split: option.splits prod.splits)
  from queue_loop_corrupted[OF st i l x] s' show ?thesis
    by (simp add: dbus_transport_disconnect_def)
qed

text \<open>
  Claim C5. Whenever \<open>_dbus_transport_queue_messages\<close> returns, it returns \<open>FALSE\<close>
  exactly when the loop's final dispatch status is \<open>NEED_MEMORY\<close>. The log of the call
  extends the log before it (what was delivered stays delivered) by deliveries, each a
  link popped from the loader and queued on the connection, followed at most by one
  link popped and put back, in which case the result is \<open>FALSE\<close>. If the loader is
  corrupted when the loop ends the transport is disconnected, and the result is still
  decided by the final status alone; the loader is corrupted when the loop ends if it
  was at the start of any round and corruption is never taken back. When attaching the
  counter to a popped message fails, the link is put back into the loader and the call
  returns \<open>FALSE\<close>. The call
  returns whenever every round of the loop that delivers a message makes some measure
  of the states it can reach smaller, as draining a finite backlog does.
\<close>

theorem queue_messages_outcome:
  "(\<forall>r s'. dbus_transport_queue_messages fuel env vt s = Some (r, s') \<longrightarrow>
      (\<exists>status s1 evs cls.
         queue_loop fuel env vt s = Some (status, s1) \<and>
         r = (status \<noteq> DBUS_DISPATCH_NEED_MEMORY) \<and>
         s' = (if loader_is_corrupted env s1 then dbus_transport_disconnect vt s1 else s1) \<and>
         (loader_is_corrupted env s1 \<longrightarrow> disconnected s') \<and>
         calls s' = calls s @ evs \<and>
         (filter is_delivery evs = deliveries cls \<or>
          (\<exists>l. filter is_delivery evs = deliveries cls @ [PopLink l, PutbackLink l] \<and> \<not> r)))) \<and>
   (\<forall>s1 link w notified w1 n.
      dbus_transport_get_dispatch_status env vt s = (DBUS_DISPATCH_DATA_REMAINS, s1) \<and>
      message_loader_pop_message_link env (loader s1) (world s1) = (link, w) \<and>
      message_add_size_counter env (link_data env link w) (live_messages_size s1) w =
        ((False, notified), w1) \<longrightarrow>
      (\<exists>s4 s'. queue_step env vt s =
            Inl (DBUS_DISPATCH_NEED_MEMORY,
                 log_call (PutbackLink link)
                   (in_world (message_loader_putback_message_link env (loader s4) link) s4)) \<and>
          calls s4 = calls s1 @ [PopLink link] \<and>
          dbus_transport_queue_messages (Suc n) env vt s = Some (False, s'))) \<and>
   (\<forall>(m :: 'w transport_state \<Rightarrow> nat) I.
      I s \<and> (\<forall>a b. I a \<and> queue_step env vt a = Inr b \<longrightarrow> I b \<and> m b < m a) \<longrightarrow>
      dbus_transport_queue_messages (Suc (m s)) env vt s \<noteq> None) \<and>
   (\<forall>I x r s'.
      corruption_sticks env vt I \<and> I s \<and>
      dbus_transport_queue_messages fuel env vt s = Some (r, s') \<and>
      x \<in> set (queue_rounds fuel env vt s) \<and> loader_is_corrupted env x \<longrightarrow>
      disconnected s')"
proof (intro conjI allI impI)
  fix r s'
  assume q: "dbus_transport_queue_messages fuel env vt s = Some (r, s')"
  then obtain status s1 where
    l: "queue_loop fuel env vt s = Some (status, s1)" and
    r: "r = (status \<noteq> DBUS_DISPATCH_NEED_MEMORY)" and
    s': "s' = (if loader_is_corrupted env s1 then dbus_transport_disconnect vt s1 else s1)"
    by (auto simp: dbus_transport_queue_messages_def Let_def split: option.splits prod.splits)
  from queue_loop_calls[OF l] obtain evs cls where
    c: "calls s1 = calls s @ evs"
       "filter is_delivery evs = deliveries cls \<or>
        (\<exists>l. filter is_delivery evs = deliveries cls @ [PopLink l, PutbackLink l] \<and>
             status = DBUS_DISPATCH_NEED_MEMORY)"
    by blast
  have cs: "calls s' = calls s1"
    by (simp add: s' dbus_transport_disconnect_def run_hook_def)
  have dc: "loader_is_corrupted env s1 \<longrightarrow> disconnected s'"
    by (simp add: s' dbus_transport_disconnect_def)
  from l r s' c cs dc show "\<exists>status s1 evs cls.
         queue_loop fuel env vt s = Some (status, s1) \<and>
         r = (status \<noteq> DBUS_DISPATCH_NEED_MEMORY) \<and>
         s' = (if loader_is_corrupted env s1 then dbus_transport_disconnect vt s1 else s1) \<and>
         (loader_is_corrupted env s1 \<longrightarrow> disconnected s') \<and>
         calls s' = calls s @ evs \<and>
         (filter is_delivery evs = deliveries cls \<or>
          (\<exists>l. filter is_delivery evs = deliveries cls @ [PopLink l, PutbackLink l] \<and> \<not> r))"
    by (intro exI[of _ status] exI[of _ s1] exI[of _ evs] exI[of _ cls]) auto
next
  fix s1 link w notified w1 n
  assume h: "dbus_transport_get_dispatch_status env vt s = (DBUS_DISPATCH_DATA_REMAINS, s1) \<and>
      message_loader_pop_message_link env (loader s1) (world s1) = (link, w) \<and>
      message_add_size_counter env (link_data env link w) (live_messages_size s1) w =
        ((False, notified), w1)"
  from queue_step_counter_failure[of env vt s s1 link w notified w1] h obtain s4 where
    st: "queue_step env vt s =
            Inl (DBUS_DISPATCH_NEED_MEMORY,
                 log_call (PutbackLink link)
                   (in_world (message_loader_putback_message_link env (loader s4) link) s4))"
    and c4: "calls s4 = calls s1 @ [PopLink link]"
    by blast
  from st have "\<exists>s'. dbus_transport_queue_messages (Suc n) env vt s = Some (False, s')"
    by (simp add: dbus_transport_queue_messages_def Let_def)
  with st c4 show "\<exists>s4 s'. queue_step env vt s =
            Inl (DBUS_DISPATCH_NEED_MEMORY,
                 log_call (PutbackLink link)
                   (in_world (message_loader_putback_message_link env (loader s4) link) s4)) \<and>
          calls s4 = calls s1 @ [PopLink link] \<and>
          dbus_transport_queue_messages (Suc n) env vt s = Some (False, s')"
    by blast
next
  fix m :: "'w transport_state \<Rightarrow> nat" and I
  assume "I s \<and> (\<forall>a b. I a \<and> queue_step env vt a = Inr b \<longrightarrow> I b \<and> m b < m a)"
  then have i: "I s" and p: "\<forall>a b. I a \<and> queue_step env vt a = Inr b \<longrightarrow> I b \<and> m b < m a"
    by blast+
  from queue_loop_returns[OF p i, of "Suc (m s)"]
  show "dbus_transport_queue_messages (Suc (m s)) env vt s \<noteq> None"
    by (auto simp: dbus_transport_queue_messages_def Let_def split: option.splits)
next
  fix I x r s'
  assume "corruption_sticks env vt I \<and> I s \<and>
      dbus_transport_queue_messages fuel env vt s = Some (r, s') \<and>
      x \<in> set (queue_rounds fuel env vt s) \<and> loader_is_corrupted env x"
  then show "disconnected s'"
    using queue_messages_corrupted by blast
qed


lemma scenario_queue_step_progress:
  assumes "authenticated a \<and> unused_bytes_recovered a"
    and "queue_step scenario_env scenario_vtable a = Inr b"
  shows "(authenticated b \<and> unused_bytes_recovered b) \<and>
         length (sw_links (world b)) < length (sw_links (world a))"
  using assms
  by (auto simp: queue_step_def dbus_transport_get_dispatch_status_def
      dbus_transport_get_is_authenticated_def Let_def scenario_env_def NULL_def log_call_def
      in_world_def sw_alloc_def
      split: if_splits prod.splits list.splits bool.splits)


lemma scenario_corruption_sticks:
  "corruption_sticks scenario_env scenario_vtable
     (\<lambda>a. authenticated a \<and> unused_bytes_recovered a)"
  unfolding corruption_sticks_def
  by (auto simp: queue_step_def dbus_transport_get_dispatch_status_def
      dbus_transport_get_is_authenticated_def Let_def scenario_env_def NULL_def log_call_def
      in_world_def sw_alloc_def loader_is_corrupted_def live_messages_size_notify_def
      dbus_transport_ref_def dbus_transport_unref_def run_hook_def scenario_vtable_def
      split: if_splits prod.splits list.splits bool.splits sum.splits)

theorem queue_messages_outcome_witness:
  "dbus_transport_queue_messages (Suc (Suc (Suc 0))) scenario_env scenario_vtable
     (streaming_client (scenario_world0\<lparr>sw_links := [256, 512], sw_alloc_failures := [False, True]\<rparr>)) =
     Some (False,
           (streaming_client (scenario_world0\<lparr>sw_links := [512], sw_counter := 256\<rparr>))
             \<lparr>calls := [PopLink 256, QueueReceived 7 256, PopLink 512, PutbackLink 512]\<rparr>) \<and>
   dbus_transport_queue_messages (Suc (Suc (Suc 0))) scenario_env scenario_vtable
     (streaming_client (scenario_world0\<lparr>sw_links := [256, 512], sw_corrupted := True\<rparr>)) =
     Some (True,
           (streaming_client (scenario_world0\<lparr>sw_links := [], sw_corrupted := True, sw_counter := 768\<rparr>))
             \<lparr>disconnected := True,
              calls := [PopLink 256, QueueReceived 7 256, PopLink 512, QueueReceived 7 512]\<rparr>) \<and>
   dbus_transport_queue_messages
     (Suc (length (sw_links (world (streaming_client (scenario_world0\<lparr>sw_links := [256, 512]\<rparr>))))))
     scenario_env scenario_vtable
     (streaming_client (scenario_world0\<lparr>sw_links := [256, 512]\<rparr>)) \<noteq> None \<and>
   corruption_sticks scenario_env scenario_vtable
     (\<lambda>a. authenticated a \<and> unused_bytes_recovered a) \<and>
   loader_is_corrupted scenario_env
     (streaming_client (scenario_world0\<lparr>sw_links := [256, 512], sw_corrupted := True\<rparr>))"
proof -
  have 1: "dbus_transport_queue_messages (Suc (Suc (Suc 0))) scenario_env scenario_vtable
     (streaming_client (scenario_world0\<lparr>sw_links := [256, 512], sw_alloc_failures := [False, True]\<rparr>)) =
     Some (False,
           (streaming_client (scenario_world0\<lparr>sw_links := [512], sw_counter := 256\<rparr>))
             \<lparr>calls := [PopLink 256, QueueReceived 7 256, PopLink 512, PutbackLink 512]\<rparr>)"
    by (simp add: dbus_transport_queue_messages_def queue_step_def
        dbus_transport_get_dispatch_status_def dbus_transport_get_is_authenticated_def
        loader_is_corrupted_def streaming_client_def Let_def call_defs scenario_defs
        DBUS_ONE_MEGABYTE_def NULL_def)
  have 2: "dbus_transport_queue_messages (Suc (Suc (Suc 0))) scenario_env scenario_vtable
     (streaming_client (scenario_world0\<lparr>sw_links := [256, 512], sw_corrupted := True\<rparr>)) =
     Some (True,
           (streaming_client (scenario_world0\<lparr>sw_links := [], sw_corrupted := True, sw_counter := 768\<rparr>))
             \<lparr>disconnected := True,
              calls := [PopLink 256, QueueReceived 7 256, PopLink 512, QueueReceived 7 512]\<rparr>)"
    by (simp add: dbus_transport_queue_messages_def queue_step_def
        dbus_transport_get_dispatch_status_def dbus_transport_get_is_authenticated_def
        dbus_transport_disconnect_def run_hook_def
        loader_is_corrupted_def streaming_client_def Let_def call_defs scenario_defs
        DBUS_ONE_MEGABYTE_def NULL_def)
  let ?s = "streaming_client (scenario_world0\<lparr>sw_links := [256, 512]\<rparr>)"
  have i: "authenticated ?s \<and> unused_bytes_recovered ?s"
    by (simp add: streaming_client_def scenario_defs)
  have r: "dbus_transport_queue_messages (Suc (m ?s)) scenario_env scenario_vtable ?s \<noteq> None"
    if "I ?s" "\<forall>a b. I a \<and> queue_step scenario_env scenario_vtable a = Inr b \<longrightarrow> I b \<and> m b < m a"
    for m :: "scenario_world transport_state \<Rightarrow> nat" and I
    using queue_messages_outcome[of "Suc 0" scenario_env scenario_vtable ?s] that by blast
  have 3: "dbus_transport_queue_messages (Suc (length (sw_links (world ?s))))
     scenario_env scenario_vtable ?s \<noteq> None"
    by (rule r[of "\<lambda>a. authenticated a \<and> unused_bytes_recovered a" "\<lambda>a. length (sw_links (world a))"])
       (use i scenario_queue_step_progress in blast)+
  have 4: "loader_is_corrupted scenario_env
     (streaming_client (scenario_world0\<lparr>sw_links := [256, 512], sw_corrupted := True\<rparr>))"
    by (simp add: loader_is_corrupted_def streaming_client_def scenario_defs)
  from 1 2 3 4 scenario_corruption_sticks show ?thesis by blast
qed


section \<open>The authenticated flag over a lifetime\<close>


lemma keeps_refl [simp]: "keeps_authentication s s"
  by (simp add: keeps_authentication_def)

lemma keeps_trans:
  "keeps_authentication a b \<Longrightarrow> keeps_authentication b c \<Longrightarrow> keeps_authentication a c"
  by (simp add: keeps_authentication_def)

lemma keeps_same_flags:
  "authenticated b = authenticated a \<Longrightarrow>
   send_credentials_pending b = send_credentials_pending a \<Longrightarrow>
   receive_credentials_pending b = receive_credentials_pending a \<Longrightarrow>
   keeps_authentication a b"
  by (simp add: keeps_authentication_def credentials_settled_def)

lemma keeps_calls [simp]:
  "keeps_authentication a (b\<lparr>calls := c\<rparr>) = keeps_authentication a b"
  "keeps_authentication a (b\<lparr>world := w\<rparr>) = keeps_authentication a b"
  "keeps_authentication a (b\<lparr>refcount := n\<rparr>) = keeps_authentication a b"
  "keeps_authentication a (b\<lparr>disconnected := d\<rparr>) = keeps_authentication a b"
  "keeps_authentication a (b\<lparr>connection := p\<rparr>) = keeps_authentication a b"
  "keeps_authentication (a\<lparr>calls := c\<rparr>) b = keeps_authentication a b"
  "keeps_authentication (a\<lparr>world := w\<rparr>) b = keeps_authentication a b"
  "keeps_authentication (a\<lparr>refcount := n\<rparr>) b = keeps_authentication a b"
  "keeps_authentication (a\<lparr>connection := p\<rparr>) b = keeps_authentication a b"
  by (simp_all add: keeps_authentication_def credentials_settled_def)

lemma keeps_ref [simp]: "keeps_authentication s (dbus_transport_ref s)"
  by (simp add: dbus_transport_ref_def)

lemma keeps_unref:
  "vtable_keeps_authentication vt \<Longrightarrow> keeps_authentication s (dbus_transport_unref vt s)"
  by (simp add: dbus_transport_unref_def run_hook_def Let_def vtable_keeps_authentication_def)
     (metis keeps_calls(3) keeps_refl keeps_trans)

lemma keeps_disconnect:
  "vtable_keeps_authentication vt \<Longrightarrow> keeps_authentication s (dbus_transport_disconnect vt s)"
  by (simp add: dbus_transport_disconnect_def run_hook_def vtable_keeps_authentication_def)

lemma keeps_notify:
  assumes "vtable_keeps_authentication vt"
  shows "keeps_authentication s (live_messages_size_notify vt s)"
proof -
  let ?s2 = "case live_messages_changed vt of
                  None \<Rightarrow> dbus_transport_ref s
                | Some h \<Rightarrow> run_hook h (dbus_transport_ref s)"
  from assms have "keeps_authentication (dbus_transport_ref s) ?s2"
    by (auto simp: run_hook_def vtable_keeps_authentication_def split: option.splits)
  then have "keeps_authentication s ?s2"
    using keeps_trans keeps_ref by blast
  from keeps_trans[OF this keeps_unref[OF assms]] show ?thesis
    by (simp add: live_messages_size_notify_def Let_def)
qed

lemma keeps_in_world [simp]: "keeps_authentication a (in_world f b) = keeps_authentication a b"
  by (simp add: in_world_def)

lemma keeps_log_call [simp]: "keeps_authentication a (log_call e b) = keeps_authentication a b"
  by (simp add: log_call_def)

lemma keeps_connection_calls [simp]:
  "keeps_authentication a (dbus_connection_ref_unlocked env c b) = keeps_authentication a b"
  "keeps_authentication a (dbus_connection_unref_unlocked env c b) = keeps_authentication a b"
  "keeps_authentication a (dbus_connection_lock env c b) = keeps_authentication a b"
  "keeps_authentication a (dbus_connection_unlock env c b) = keeps_authentication a b"
  by (simp_all add: call_defs)

lemma check_server_guid_keeps:
  assumes "vtable_keeps_authentication vt"
  shows "check_server_guid env vt s = Inl (r, s') \<Longrightarrow> keeps_authentication s s'"
    and "check_server_guid env vt s = Inr s' \<Longrightarrow>
           authenticated s' = authenticated s \<and>
           send_credentials_pending s' = send_credentials_pending s \<and>
           receive_credentials_pending s' = receive_credentials_pending s"
  using keeps_disconnect[OF assms]
  by (auto simp: check_server_guid_def Let_def keeps_same_flags
      split: if_splits prod.splits option.splits)

lemma check_auth_identity_keeps:
  assumes "vtable_keeps_authentication vt"
  shows "check_auth_identity env vt s = Inl (r, s') \<Longrightarrow> keeps_authentication s s'"
    and "check_auth_identity env vt s = Inr s' \<Longrightarrow>
           authenticated s' = authenticated s \<and>
           send_credentials_pending s' = send_credentials_pending s \<and>
           receive_credentials_pending s' = receive_credentials_pending s"
proof -
  have d: "keeps_authentication s (dbus_transport_disconnect vt x)"
    if "keeps_authentication s x" for x
    using keeps_trans[OF that keeps_disconnect[OF assms]] .
  show "check_auth_identity env vt s = Inl (r, s') \<Longrightarrow> keeps_authentication s s'"
    by (auto simp: check_auth_identity_def Let_def split: if_splits prod.splits intro!: d)
  show "check_auth_identity env vt s = Inr s' \<Longrightarrow>
           authenticated s' = authenticated s \<and>
           send_credentials_pending s' = send_credentials_pending s \<and>
           receive_credentials_pending s' = receive_credentials_pending s"
    by (auto simp: check_auth_identity_def Let_def call_defs split: if_splits prod.splits)
qed


lemma is_authenticated_keeps:
  assumes vt: "vtable_keeps_authentication vt"
  shows "keeps_authentication s (snd (dbus_transport_get_is_authenticated env vt s))"
proof (cases "authenticated s \<or> disconnected s")
  case True
  then show ?thesis
    by (auto simp: dbus_transport_get_is_authenticated_def)
next
  case False
  then have na: "\<not> authenticated s" and nd: "\<not> disconnected s" by auto
  let ?s1 = "dbus_connection_ref_unlocked env (connection s) s"
  obtain m s2 where m: "(if \<not> (send_credentials_pending ?s1 \<or> receive_credentials_pending ?s1) then
                 (case auth_do_work env (auth ?s1) (world ?s1) of
                    (st, w) \<Rightarrow> (st = DBUS_AUTH_STATE_AUTHENTICATED, ?s1\<lparr>world := w\<rparr>))
               else (False, ?s1)) = (m, s2)"
    by fastforce
  from m have f2: "authenticated s2 = authenticated s"
      "send_credentials_pending s2 = send_credentials_pending s"
      "receive_credentials_pending s2 = receive_credentials_pending s"
    and mf: "m \<longrightarrow> \<not> send_credentials_pending s \<and> \<not> receive_credentials_pending s"
    by (auto simp: call_defs split: if_splits prod.splits)
  have k2: "keeps_authentication s s2"
    using f2 by (simp add: keeps_same_flags)
  obtain r s' where rs: "dbus_transport_get_is_authenticated env vt s = (r, s')"
    by (cases "dbus_transport_get_is_authenticated env vt s")
  from rs na nd m have r2: "(case (if m \<and> \<not> is_server s2
               then check_server_guid env vt s2 else Inr s2) of
           Inl r \<Rightarrow> r
         | Inr s3 \<Rightarrow>
             (case (if m \<and> is_server s3
                    then check_auth_identity env vt s3 else Inr s3) of
                Inl r \<Rightarrow> r
              | Inr s4 \<Rightarrow>
                  let s5 = s4\<lparr>authenticated := m\<rparr>;
                      s6 = dbus_connection_unref_unlocked env (connection s5) s5
                  in (m, s6))) = (r, s')"
    by (simp add: dbus_transport_get_is_authenticated_def Let_def)
  obtain x where x: "(if m \<and> \<not> is_server s2 then check_server_guid env vt s2 else Inr s2) = x"
    by blast
  have "keeps_authentication s s'"
  proof (cases x)
    case (Inl a)
    with x r2 have "check_server_guid env vt s2 = Inl (r, s')"
      by (auto split: if_splits)
    from check_server_guid_keeps(1)[OF vt this] k2 show ?thesis
      using keeps_trans by blast
  next
    case (Inr s3)
    with x have f3: "authenticated s3 = authenticated s2 \<and>
           send_credentials_pending s3 = send_credentials_pending s2 \<and>
           receive_credentials_pending s3 = receive_credentials_pending s2"
      by (auto split: if_splits dest: check_server_guid_keeps(2)[OF vt])
    obtain y where y: "(if m \<and> is_server s3 then check_auth_identity env vt s3 else Inr s3) = y"
      by blast
    show ?thesis
    proof (cases y)
      case (Inl a)
      with y x Inr r2 have "check_auth_identity env vt s3 = Inl (r, s')"
        by (auto split: if_splits)
      from check_auth_identity_keeps(1)[OF vt this] have "keeps_authentication s3 s'" .
      moreover from f3 f2 have "keeps_authentication s s3" by (simp add: keeps_same_flags)
      ultimately show ?thesis using keeps_trans by blast
    next
      case (Inr s4)
      with y have f4: "authenticated s4 = authenticated s3 \<and>
           send_credentials_pending s4 = send_credentials_pending s3 \<and>
           receive_credentials_pending s4 = receive_credentials_pending s3"
        by (auto split: if_splits dest: check_auth_identity_keeps(2)[OF vt])
      from r2 x \<open>x = Inr s3\<close> y Inr have
        "s' = dbus_connection_unref_unlocked env (connection s4) (s4\<lparr>authenticated := m\<rparr>)"
        by (auto simp: Let_def)
      with f2 f3 f4 mf na show ?thesis
        by (simp add: keeps_authentication_def credentials_settled_def call_defs)
    qed
  qed
  with rs show ?thesis by simp
qed

lemma recover_unused_bytes_flags:
  "authenticated (snd (recover_unused_bytes env s)) = authenticated s \<and>
   send_credentials_pending (snd (recover_unused_bytes env s)) = send_credentials_pending s \<and>
   receive_credentials_pending (snd (recover_unused_bytes env s)) = receive_credentials_pending s"
  by (simp add: recover_unused_bytes_def Let_def in_world_def
      split: prod.splits bool.splits option.splits)

lemma recover_unused_bytes_keeps:
  "recover_unused_bytes env s = (ok, s') \<Longrightarrow> keeps_authentication s s'"
  using recover_unused_bytes_flags[of env s] by (simp add: keeps_same_flags)

lemma keeps_unused [simp]:
  "keeps_authentication a (b\<lparr>unused_bytes_recovered := u\<rparr>) = keeps_authentication a b"
  by (simp add: keeps_authentication_def credentials_settled_def)

lemma dispatch_keeps:
  assumes vt: "vtable_keeps_authentication vt"
  shows "keeps_authentication s (snd (dbus_transport_get_dispatch_status env vt s))"
proof -
  obtain st s' where d: "dbus_transport_get_dispatch_status env vt s = (st, s')"
    by (cases "dbus_transport_get_dispatch_status env vt s")
  have tail: "keeps_authentication s4 s'"
    if "(case and_then (spec_recover env s4) (spec_queue env) of
                Inl r \<Rightarrow> r
              | Inr s1 \<Rightarrow> spec_peek env s1) = (st, s')" for s4
    using that
    by (auto simp: and_then_def spec_recover_def spec_queue_def spec_peek_def
          split: sum.splits if_splits prod.splits bool.splits
          dest: recover_unused_bytes_keeps)
  obtain a1 s1 where a: "dbus_transport_get_is_authenticated env vt s = (a1, s1)"
    by (cases "dbus_transport_get_is_authenticated env vt s")
  from is_authenticated_keeps[OF vt, of s env] a have k1: "keeps_authentication s s1" by simp
  obtain ast w where w: "auth_do_work env (auth s1) (world s1) = (ast, w)"
    by (cases "auth_do_work env (auth s1) (world s1)")
  obtain a2 s3 where b: "dbus_transport_get_is_authenticated env vt (s1\<lparr>world := w\<rparr>) = (a2, s3)"
    by (cases "dbus_transport_get_is_authenticated env vt (s1\<lparr>world := w\<rparr>)")
  from is_authenticated_keeps[OF vt, of "s1\<lparr>world := w\<rparr>" env] b
  have k3: "keeps_authentication s1 s3" by simp
  have "keeps_authentication s s'"
  proof (cases "max_live_messages_size s \<le> counter_get_value env (live_messages_size s) (world s)")
    case True
    with d show ?thesis by (simp add: dbus_transport_get_dispatch_status_def)
  next
    case False
    show ?thesis
    proof (cases a1)
      case True
      with False a d have "(case and_then (spec_recover env s1) (spec_queue env) of
                Inl r \<Rightarrow> r
              | Inr s1 \<Rightarrow> spec_peek env s1) = (st, s')"
        by (simp add: dispatch_status_head)
      from tail[OF this] k1 show ?thesis using keeps_trans by blast
    next
      case nauth: False
      show ?thesis
      proof (cases "ast = DBUS_AUTH_STATE_WAITING_FOR_MEMORY")
        case True
        with False a nauth w d have "s' = s1\<lparr>world := w\<rparr>"
          by (simp add: dispatch_status_head)
        with k1 show ?thesis by simp
      next
        case nw: False
        show ?thesis
        proof (cases a2)
          case True
          with False a nauth w b nw d have "(case and_then (spec_recover env s3) (spec_queue env) of
                Inl r \<Rightarrow> r
              | Inr s1 \<Rightarrow> spec_peek env s1) = (st, s')"
            by (simp add: dispatch_status_head)
          from tail[OF this] k1 k3 show ?thesis using keeps_trans by blast
        next
          case False
          with \<open>\<not> max_live_messages_size s \<le> counter_get_value env (live_messages_size s) (world s)\<close>
            a nauth w b nw d have "s' = s3"
            by (simp add: dispatch_status_head)
          with k1 k3 show ?thesis using keeps_trans by blast
        qed
      qed
    qed
  qed
  with d show ?thesis by simp
qed


lemma queue_step_keeps:
  assumes vt: "vtable_keeps_authentication vt"
  shows "queue_step env vt s = Inr s' \<Longrightarrow> keeps_authentication s s'"
    and "queue_step env vt s = Inl (status, s') \<Longrightarrow> keeps_authentication s s'"
proof -
  obtain st s1 where d: "dbus_transport_get_dispatch_status env vt s = (st, s1)"
    by (cases "dbus_transport_get_dispatch_status env vt s")
  from dispatch_keeps[OF vt, of s env] d have k1: "keeps_authentication s s1" by simp
  have n: "keeps_authentication s (live_messages_size_notify vt x)"
    if "keeps_authentication s x" for x
    using keeps_trans[OF that keeps_notify[OF vt]] .
  show "queue_step env vt s = Inr s' \<Longrightarrow> keeps_authentication s s'"
    using d k1
    by (auto simp: queue_step_def Let_def split: prod.splits if_splits intro!: n)
  show "queue_step env vt s = Inl (status, s') \<Longrightarrow> keeps_authentication s s'"
    using d k1
    by (auto simp: queue_step_def Let_def split: prod.splits if_splits intro!: n)
qed

lemma queue_loop_keeps:
  assumes vt: "vtable_keeps_authentication vt"
  shows "queue_loop fuel env vt s = Some (status, s') \<Longrightarrow> keeps_authentication s s'"
proof (induction fuel arbitrary: s)
  case 0
  then show ?case by simp
next
  case (Suc n)
  show ?case
  proof (cases "queue_step env vt s")
    case (Inl r)
    with Suc.prems have "queue_step env vt s = Inl (status, s')" by simp
    from queue_step_keeps(2)[OF vt this] show ?thesis .
  next
    case (Inr s2)
    with Suc.prems have "queue_loop n env vt s2 = Some (status, s')" by simp
    from keeps_trans[OF queue_step_keeps(1)[OF vt Inr] Suc.IH[OF this]] show ?thesis .
  qed
qed

lemma queue_messages_keeps:
  assumes vt: "vtable_keeps_authentication vt"
    and q: "dbus_transport_queue_messages fuel env vt s = Some (r, s')"
  shows "keeps_authentication s s'"
proof -
  from q obtain status s1 where
    l: "queue_loop fuel env vt s = Some (status, s1)" and
    s': "s' = (if loader_is_corrupted env s1 then dbus_transport_disconnect vt s1 else s1)"
    by (auto simp: dbus_transport_queue_messages_def Let_def split: option.splits prod.splits)
  from keeps_disconnect[OF vt, of s1] s' have "keeps_authentication s1 s'" by simp
  from keeps_trans[OF queue_loop_keeps[OF vt l] this] show ?thesis .
qed

lemma handle_watch_keeps:
  assumes vt: "vtable_keeps_authentication vt"
  shows "keeps_authentication s (snd (dbus_transport_handle_watch env vt watch condition s))"
proof -
  have h: "keeps_authentication x x2"
    if a: "run_hook_result (handle_watch vt watch c) x = (r, x2)" for x c r x2
  proof -
    from vt have "keeps_authentication x (snd (handle_watch vt watch c x))"
      by (simp add: vtable_keeps_authentication_def)
    with a show ?thesis by (auto simp: run_hook_result_def split: prod.splits)
  qed
  have u: "keeps_authentication s (dbus_transport_unref vt x)" if "keeps_authentication s x" for x
    using keeps_trans[OF that keeps_unref[OF vt]] .
  show ?thesis
    by (auto simp: dbus_transport_handle_watch_def Let_def in_world_def dbus_transport_ref_def
        split: prod.splits intro!: u dest!: h)
qed

lemma set_connection_keeps:
  assumes vt: "vtable_keeps_authentication vt"
  shows "keeps_authentication s (snd (dbus_transport_set_connection vt conn s))"
proof -
  have h: "keeps_authentication x x2"
    if a: "run_hook_result (connection_set vt) x = (r, x2)" for x r x2
  proof -
    from vt have "keeps_authentication x (snd (connection_set vt x))"
      by (simp add: vtable_keeps_authentication_def)
    with a show ?thesis by (auto simp: run_hook_result_def split: prod.splits)
  qed
  have u: "keeps_authentication s (dbus_transport_unref vt x)" if "keeps_authentication s x" for x
    using keeps_trans[OF that keeps_unref[OF vt]] .
  show ?thesis
    by (auto simp: dbus_transport_set_connection_def Let_def dbus_transport_ref_def
        split: prod.splits intro!: u dest!: h)
qed

lemma get_socket_fd_keeps:
  assumes vt: "vtable_keeps_authentication vt"
  shows "keeps_authentication s (snd (dbus_transport_get_socket_fd vt s))"
proof -
  have h: "keeps_authentication x x2"
    if f: "get_socket_fd vt = Some f" and a: "run_hook_result f x = (r, x2)" for x f r x2
  proof -
    from vt f have "keeps_authentication x (snd (f x))"
      by (simp add: vtable_keeps_authentication_def)
    with a show ?thesis by (auto simp: run_hook_result_def split: prod.splits)
  qed
  have u: "keeps_authentication s (dbus_transport_unref vt x)" if "keeps_authentication s x" for x
    using keeps_trans[OF that keeps_unref[OF vt]] .
  show ?thesis
  proof (cases "get_socket_fd vt")
    case None
    then show ?thesis by (simp add: dbus_transport_get_socket_fd_def)
  next
    case (Some f)
    then show ?thesis
      by (auto simp: dbus_transport_get_socket_fd_def dbus_transport_ref_def
          split: prod.splits intro!: u dest!: h[OF Some])
  qed
qed

lemma do_iteration_keeps:
  assumes vt: "vtable_keeps_authentication vt"
  shows "keeps_authentication s (dbus_transport_do_iteration vt flags timeout s)"
proof -
  have h: "keeps_authentication x (run_hook (do_iteration vt flags timeout) x)" for x
    using vt by (simp add: run_hook_def vtable_keeps_authentication_def)
  have u: "keeps_authentication s (dbus_transport_unref vt x)" if "keeps_authentication s x" for x
    using keeps_trans[OF that keeps_unref[OF vt]] .
  show ?thesis
    using h[of "dbus_transport_ref s"]
    by (auto simp: dbus_transport_do_iteration_def Let_def intro!: u)
       (simp add: dbus_transport_ref_def)
qed

lemma transport_call_keeps:
  assumes vt: "vtable_keeps_authentication vt"
    and c: "do_transport_call env vt c s = Some s'"
  shows "keeps_authentication s s'"
proof (cases c)
  case (Call_queue_messages fuel)
  with c obtain r where "dbus_transport_queue_messages fuel env vt s = Some (r, s')"
    by auto
  from queue_messages_keeps[OF vt this] show ?thesis .
qed (use c in \<open>auto simp: keeps_unref[OF vt] keeps_disconnect[OF vt] is_authenticated_keeps[OF vt]
      handle_watch_keeps[OF vt] set_connection_keeps[OF vt] get_socket_fd_keeps[OF vt]
      do_iteration_keeps[OF vt] dispatch_keeps[OF vt] dbus_transport_set_max_message_size_def
      dbus_transport_set_max_received_size_def dbus_transport_set_unix_user_function_def
      dbus_transport_set_auth_mechanisms_def keeps_same_flags Let_def split: prod.splits\<close>)


lemma run_keeps:
  assumes vt: "vtable_keeps_authentication vt"
  shows "run_transport_calls env vt cs s = Some tr \<Longrightarrow> \<forall>x \<in> set tr. keeps_authentication s x"
proof (induction cs arbitrary: s tr)
  case Nil
  then show ?case by simp
next
  case (Cons c cs)
  from Cons.prems obtain s1 tr1 where
    c: "do_transport_call env vt c s = Some s1" and
    r: "run_transport_calls env vt cs s1 = Some tr1" and
    tr: "tr = s1 # tr1"
    by (auto split: option.splits)
  from transport_call_keeps[OF vt c] have k: "keeps_authentication s s1" .
  from Cons.IH[OF r] have ih: "\<forall>x \<in> set tr1. keeps_authentication s1 x" .
  show ?case
  proof
    fix x assume "x \<in> set tr"
    with tr have "x = s1 \<or> x \<in> set tr1" by simp
    then show "keeps_authentication s x"
    proof
      assume "x = s1"
      with k show ?thesis by simp
    next
      assume "x \<in> set tr1"
      with ih have "keeps_authentication s1 x" by blast
      from keeps_trans[OF k this] show ?thesis .
    qed
  qed
qed

lemma run_never_reverts:
  assumes vt: "vtable_keeps_authentication vt"
  shows "run_transport_calls env vt cs s = Some tr \<Longrightarrow> never_reverts (map authenticated (s # tr))"
proof (induction cs arbitrary: s tr)
  case Nil
  then show ?case by simp
next
  case (Cons c cs)
  from Cons.prems obtain s1 tr1 where
    c: "do_transport_call env vt c s = Some s1" and
    r: "run_transport_calls env vt cs s1 = Some tr1" and
    tr: "tr = s1 # tr1"
    by (auto split: option.splits)
  from transport_call_keeps[OF vt c] have "authenticated s \<longrightarrow> authenticated s1"
    by (simp add: keeps_authentication_def)
  with Cons.IH[OF r] tr show ?case by simp
qed

lemma rising_edges_stays_true: "never_reverts (True # bs) \<Longrightarrow> rising_edges (True # bs) = 0"
  by (induction bs) auto

lemma rising_edges_never_reverts: "never_reverts bs \<Longrightarrow> rising_edges bs \<le> 1"
proof (induction bs rule: rising_edges.induct)
  case (1 a b bs)
  then have nb: "never_reverts (b # bs)" and ih: "rising_edges (b # bs) \<le> 1" by simp_all
  show ?case
  proof (cases b)
    case True
    with nb rising_edges_stays_true show ?thesis by simp
  next
    case False
    with ih show ?thesis by simp
  qed
qed simp_all


lemma init_base_unauthenticated_case:
  "case dbus_transport_init_base env server_guid addr s0 of
     None \<Rightarrow> True
   | Some (r, s1) \<Rightarrow> r \<longrightarrow> \<not> authenticated s1"
  by (auto simp: dbus_transport_init_base_def call_defs init_base_fields_def Let_def
      split: prod.splits option.splits)

lemma init_base_unauthenticated:
  "dbus_transport_init_base env server_guid addr s0 = Some (True, s1) \<Longrightarrow> \<not> authenticated s1"
  using init_base_unauthenticated_case[of env server_guid addr s0] by simp

text \<open>
  Claim C1. Let the backend's hooks keep what they are relied on to keep
  (\<open>vtable_keeps_authentication\<close>). After a successful \<open>_dbus_transport_init_base\<close>,
  along every sequence of transport operations, in the initial state and after each
  operation: \<open>authenticated\<close> is never true while \<open>send_credentials_pending\<close> or
  \<open>receive_credentials_pending\<close> is true; once true it is true in every later state;
  and it goes from false to true at most once.
\<close>

theorem authenticated_monotone:
  assumes vt: "vtable_keeps_authentication vt"
    and init: "dbus_transport_init_base env server_guid addr s0 = Some (True, s1)"
    and run: "run_transport_calls env vt cs s1 = Some tr"
  shows "(\<forall>s \<in> set (s1 # tr). authenticated s \<longrightarrow>
            \<not> send_credentials_pending s \<and> \<not> receive_credentials_pending s) \<and>
         never_reverts (map authenticated (s1 # tr)) \<and>
         rising_edges (map authenticated (s1 # tr)) \<le> 1"
proof -
  from init_base_unauthenticated[OF init] have s1: "credentials_settled s1"
    by (simp add: credentials_settled_def)
  have "credentials_settled s" if "s \<in> set (s1 # tr)" for s
  proof (cases "s = s1")
    case True
    with s1 show ?thesis by simp
  next
    case False
    with that have "s \<in> set tr" by simp
    with run_keeps[OF vt run] have "keeps_authentication s1 s" by blast
    with s1 show ?thesis by (simp add: keeps_authentication_def)
  qed
  then have a: "\<forall>s \<in> set (s1 # tr). authenticated s \<longrightarrow>
            \<not> send_credentials_pending s \<and> \<not> receive_credentials_pending s"
    unfolding credentials_settled_def by blast
  from run_never_reverts[OF vt run] have b: "never_reverts (map authenticated (s1 # tr))" .
  from a b rising_edges_never_reverts[OF b] show ?thesis by blast
qed


lemma handshake_init:
  "dbus_transport_init_base scenario_env None (Some ''unix:path=/tmp/bus'')
     (blank_transport scenario_world0) =
   Some (True,
         (blank_transport (scenario_world0\<lparr>sw_next := 4144\<rparr>))
           \<lparr>refcount := 1, loader := 4096, auth := 4112, live_messages_size := 4128,
            max_live_messages_size := 66060288, send_credentials_pending := True,
            address := Some ''unix:path=/tmp/bus'',
            credentials := \<lparr>pid = -1, uid = -1, gid = -1\<rparr>,
            calls := [Acquire (Loader 4096), Acquire (Auth 4112), Acquire (Counter 4128)]\<rparr>)"
  by (simp add: dbus_transport_init_base_def call_defs init_base_fields_def Let_def NULL_def
      scenario_defs DBUS_ONE_MEGABYTE_def)

lemma handshake_run:
  "map_option (map authenticated)
     (run_transport_calls scenario_env handshaking_vtable handshake_calls
        ((blank_transport (scenario_world0\<lparr>sw_next := 4144\<rparr>))
           \<lparr>refcount := 1, loader := 4096, auth := 4112, live_messages_size := 4128,
            max_live_messages_size := 66060288, send_credentials_pending := True,
            address := Some ''unix:path=/tmp/bus'',
            credentials := \<lparr>pid = -1, uid = -1, gid = -1\<rparr>,
            calls := [Acquire (Loader 4096), Acquire (Auth 4112), Acquire (Counter 4128)]\<rparr>)) =
   Some [False, False, False, True, True, True]"
  by (simp add: handshake_calls_def handshaking_vtable_def
      dbus_transport_set_connection_def dbus_transport_get_is_authenticated_def
      dbus_transport_handle_watch_def dbus_transport_disconnect_def check_server_guid_def
      dbus_transport_ref_def dbus_transport_unref_def run_hook_def run_hook_result_def
      call_defs Let_def NULL_def scenario_defs)

lemma handshaking_vtable_keeps: "vtable_keeps_authentication handshaking_vtable"
  by (simp add: vtable_keeps_authentication_def handshaking_vtable_def scenario_vtable_def
      keeps_authentication_def credentials_settled_def)

theorem authenticated_monotone_witness:
  "vtable_keeps_authentication handshaking_vtable \<and>
   map_option fst
     (dbus_transport_init_base scenario_env None (Some ''unix:path=/tmp/bus'')
        (blank_transport scenario_world0)) = Some True \<and>
   map_option (map authenticated)
     (run_transport_calls scenario_env handshaking_vtable handshake_calls
        (snd (the (dbus_transport_init_base scenario_env None (Some ''unix:path=/tmp/bus'')
                     (blank_transport scenario_world0))))) =
     Some [False, False, False, True, True, True] \<and>
   never_reverts [False, False, False, False, True, True, True] \<and>
   rising_edges [False, False, False, False, True, True, True] = 1"
proof -
  let ?s1 = "(blank_transport (scenario_world0\<lparr>sw_next := 4144\<rparr>))
           \<lparr>refcount := 1, loader := 4096, auth := 4112, live_messages_size := 4128,
            max_live_messages_size := 66060288, send_credentials_pending := True,
            address := Some ''unix:path=/tmp/bus'',
            credentials := \<lparr>pid = -1, uid = -1, gid = -1\<rparr>,
            calls := [Acquire (Loader 4096), Acquire (Auth 4112), Acquire (Counter 4128)]\<rparr>"
  obtain tr where run: "run_transport_calls scenario_env handshaking_vtable handshake_calls ?s1 = Some tr"
    and tr: "map authenticated tr = [False, False, False, True, True, True]"
    using handshake_run by auto
  have s1: "\<not> authenticated ?s1" by (simp add: blank_transport_def)
  from authenticated_monotone[OF handshaking_vtable_keeps handshake_init run] tr s1
  have "never_reverts [False, False, False, False, True, True, True]"
    by simp
  moreover have "rising_edges [False, False, False, False, True, True, True] = 1"
    by simp
  ultimately show ?thesis
    using handshaking_vtable_keeps handshake_init handshake_run by simp
qed


end
